(* ===== verification/Prelude.thy ===== *)
theory Prelude
  imports Main "HOL-Library.Sublist" "HOL-Library.Monad_Syntax"
begin

text \<open>
  Shared vocabulary of the development. The browser client runs on one
  cooperative event loop; every component is modelled as a state record and
  operations that return the new state together with the list of the
  externally visible effects they perform, in the order the source performs
  them. This theory names the timestamps read from \<open>Date.now()\<close>, declares
  the collection of operation definitions the component proofs unfold, and
  proves the generic lemmas on counts in effect logs that the run-level
  theorems use.
\<close>

named_theorems model_defs "definitions of modelled operations, unfolded by the component proofs"

type_synonym timestamp = nat \<comment> \<open>\<open>Date.now()\<close>: milliseconds since the epoch\<close>

subsection \<open>Counting effects along runs\<close>

text \<open>
  The run-level theorems count how often an effect occurs in the effect log
  of a run; the log of a run is the concatenation of the logs of its steps.
\<close>

lemma dropWhile_no_match: "xs = [] \<or> \<not> P (hd xs) \<Longrightarrow> dropWhile P xs = xs"
  by (cases xs) auto

lemma find_append_list: "find P (xs @ ys) = (case find P xs of None \<Rightarrow> find P ys | Some x \<Rightarrow> Some x)"
  by (induction xs) auto

lemma filter_remove1_self: "P x \<Longrightarrow> filter P (remove1 x xs) = remove1 x (filter P xs)"
  by (induction xs) auto

lemma distinct_map_filter_key: "distinct (map f xs) \<Longrightarrow> length (filter (\<lambda>x. a = f x) xs) \<le> 1"
  by (induction xs) (auto simp: filter_empty_conv)

lemma count_list_map_ge_1_iff [simp]:
  "1 \<le> count_list xs x \<longleftrightarrow> x \<in> set xs"
  by (induction xs) auto

lemma count_list_map_other [simp]:
  "(\<And>y. f y \<noteq> x) \<Longrightarrow> count_list (map f ys) x = 0"
  by (induction ys) auto

lemma count_list_replicate_eq [simp]:
  "count_list (replicate n x) x = n"
  by (induction n) auto

end
