(* ===== verification/Js_Values.thy ===== *)
theory Js_Values
  imports Prelude "HOL-Library.AList"
begin

text \<open>
  The fragment of JavaScript value semantics the modelled TypeScript relies
  on: dynamically typed values as they arrive in HTTP payloads, truthiness,
  the short-circuit operators \<open>&&\<close> and \<open>??\<close>, property access (which
  throws a \<open>TypeError\<close> on \<open>null\<close> and \<open>undefined\<close>, modelled as \<open>None\<close>),
  optional chaining \<open>?.\<close>, and \<open>String.prototype.includes\<close>. These are
  language primitives, not code of the repository; the component theories
  compose them exactly as the source expressions do. Numbers are restricted
  to integers (no \<open>NaN\<close>, no fractions), which is all the modelled code
  compares or stores, and a \<open>JNum n\<close> stands for a JavaScript number only
  for a safe integer \<open>|n| < 2^53\<close>, where binary64 is exact.
\<close>

datatype jsval =
    JUndef
  | JNull
  | JBool bool
  | JNum int
  | JStr string
  | JObj "(string \<times> jsval) list"
  | JArr "jsval list"

fun truthy :: "jsval \<Rightarrow> bool" where
  "truthy JUndef = False"
| "truthy JNull = False"
| "truthy (JBool b) = b"
| "truthy (JNum n) = (n \<noteq> 0)"
| "truthy (JStr s) = (s \<noteq> [])"
| "truthy (JObj _) = True"
| "truthy (JArr _) = True"

definition nullish :: "jsval \<Rightarrow> bool" where
  "nullish v \<longleftrightarrow> v = JUndef \<or> v = JNull"

text \<open>
  \<open>a ?? b\<close>: the right operand, evaluated only when the left one is nullish
  (it may throw, hence the option).
\<close>

definition js_coalesce :: "jsval \<Rightarrow> (unit \<Rightarrow> jsval option) \<Rightarrow> jsval option" where
  "js_coalesce a b = (if nullish a then b () else Some a)"

text \<open>\<open>a || b\<close>, with a right operand that cannot throw.\<close>

definition js_or :: "jsval \<Rightarrow> jsval \<Rightarrow> jsval" where
  "js_or a b = (if truthy a then a else b)"

text \<open>
  \<open>a && b\<close>: the left operand when it is falsy, otherwise the right one,
  which is evaluated only then (it may throw, hence the option).
\<close>

definition js_and :: "jsval \<Rightarrow> (unit \<Rightarrow> jsval option) \<Rightarrow> jsval option" where
  "js_and a b = (if truthy a then b () else Some a)"

text \<open>
  \<open>v.k\<close>: \<open>undefined\<close> for a missing key and for primitives, the first binding
  for an object; \<open>None\<close> (a \<open>TypeError\<close>) on \<open>null\<close> and \<open>undefined\<close>.
\<close>

fun js_prop :: "jsval \<Rightarrow> string \<Rightarrow> jsval option" where
  "js_prop JUndef _ = None"
| "js_prop JNull _ = None"
| "js_prop (JObj fs) k = Some (case map_of fs k of None \<Rightarrow> JUndef | Some v \<Rightarrow> v)"
| "js_prop _ _ = Some JUndef"

text \<open>\<open>v?.k\<close>: \<open>undefined\<close> on a nullish value instead of the \<open>TypeError\<close>.\<close>

definition js_opt_prop :: "jsval \<Rightarrow> string \<Rightarrow> jsval" where
  "js_opt_prop v k = (case js_prop v k of None \<Rightarrow> JUndef | Some w \<Rightarrow> w)"

text \<open>
  Object spread \<open>{...a, ...b}\<close>: the members of \<open>a\<close>, then each member
  of \<open>b\<close> in order, replacing a member of the same key in place or added
  last. JSX attributes \<open><C {...a} {...b} k={v}/>\<close> combine the same way.
\<close>

definition js_spread :: "(string \<times> jsval) list \<Rightarrow> (string \<times> jsval) list \<Rightarrow> (string \<times> jsval) list" where
  "js_spread a b = foldl (\<lambda>acc (k, v). AList.update k v acc) a b"

subsection \<open>\<open>String.prototype.includes\<close>\<close>

text \<open>
  The naive search: \<open>s.includes(p)\<close> holds when \<open>p\<close> is a prefix of \<open>s\<close> or of
  one of its suffixes. It is proved equal to the library's \<open>sublist\<close>.
\<close>

fun starts_with :: "string \<Rightarrow> string \<Rightarrow> bool" where
  "starts_with s [] = True"
| "starts_with [] (c # p) = False"
| "starts_with (d # s) (c # p) = (d = c \<and> starts_with s p)"

fun js_includes :: "string \<Rightarrow> string \<Rightarrow> bool" where
  "js_includes [] p = (p = [])"
| "js_includes (d # s) p = (starts_with (d # s) p \<or> js_includes s p)"

lemma starts_with_prefix: "starts_with s p \<longleftrightarrow> prefix p s"
  by (induction s p rule: starts_with.induct) auto

lemma js_includes_sublist: "js_includes s p \<longleftrightarrow> sublist p s"
  by (induction s) (auto simp: starts_with_prefix sublist_Cons_right)

lemma js_prop_None_iff: "js_prop v k = None \<longleftrightarrow> nullish v"
  by (cases v) (auto simp: nullish_def)

lemma js_prop_truthy: "truthy v \<Longrightarrow> js_prop v k = Some (js_opt_prop v k)"
  by (cases v) (auto simp: js_opt_prop_def)

text \<open>A key of the spread reads the last binding of \<open>b\<close>, else the one of \<open>a\<close>.\<close>

lemma map_of_js_spread: "map_of (js_spread a b) = map_of a ++ map_of (rev b)"
proof (induction b arbitrary: a rule: rev_induct)
  case Nil
  then show ?case by (simp add: js_spread_def)
next
  case (snoc x b)
  then show ?case by (cases x) (simp add: js_spread_def update_conv' map_add_def fun_eq_iff split: option.splits)
qed

lemma js_spread_keys: "set (map fst (js_spread a b)) = set (map fst a) \<union> set (map fst b)"
  using map_of_js_spread [of a b] by (metis dom_map_add dom_map_of_conv_image_fst image_set set_rev sup_commute
      dom_map_of_conv_image_fst)

end
