(* ===== verification/Session_Guard.thy ===== *)
theory Session_Guard
  imports Prelude Js_Values
begin

text \<open>
  The response interceptor of \<open>src/frontend/src/services/axiosInstance.ts\<close>
  (lines 20--112). The module keeps two variables, \<open>isRefreshing\<close> and
  \<open>failedQueue\<close>; the handler that starts a refresh is suspended at
  \<open>await authService.refreshToken()\<close> and holds its \<open>originalRequest\<close> in
  its closure. The record \<open>guard_state\<close> holds all three. One call of the
  error handler, up to its first suspension, is \<open>onError\<close>; the rest of the
  suspended handler, run when the refresh settles, is \<open>refreshSettled\<close>.
  Both return the new state and the effects they perform, in the order of
  the source's statements.
\<close>

type_synonym refresh_error = string \<comment> \<open>the value \<open>refreshToken()\<close> rejects with\<close>

record request =
  req_id :: nat                 \<comment> \<open>identity of the request config object\<close>
  req_url :: "string option"    \<comment> \<open>\<open>originalRequest.url\<close>\<close>
  req_retry :: bool             \<comment> \<open>\<open>originalRequest._retry\<close>, \<open>undefined\<close> read as false\<close>

record http_error =
  err_code :: "string option"   \<comment> \<open>\<open>error.code\<close>\<close>
  err_status :: "nat option"    \<comment> \<open>\<open>error.response?.status\<close>, \<open>None\<close> without a response\<close>
  err_config :: request         \<comment> \<open>\<open>error.config\<close>\<close>

datatype auth_reason = SessionExpired | Unauthorized

text \<open>What the caller's promise rejects with.\<close>

datatype rejection =
    TimedOut http_error         \<comment> \<open>\<open>{message: "Request timed out...", code, originalError}\<close>\<close>
  | NetworkError http_error     \<comment> \<open>\<open>{message: "Network error...", code: "NETWORK_ERROR", ...}\<close>\<close>
  | Propagated http_error       \<comment> \<open>\<open>Promise.reject(error)\<close>\<close>
  | RefreshRejected refresh_error

datatype effect =
    CallRefresh                 \<comment> \<open>\<open>authService.refreshToken()\<close>: one call to \<open>/auth/refresh\<close>\<close>
  | Replay request              \<comment> \<open>\<open>instance(originalRequest)\<close>: the request is sent again\<close>
  | Reject nat rejection        \<comment> \<open>the caller of the request with this id is rejected\<close>
  | Dispatch auth_reason        \<comment> \<open>\<open>window.dispatchEvent(new CustomEvent("authError", ...))\<close>\<close>

record guard_state =
  isRefreshing :: bool
  failedQueue :: "request list"
  awaiting :: "request option"  \<comment> \<open>the handler suspended on the refresh, with its request\<close>

definition guard_init :: guard_state where
  "guard_init = \<lparr>isRefreshing = False, failedQueue = [], awaiting = None\<rparr>"

subsection \<open>processQueue\<close>

text \<open>
  Each queued entry is a promise whose \<open>.then\<close> replays the caller's own
  request and whose \<open>.catch\<close> passes the refresh error on.
  \<open>processQueue\<close> resolves or rejects the entries in queue order and
  empties the queue; \<open>settle_pending\<close> is the effect the entry's callback
  then has. The callbacks do not run inside \<open>processQueue\<close>: they are
  microtasks that run, in the same order, once the handler's synchronous
  code has finished, and \<open>refreshSettled\<close> places their effects there.
\<close>

definition settle_pending :: "refresh_error option \<Rightarrow> request \<Rightarrow> effect" where
  "settle_pending err r =
     (case err of Some e \<Rightarrow> Reject (req_id r) (RefreshRejected e) | None \<Rightarrow> Replay r)"

definition processQueue :: "refresh_error option \<Rightarrow> guard_state \<Rightarrow> guard_state \<times> effect list" where
  "processQueue err s = (s\<lparr>failedQueue := []\<rparr>, map (settle_pending err) (failedQueue s))"

subsection \<open>The error handler\<close>

definition is_refresh_call :: "request \<Rightarrow> bool" where
  "is_refresh_call r =
     (case req_url r of None \<Rightarrow> False | Some u \<Rightarrow> js_includes u ''/auth/refresh'')"

text \<open>
  The guard of line 62: a 401 on a request that is neither the refresh call
  itself nor already retried is eligible for recovery.
\<close>

definition recoverable :: "nat \<Rightarrow> request \<Rightarrow> bool" where
  "recoverable st r \<longleftrightarrow> st = 401 \<and> \<not> is_refresh_call r \<and> \<not> req_retry r"

definition onError :: "guard_state \<Rightarrow> http_error \<Rightarrow> guard_state \<times> effect list" where
  "onError s e =
     (let r = err_config e in
      if err_code e = Some ''ECONNABORTED'' then (s, [Reject (req_id r) (TimedOut e)])
      else case err_status e of
        None \<Rightarrow> (s, [Reject (req_id r) (NetworkError e)])
      | Some st \<Rightarrow>
          if \<not> recoverable st r then
            (s, (if st = 403 then [Dispatch Unauthorized] else []) @ [Reject (req_id r) (Propagated e)])
          else if isRefreshing s then (s\<lparr>failedQueue := failedQueue s @ [r]\<rparr>, [])
          else (s\<lparr>isRefreshing := True, awaiting := Some (r\<lparr>req_retry := True\<rparr>)\<rparr>, [CallRefresh]))"

text \<open>
  The continuation of the suspended handler: on success the queue is
  resolved and the original request replayed; on failure the queue is
  rejected, \<open>sessionExpired\<close> is dispatched and the refresh error returned;
  the \<open>finally\<close> block clears \<open>isRefreshing\<close> in both cases. The effects
  are listed in the order they take place: \<open>processQueue\<close> only settles the
  queued promises, whose \<open>.then\<close> and \<open>.catch\<close> callbacks run later as
  microtasks, so the trigger's \<open>instance(originalRequest)\<close> (line 94) is
  issued before the queued replays, and the synchronous
  \<open>dispatchEvent\<close> (line 103) precedes every rejection a caller sees;
  the queued callers' rejections come in queue order, the trigger's last.
\<close>

datatype refresh_outcome = RefreshOk | RefreshFailed refresh_error

definition refreshSettled :: "guard_state \<Rightarrow> refresh_outcome \<Rightarrow> guard_state \<times> effect list" where
  "refreshSettled s out =
     (case awaiting s of
        None \<Rightarrow> (s, [])
      | Some r \<Rightarrow>
          (case out of
             RefreshOk \<Rightarrow>
               (let (s', es) = processQueue None s
                in (s'\<lparr>isRefreshing := False, awaiting := None\<rparr>, Replay r # es))
           | RefreshFailed err \<Rightarrow>
               (let (s', es) = processQueue (Some err) s
                in (s'\<lparr>isRefreshing := False, awaiting := None\<rparr>,
                    Dispatch SessionExpired # es @ [Reject (req_id r) (RefreshRejected err)]))))"

subsection \<open>Events and runs\<close>

datatype guard_event = ResponseError http_error | RefreshSettles refresh_outcome

fun guard_step :: "guard_state \<Rightarrow> guard_event \<Rightarrow> guard_state \<times> effect list" where
  "guard_step s (ResponseError e) = onError s e"
| "guard_step s (RefreshSettles out) = refreshSettled s out"

fun guard_run :: "guard_state \<Rightarrow> guard_event list \<Rightarrow> guard_state \<times> effect list" where
  "guard_run s [] = (s, [])"
| "guard_run s (ev # evs) =
     (let (s1, es1) = guard_step s ev; (s2, es2) = guard_run s1 evs in (s2, es1 @ es2))"

inductive guard_reachable :: "guard_state \<Rightarrow> bool" where
  init: "guard_reachable guard_init"
| step: "guard_reachable s \<Longrightarrow> guard_step s ev = (s', es) \<Longrightarrow> guard_reachable s'"

definition guard_inv :: "guard_state \<Rightarrow> bool" where
  "guard_inv s =
     (case awaiting s of
        None \<Rightarrow> \<not> isRefreshing s \<and> failedQueue s = []
      | Some r \<Rightarrow> isRefreshing s \<and> req_retry r)"

definition inflight :: "guard_state \<Rightarrow> nat" where
  "inflight s = (if awaiting s = None then 0 else 1)"

fun is_settle :: "guard_event \<Rightarrow> bool" where
  "is_settle (RefreshSettles _) = True"
| "is_settle (ResponseError _) = False"

text \<open>A 401 the handler recovers from: no timeout, a response, and the guard.\<close>

definition eligible :: "http_error \<Rightarrow> bool" where
  "eligible e \<longleftrightarrow>
     err_code e \<noteq> Some ''ECONNABORTED'' \<and> err_status e = Some 401 \<and> recoverable 401 (err_config e)"

declare settle_pending_def [model_defs] processQueue_def [model_defs]
  onError_def [model_defs] refreshSettled_def [model_defs] recoverable_def [model_defs]
  guard_inv_def [model_defs] inflight_def [model_defs] eligible_def [model_defs]

subsection \<open>The branches of the error handler\<close>

lemma onError_timeout:
  "err_code e = Some ''ECONNABORTED'' \<Longrightarrow>
   onError s e = (s, [Reject (req_id (err_config e)) (TimedOut e)])"
  by (simp add: onError_def)

lemma onError_network:
  "err_code e \<noteq> Some ''ECONNABORTED'' \<Longrightarrow> err_status e = None \<Longrightarrow>
   onError s e = (s, [Reject (req_id (err_config e)) (NetworkError e)])"
  by (simp add: onError_def)

lemma onError_unrecoverable:
  "err_code e \<noteq> Some ''ECONNABORTED'' \<Longrightarrow> err_status e = Some st \<Longrightarrow>
   \<not> recoverable st (err_config e) \<Longrightarrow>
   onError s e =
     (s, (if st = 403 then [Dispatch Unauthorized] else []) @ [Reject (req_id (err_config e)) (Propagated e)])"
  by (simp add: onError_def Let_def)

lemma onError_enqueue:
  "eligible e \<Longrightarrow> isRefreshing s \<Longrightarrow>
   onError s e = (s\<lparr>failedQueue := failedQueue s @ [err_config e]\<rparr>, [])"
  by (simp add: onError_def eligible_def)

lemma onError_start:
  "eligible e \<Longrightarrow> \<not> isRefreshing s \<Longrightarrow>
   onError s e =
     (s\<lparr>isRefreshing := True, awaiting := Some ((err_config e)\<lparr>req_retry := True\<rparr>)\<rparr>, [CallRefresh])"
  by (simp add: onError_def eligible_def)

lemma refreshSettled_ok:
  "awaiting s = Some r \<Longrightarrow>
   refreshSettled s RefreshOk =
     (s\<lparr>failedQueue := [], isRefreshing := False, awaiting := None\<rparr>,
      Replay r # map Replay (failedQueue s))"
  by (simp add: model_defs)

lemma refreshSettled_failed:
  "awaiting s = Some r \<Longrightarrow>
   refreshSettled s (RefreshFailed err) =
     (s\<lparr>failedQueue := [], isRefreshing := False, awaiting := None\<rparr>,
      Dispatch SessionExpired # map (\<lambda>q. Reject (req_id q) (RefreshRejected err)) (failedQueue s)
        @ [Reject (req_id r) (RefreshRejected err)])"
  by (simp add: model_defs)

lemma refreshSettled_idle:
  "awaiting s = None \<Longrightarrow> refreshSettled s out = (s, [])"
  by (simp add: refreshSettled_def)

lemma onError_cases:
  obtains "fst (onError s e) = s" "CallRefresh \<notin> set (snd (onError s e))"
  | "eligible e" "isRefreshing s"
      "onError s e = (s\<lparr>failedQueue := failedQueue s @ [err_config e]\<rparr>, [])"
  | "eligible e" "\<not> isRefreshing s"
      "onError s e =
         (s\<lparr>isRefreshing := True, awaiting := Some ((err_config e)\<lparr>req_retry := True\<rparr>)\<rparr>, [CallRefresh])"
proof (cases "eligible e")
  case True
  then show ?thesis
    using that(2,3) onError_enqueue onError_start by blast
next
  case False
  then have "fst (onError s e) = s \<and> CallRefresh \<notin> set (snd (onError s e))"
    by (auto simp: onError_def eligible_def recoverable_def Let_def split: option.splits)
  then show ?thesis using that(1) by blast
qed

subsection \<open>The invariant of the refresh state\<close>

lemma guard_step_inv:
  assumes "guard_inv s"
  shows "guard_inv (fst (guard_step s ev))"
proof (cases ev)
  case (ResponseError e)
  show ?thesis
  proof (cases rule: onError_cases [of s e])
    case 1
    with assms ResponseError show ?thesis by simp
  next
    case 2
    with assms ResponseError show ?thesis by (simp add: guard_inv_def split: option.splits)
  next
    case 3
    with assms ResponseError show ?thesis by (simp add: guard_inv_def split: option.splits)
  qed
next
  case (RefreshSettles out)
  with assms show ?thesis
    by (cases "awaiting s"; cases out)
       (auto simp: guard_inv_def refreshSettled_idle refreshSettled_ok refreshSettled_failed)
qed

lemma guard_reachable_inv: "guard_reachable s \<Longrightarrow> guard_inv s"
proof (induction rule: guard_reachable.induct)
  case init
  show ?case by (simp add: guard_init_def guard_inv_def)
next
  case (step s ev s' es)
  then show ?case using guard_step_inv [of s ev] by simp
qed

lemma guard_run_append:
  "guard_run s (xs @ ys) =
     (let (s1, es1) = guard_run s xs; (s2, es2) = guard_run s1 ys in (s2, es1 @ es2))"
  by (induction xs arbitrary: s) (auto split: prod.splits)

subsection \<open>Refresh calls along a run\<close>

lemma guard_step_refresh_count:
  assumes "guard_inv s" and "guard_step s ev = (s', es)"
  shows "inflight s + count_list es CallRefresh \<le> inflight s' + (if is_settle ev then 1 else 0)"
proof (cases ev)
  case (ResponseError e)
  show ?thesis
  proof (cases rule: onError_cases [of s e])
    case 1
    with assms ResponseError show ?thesis by (auto simp: count_list_0_iff)
  next
    case 2
    with assms ResponseError show ?thesis by (auto simp: inflight_def guard_inv_def split: option.splits)
  next
    case 3
    with assms ResponseError show ?thesis by (auto simp: inflight_def guard_inv_def split: option.splits)
  qed
next
  case (RefreshSettles out)
  with assms show ?thesis
    by (cases "awaiting s"; cases out)
       (auto simp: inflight_def refreshSettled_idle refreshSettled_ok refreshSettled_failed)
qed

lemma guard_run_refresh_count:
  "guard_inv s \<Longrightarrow> guard_run s evs = (s', es) \<Longrightarrow>
   inflight s + count_list es CallRefresh \<le> inflight s' + length (filter is_settle evs)"
proof (induction evs arbitrary: s es)
  case Nil
  then show ?case by simp
next
  case (Cons ev evs)
  obtain s1 es1 where st: "guard_step s ev = (s1, es1)" by fastforce
  obtain es2 where run: "guard_run s1 evs = (s', es2)" and es: "es = es1 @ es2"
    using Cons.prems(2) st by (auto split: prod.splits)
  have "guard_inv s1" using guard_step_inv [OF Cons.prems(1), of ev] st by simp
  then have "inflight s1 + count_list es2 CallRefresh \<le> inflight s' + length (filter is_settle evs)"
    using Cons.IH run by blast
  moreover have "inflight s + count_list es1 CallRefresh \<le> inflight s1 + (if is_settle ev then 1 else 0)"
    using guard_step_refresh_count [OF Cons.prems(1) st] .
  ultimately show ?case using es by (cases "is_settle ev") auto
qed

lemma inflight_le_1: "inflight s \<le> 1"
  by (simp add: inflight_def)

subsection \<open>Concurrent 401s during one refresh\<close>

lemma guard_run_enqueue_all:
  "isRefreshing s \<Longrightarrow> list_all eligible es \<Longrightarrow>
   guard_run s (map ResponseError es) = (s\<lparr>failedQueue := failedQueue s @ map err_config es\<rparr>, [])"
proof (induction es arbitrary: s)
  case Nil
  then show ?case by simp
next
  case (Cons e es)
  then show ?case by (simp add: onError_enqueue)
qed

lemma guard_run_first_401:
  assumes "eligible e0" and "list_all eligible es"
  shows "guard_run guard_init (ResponseError e0 # map ResponseError es) =
     (\<lparr>isRefreshing = True, failedQueue = map err_config es,
       awaiting = Some ((err_config e0)\<lparr>req_retry := True\<rparr>)\<rparr>, [CallRefresh])"
  using assms by (simp add: onError_start guard_init_def guard_run_enqueue_all)

lemma guard_run_first_401_then:
  assumes "eligible e0" and "list_all eligible es"
  shows "guard_run guard_init (ResponseError e0 # map ResponseError es @ [ev]) =
     (let (s2, es2) = guard_step \<lparr>isRefreshing = True, failedQueue = map err_config es,
                         awaiting = Some ((err_config e0)\<lparr>req_retry := True\<rparr>)\<rparr> ev
      in (s2, CallRefresh # es2))"
proof -
  have "guard_run guard_init ((ResponseError e0 # map ResponseError es) @ [ev]) =
     (let (s2, es2) = guard_step \<lparr>isRefreshing = True, failedQueue = map err_config es,
                         awaiting = Some ((err_config e0)\<lparr>req_retry := True\<rparr>)\<rparr> ev
      in (s2, CallRefresh # es2))"
    by (simp only: guard_run_append guard_run_first_401 [OF assms]) (simp split: prod.splits)
  then show ?thesis by simp
qed

subsection \<open>Properties of the session guard\<close>

text \<open>
  C1. At most one refresh is in flight: along any run from a reachable
  state, the interceptor calls the refresh endpoint at most once more than
  the number of refreshes that completed, and not at all before the
  in-flight one completes.
\<close>

theorem refresh_calls_bounded:
  assumes "guard_reachable s" and "guard_run s evs = (s', es)"
  shows "count_list es CallRefresh + inflight s \<le> length (filter is_settle evs) + 1"
proof -
  have "inflight s + count_list es CallRefresh \<le> inflight s' + length (filter is_settle evs)"
    using guard_run_refresh_count [OF guard_reachable_inv [OF assms(1)] assms(2)] .
  then show ?thesis using inflight_le_1 [of s'] by linarith
qed

theorem refresh_calls_bounded_witness:
  "count_list (snd (guard_run guard_init
      [ResponseError \<lparr>err_code = None, err_status = Some 401, err_config = \<lparr>req_id = 1, req_url = Some ''/bills'', req_retry = False\<rparr>\<rparr>, ResponseError \<lparr>err_code = None, err_status = Some 401, err_config = \<lparr>req_id = 2, req_url = Some ''/bills'', req_retry = False\<rparr>\<rparr>, RefreshSettles RefreshOk])) CallRefresh
     + inflight guard_init \<le> 2"
  using refresh_calls_bounded [OF guard_reachable.init prod.collapse [symmetric],
      of "[ResponseError \<lparr>err_code = None, err_status = Some 401, err_config = \<lparr>req_id = 1, req_url = Some ''/bills'', req_retry = False\<rparr>\<rparr>, ResponseError \<lparr>err_code = None, err_status = Some 401, err_config = \<lparr>req_id = 2, req_url = Some ''/bills'', req_retry = False\<rparr>\<rparr>, RefreshSettles RefreshOk]"]
  by simp

text \<open>
  C2. When N requests fault with 401 while the first one's refresh is in
  flight and the refresh succeeds, exactly one refresh call is made, the
  first request is replayed at once, marked as retried, then every queued
  request is replayed in the order it queued, and the guard is idle again.
\<close>

theorem concurrent_401_refresh_ok:
  assumes "eligible e0" and "list_all eligible es"
  shows "guard_run guard_init (ResponseError e0 # map ResponseError es @ [RefreshSettles RefreshOk]) =
     (guard_init, CallRefresh # Replay ((err_config e0)\<lparr>req_retry := True\<rparr>) # map (Replay \<circ> err_config) es)"
  by (simp only: guard_run_first_401_then [OF assms]) (simp add: refreshSettled_ok guard_init_def)

theorem concurrent_401_refresh_ok_witness:
  "guard_run guard_init (ResponseError \<lparr>err_code = None, err_status = Some 401, err_config = \<lparr>req_id = 1, req_url = Some ''/bills'', req_retry = False\<rparr>\<rparr> # map ResponseError [\<lparr>err_code = None, err_status = Some 401, err_config = \<lparr>req_id = 2, req_url = Some ''/bills'', req_retry = False\<rparr>\<rparr>, \<lparr>err_code = None, err_status = Some 401, err_config = \<lparr>req_id = 3, req_url = Some ''/bills'', req_retry = False\<rparr>\<rparr>]
      @ [RefreshSettles RefreshOk]) =
   (guard_init, [CallRefresh,
      Replay \<lparr>req_id = 1, req_url = Some ''/bills'', req_retry = True\<rparr>,
      Replay \<lparr>req_id = 2, req_url = Some ''/bills'', req_retry = False\<rparr>,
      Replay \<lparr>req_id = 3, req_url = Some ''/bills'', req_retry = False\<rparr>])"
  using concurrent_401_refresh_ok [of "\<lparr>err_code = None, err_status = Some 401, err_config = \<lparr>req_id = 1, req_url = Some ''/bills'', req_retry = False\<rparr>\<rparr>" "[\<lparr>err_code = None, err_status = Some 401, err_config = \<lparr>req_id = 2, req_url = Some ''/bills'', req_retry = False\<rparr>\<rparr>, \<lparr>err_code = None, err_status = Some 401, err_config = \<lparr>req_id = 3, req_url = Some ''/bills'', req_retry = False\<rparr>\<rparr>]"]
  by (simp add: eligible_def recoverable_def is_refresh_call_def)



text \<open>
  C4. No retry loop: a 401 on a request already marked as retried, or on the
  refresh call itself, is propagated unchanged; no refresh is started and
  the state is untouched.
\<close>

theorem retried_or_refresh_401_propagated:
  assumes "err_code e \<noteq> Some ''ECONNABORTED''" and "err_status e = Some 401"
    and "req_retry (err_config e) \<or> is_refresh_call (err_config e)"
  shows "onError s e = (s, [Reject (req_id (err_config e)) (Propagated e)])"
  using assms onError_unrecoverable [of e 401 s] by (auto simp: recoverable_def)

theorem retried_or_refresh_401_propagated_witness:
  "onError guard_init \<lparr>err_code = None, err_status = Some 401, err_config = \<lparr>req_id = 7, req_url = Some ''/auth/refresh'', req_retry = False\<rparr>\<rparr> =
     (guard_init, [Reject 7 (Propagated \<lparr>err_code = None, err_status = Some 401, err_config = \<lparr>req_id = 7, req_url = Some ''/auth/refresh'', req_retry = False\<rparr>\<rparr>)])"
  using retried_or_refresh_401_propagated [of "\<lparr>err_code = None, err_status = Some 401, err_config = \<lparr>req_id = 7, req_url = Some ''/auth/refresh'', req_retry = False\<rparr>\<rparr>" guard_init]
  by (simp add: is_refresh_call_def)

text \<open>
  Transport failures are never retried: a timeout (\<open>ECONNABORTED\<close>) or
  an error without a response is rejected with its classification, leaves
  the refresh state unchanged and starts no refresh.
\<close>

theorem transport_errors_classified:
  assumes "err_code e = Some ''ECONNABORTED'' \<or> err_status e = None"
  shows "onError s e =
     (s, [Reject (req_id (err_config e))
            (if err_code e = Some ''ECONNABORTED'' then TimedOut e else NetworkError e)])"
  using assms by (auto simp: onError_timeout onError_network)

theorem transport_errors_classified_witness:
  "onError guard_init \<lparr>err_code = None, err_status = None, err_config = \<lparr>req_id = 4, req_url = Some ''/bills'', req_retry = False\<rparr>\<rparr> = (guard_init, [Reject 4 (NetworkError \<lparr>err_code = None, err_status = None, err_config = \<lparr>req_id = 4, req_url = Some ''/bills'', req_retry = False\<rparr>\<rparr>)])"
  using transport_errors_classified [of "\<lparr>err_code = None, err_status = None, err_config = \<lparr>req_id = 4, req_url = Some ''/bills'', req_retry = False\<rparr>\<rparr>" guard_init] by simp

text \<open>
  A 403 response dispatches the \<open>unauthorized\<close> event once and is
  propagated; the refresh state is unchanged.
\<close>

theorem forbidden_dispatches_unauthorized:
  assumes "err_code e \<noteq> Some ''ECONNABORTED''" and "err_status e = Some 403"
  shows "onError s e = (s, [Dispatch Unauthorized, Reject (req_id (err_config e)) (Propagated e)])"
  using assms onError_unrecoverable [of e 403 s] by (simp add: recoverable_def)

theorem forbidden_dispatches_unauthorized_witness:
  "onError guard_init \<lparr>err_code = None, err_status = Some 403, err_config = \<lparr>req_id = 5, req_url = Some ''/bills'', req_retry = False\<rparr>\<rparr> =
     (guard_init, [Dispatch Unauthorized, Reject 5 (Propagated \<lparr>err_code = None, err_status = Some 403, err_config = \<lparr>req_id = 5, req_url = Some ''/bills'', req_retry = False\<rparr>\<rparr>)])"
  using forbidden_dispatches_unauthorized [of "\<lparr>err_code = None, err_status = Some 403, err_config = \<lparr>req_id = 5, req_url = Some ''/bills'', req_retry = False\<rparr>\<rparr>" guard_init] by simp

text \<open>
  C7. In every reachable state, \<open>isRefreshing\<close> holds exactly when a handler
  is suspended on the refresh, the queue is empty whenever no refresh is in
  flight, and the suspended handler's request is marked as retried.
\<close>

theorem guard_reachable_state:
  assumes "guard_reachable s"
  shows "(isRefreshing s \<longleftrightarrow> awaiting s \<noteq> None)
       \<and> (\<not> isRefreshing s \<longrightarrow> failedQueue s = [])
       \<and> (\<forall>r. awaiting s = Some r \<longrightarrow> req_retry r)"
  using guard_reachable_inv [OF assms] by (auto simp: guard_inv_def split: option.splits)

theorem guard_reachable_state_witness:
  "let s = fst (onError guard_init \<lparr>err_code = None, err_status = Some 401, err_config = \<lparr>req_id = 1, req_url = Some ''/bills'', req_retry = False\<rparr>\<rparr>)
   in guard_reachable s \<and> isRefreshing s \<and> awaiting s \<noteq> None
      \<and> (\<forall>r. awaiting s = Some r \<longrightarrow> req_retry r)"
proof -
  let ?s = "fst (onError guard_init \<lparr>err_code = None, err_status = Some 401, err_config = \<lparr>req_id = 1, req_url = Some ''/bills'', req_retry = False\<rparr>\<rparr>)"
  have r: "guard_reachable ?s"
    using guard_reachable.step [OF guard_reachable.init, of "ResponseError \<lparr>err_code = None, err_status = Some 401, err_config = \<lparr>req_id = 1, req_url = Some ''/bills'', req_retry = False\<rparr>\<rparr>"]
    by (metis guard_step.simps(1) prod.collapse)
  have "isRefreshing ?s" by (simp add: onError_def guard_init_def recoverable_def is_refresh_call_def)
  with guard_reachable_state [OF r] r show ?thesis by (simp add: Let_def)
qed

text \<open>
  C8. Queued requests are replayed without the retry mark: when a request
  that waited in the queue faults with 401 again on its replay, a second
  refresh is started, whereas the triggering request's replay, marked as
  retried, is propagated.
\<close>

theorem queued_replay_refreshes_again:
  assumes "eligible e0" and "eligible e1"
  defines "e0' \<equiv> e0\<lparr>err_config := (err_config e0)\<lparr>req_retry := True\<rparr>\<rparr>"
  shows "snd (guard_run guard_init
           [ResponseError e0, ResponseError e1, RefreshSettles RefreshOk, ResponseError e0', ResponseError e1]) =
         [CallRefresh, Replay (err_config e0'), Replay (err_config e1),
          Reject (req_id (err_config e0)) (Propagated e0'), CallRefresh]"
  using assms by (simp add: onError_def guard_init_def refreshSettled_ok eligible_def recoverable_def Let_def)

theorem queued_replay_refreshes_again_witness:
  "count_list (snd (guard_run guard_init
      [ResponseError \<lparr>err_code = None, err_status = Some 401, err_config = \<lparr>req_id = 1, req_url = Some ''/bills'', req_retry = False\<rparr>\<rparr>, ResponseError \<lparr>err_code = None, err_status = Some 401, err_config = \<lparr>req_id = 2, req_url = Some ''/meters'', req_retry = False\<rparr>\<rparr>, RefreshSettles RefreshOk,
       ResponseError \<lparr>err_code = None, err_status = Some 401, err_config = \<lparr>req_id = 1, req_url = Some ''/bills'', req_retry = True\<rparr>\<rparr>, ResponseError \<lparr>err_code = None, err_status = Some 401, err_config = \<lparr>req_id = 2, req_url = Some ''/meters'', req_retry = False\<rparr>\<rparr>])) CallRefresh = 2"
proof -
  have "snd (guard_run guard_init
      [ResponseError \<lparr>err_code = None, err_status = Some 401, err_config = \<lparr>req_id = 1, req_url = Some ''/bills'', req_retry = False\<rparr>\<rparr>, ResponseError \<lparr>err_code = None, err_status = Some 401, err_config = \<lparr>req_id = 2, req_url = Some ''/meters'', req_retry = False\<rparr>\<rparr>, RefreshSettles RefreshOk,
       ResponseError \<lparr>err_code = None, err_status = Some 401, err_config = \<lparr>req_id = 1, req_url = Some ''/bills'', req_retry = True\<rparr>\<rparr>, ResponseError \<lparr>err_code = None, err_status = Some 401, err_config = \<lparr>req_id = 2, req_url = Some ''/meters'', req_retry = False\<rparr>\<rparr>]) =
    [CallRefresh, Replay \<lparr>req_id = 1, req_url = Some ''/bills'', req_retry = True\<rparr>,
     Replay \<lparr>req_id = 2, req_url = Some ''/meters'', req_retry = False\<rparr>,
     Reject 1 (Propagated \<lparr>err_code = None, err_status = Some 401, err_config = \<lparr>req_id = 1, req_url = Some ''/bills'', req_retry = True\<rparr>\<rparr>), CallRefresh]"
    using queued_replay_refreshes_again [of "\<lparr>err_code = None, err_status = Some 401, err_config = \<lparr>req_id = 1, req_url = Some ''/bills'', req_retry = False\<rparr>\<rparr>" "\<lparr>err_code = None, err_status = Some 401, err_config = \<lparr>req_id = 2, req_url = Some ''/meters'', req_retry = False\<rparr>\<rparr>"]
    by (simp add: eligible_def recoverable_def is_refresh_call_def)
  then show ?thesis by simp
qed

end
