(* ===== verification/Task_Storage.thy ===== *)
theory Task_Storage
  imports Prelude Js_Values
begin

text \<open>
  \<open>src/frontend/src/utils/taskStorage.ts\<close>: the id of the bills-download task
  is persisted in \<open>localStorage\<close> as the JSON text of a \<open>StoredTask\<close>
  \<open>{id, expiry}\<close>, with \<open>expiry = Date.now() + 2.5 h\<close>. \<open>localStorage\<close> is
  a map from keys to strings, shared with the rest of the client (the
  \<open>user\<close> key of the auth context lives in it too). The JSON text is
  modelled by the serialisation \<open>JSON.stringify\<close> produces for this object
  (key order \<open>id\<close>, \<open>expiry\<close>; the string escaped by ECMAScript's
  QuoteJSONString; the integer expiry in decimal) and by a decoder that
  accepts that text and fails, as \<open>JSON.parse\<close> throws, on malformed text.
  Strings are lists of code units below 256.
\<close>

type_synonym storage = "string \<rightharpoonup> string" \<comment> \<open>\<open>window.localStorage\<close>\<close>

definition TASK_ID_KEY :: string where
  "TASK_ID_KEY = ''billsDownloadTaskId''"

definition TASK_EXPIRY_MS :: nat where
  "TASK_EXPIRY_MS = 9000000" \<comment> \<open>\<open>2.5 * 60 * 60 * 1000\<close>\<close>

record StoredTask =
  stored_id :: string   \<comment> \<open>field \<open>id\<close>\<close>
  expiry :: timestamp

subsection \<open>JSON text of a string\<close>

abbreviation dq :: char where "dq \<equiv> CHR 0x22"
abbreviation bs :: char where "bs \<equiv> CHR 0x5C"

definition hex_digit :: "nat \<Rightarrow> char" where
  "hex_digit d = (if d < 10 then char_of (48 + d) else char_of (87 + d))"

definition json_escape_char :: "char \<Rightarrow> string" where
  "json_escape_char c =
     (if c = dq then [bs, dq]
      else if c = bs then [bs, bs]
      else if c = CHR 0x08 then [bs, CHR ''b'']
      else if c = CHR 0x09 then [bs, CHR ''t'']
      else if c = CHR 0x0A then [bs, CHR ''n'']
      else if c = CHR 0x0C then [bs, CHR ''f'']
      else if c = CHR 0x0D then [bs, CHR ''r'']
      else if of_char c < (32::nat)
        then [bs, CHR ''u'', CHR ''0'', CHR ''0'',
              hex_digit (of_char c div 16), hex_digit (of_char c mod 16)]
      else [c])"

definition json_quote :: "string \<Rightarrow> string" where
  "json_quote s = dq # concat (map json_escape_char s) @ [dq]"

definition simple_escape :: "char \<Rightarrow> char option" where
  "simple_escape d =
     (if d = dq then Some dq else if d = bs then Some bs else if d = CHR ''/'' then Some (CHR ''/'')
      else if d = CHR ''b'' then Some (CHR 0x08) else if d = CHR ''t'' then Some (CHR 0x09)
      else if d = CHR ''n'' then Some (CHR 0x0A) else if d = CHR ''f'' then Some (CHR 0x0C)
      else if d = CHR ''r'' then Some (CHR 0x0D) else None)"

definition hex_value :: "char \<Rightarrow> nat option" where
  "hex_value c =
     (let n = of_char c :: nat in
      if 48 \<le> n \<and> n \<le> 57 then Some (n - 48)
      else if 97 \<le> n \<and> n \<le> 102 then Some (n - 87)
      else if 65 \<le> n \<and> n \<le> 70 then Some (n - 55) else None)"

definition hex4 :: "char \<Rightarrow> char \<Rightarrow> char \<Rightarrow> char \<Rightarrow> nat option" where
  "hex4 a b c d = do {
     x \<leftarrow> hex_value a; y \<leftarrow> hex_value b; z \<leftarrow> hex_value c; w \<leftarrow> hex_value d;
     Some (4096 * x + 256 * y + 16 * z + w) }"

text \<open>
  The body of a JSON string literal after its opening quote: the decoded
  characters and the text after the closing quote; \<open>None\<close> where
  \<open>JSON.parse\<close> throws (an unescaped control character, a bad escape, no
  closing quote).
\<close>

fun json_string_body :: "string \<Rightarrow> (string \<times> string) option" where
  "json_string_body [] = None"
| "json_string_body (c # cs) =
     (if c = dq then Some ([], cs)
      else if c = bs then
        (case cs of
           [] \<Rightarrow> None
         | d # ds \<Rightarrow>
             (case simple_escape d of
                Some x \<Rightarrow> map_option (apfst ((#) x)) (json_string_body ds)
              | None \<Rightarrow>
                  if d = CHR ''u'' then
                    (case ds of
                       h1 # h2 # h3 # h4 # rest \<Rightarrow>
                         (case hex4 h1 h2 h3 h4 of
                            Some n \<Rightarrow>
                              if n < 256 then map_option (apfst ((#) (char_of n))) (json_string_body rest)
                              else None
                          | None \<Rightarrow> None)
                     | _ \<Rightarrow> None)
                  else None))
      else if of_char c < (32::nat) then None
      else map_option (apfst ((#) c)) (json_string_body cs))"

subsection \<open>Decimal numbers\<close>

definition is_digit :: "char \<Rightarrow> bool" where
  "is_digit c \<longleftrightarrow> 48 \<le> (of_char c :: nat) \<and> (of_char c :: nat) \<le> 57"

fun show_nat :: "nat \<Rightarrow> string" where
  "show_nat n = (if n < 10 then [char_of (48 + n)] else show_nat (n div 10) @ [char_of (48 + n mod 10)])"

definition digits_value :: "string \<Rightarrow> nat" where
  "digits_value ds = foldl (\<lambda>acc c. 10 * acc + (of_char c - 48)) 0 ds"

declare show_nat.simps [simp del]

subsection \<open>The stored object\<close>

definition stringify_stored :: "StoredTask \<Rightarrow> string" where
  "stringify_stored t =
     ''{'' @ [dq] @ ''id'' @ [dq, CHR '':''] @ json_quote (stored_id t)
       @ [CHR '',''] @ [dq] @ ''expiry'' @ [dq, CHR '':''] @ show_nat (expiry t) @ ''}''"

definition parse_stored :: "string \<Rightarrow> StoredTask option" where
  "parse_stored s =
     (let p1 = ''{'' @ [dq] @ ''id'' @ [dq, CHR '':'', dq] in
      if \<not> starts_with s p1 then None
      else case json_string_body (drop (length p1) s) of
        None \<Rightarrow> None
      | Some (i, r) \<Rightarrow>
          (let p2 = [CHR '','', dq] @ ''expiry'' @ [dq, CHR '':''] in
           if \<not> starts_with r p2 then None
           else (let r3 = drop (length p2) r; ds = takeWhile is_digit r3 in
                 if ds \<noteq> [] \<and> dropWhile is_digit r3 = ''}''
                 then Some \<lparr>stored_id = i, expiry = digits_value ds\<rparr> else None)))"

subsection \<open>The storage operations\<close>

definition saveTaskId :: "timestamp \<Rightarrow> string \<Rightarrow> storage \<Rightarrow> storage" where
  "saveTaskId now taskId st =
     st(TASK_ID_KEY \<mapsto> stringify_stored \<lparr>stored_id = taskId, expiry = now + TASK_EXPIRY_MS\<rparr>)"

definition clearTaskId :: "storage \<Rightarrow> storage" where
  "clearTaskId st = st(TASK_ID_KEY := None)"

text \<open>
  \<open>getTaskId\<close>: an absent or empty item is \<open>null\<close> without a write; text that
  does not parse, or a record whose expiry lies strictly before \<open>now\<close>, is
  removed and read as \<open>null\<close>.
\<close>

definition getTaskId :: "timestamp \<Rightarrow> storage \<Rightarrow> storage \<times> string option" where
  "getTaskId now st =
     (case st TASK_ID_KEY of
        None \<Rightarrow> (st, None)
      | Some str \<Rightarrow>
          if str = [] then (st, None)
          else (case parse_stored str of
                  None \<Rightarrow> (clearTaskId st, None)
                | Some t \<Rightarrow> if now > expiry t then (clearTaskId st, None) else (st, Some (stored_id t))))"

subsection \<open>Decoding what is encoded\<close>

lemma of_char_lt_256: "(of_char c :: nat) < 256"
  by (metis of_char_mod_256 mod_less_divisor zero_less_numeral)

lemma hex_value_hex_digit: "d < 16 \<Longrightarrow> hex_value (hex_digit d) = Some d"
  by (auto simp: hex_value_def hex_digit_def Let_def)

lemma hex4_escape:
  "n < 256 \<Longrightarrow> hex4 (CHR ''0'') (CHR ''0'') (hex_digit (n div 16)) (hex_digit (n mod 16)) = Some n"
  by (simp add: hex4_def hex_value_hex_digit less_mult_imp_div_less) (simp add: hex_value_def)

text \<open>
  One escaped character is decoded back, whichever branch of the escaping
  produced it: a two-character escape, a \<open>\\u00XX\<close> escape for the other
  control characters, or the character itself.
\<close>

lemma json_string_body_escape_char:
  "json_string_body (json_escape_char c @ rest) = map_option (apfst ((#) c)) (json_string_body rest)"
proof -
  consider "c = dq" | "c = bs" | "c = CHR 0x08" | "c = CHR 0x09" | "c = CHR 0x0A" | "c = CHR 0x0C"
    | "c = CHR 0x0D" | "c \<noteq> dq" "c \<noteq> bs" "of_char c < (32::nat)"
    "c \<notin> {CHR 0x08, CHR 0x09, CHR 0x0A, CHR 0x0C, CHR 0x0D}"
    | "c \<noteq> dq" "c \<noteq> bs" "\<not> of_char c < (32::nat)"
    by blast
  then show ?thesis
  proof cases
    case 8
    then have "of_char c < (256::nat)" "json_escape_char c =
       [bs, CHR ''u'', CHR ''0'', CHR ''0'', hex_digit (of_char c div 16), hex_digit (of_char c mod 16)]"
      by (auto simp: json_escape_char_def of_char_lt_256)
    then show ?thesis by (simp add: simple_escape_def hex4_escape)
  next
    case 9
    then show ?thesis by (auto simp: json_escape_char_def)
  qed (simp_all add: json_escape_char_def simple_escape_def)
qed

lemma json_string_body_quote:
  "json_string_body (concat (map json_escape_char s) @ dq # rest) = Some (s, rest)"
  by (induction s) (simp_all add: json_string_body_escape_char)

lemma show_nat_digits: "\<forall>c \<in> set (show_nat n). is_digit c"
proof (induction n rule: show_nat.induct)
  case (1 n)
  then show ?case
    by (subst show_nat.simps) (auto simp: is_digit_def)
qed

lemma show_nat_not_Nil: "show_nat n \<noteq> []"
  by (subst show_nat.simps) simp

lemma digits_value_snoc: "digits_value (xs @ [c]) = 10 * digits_value xs + (of_char c - 48)"
  by (simp add: digits_value_def)

lemma digits_value_show_nat: "digits_value (show_nat n) = n"
proof (induction n rule: show_nat.induct)
  case (1 n)
  show ?case
  proof (cases "n < 10")
    case True
    then show ?thesis by (subst show_nat.simps) (simp add: digits_value_def)
  next
    case False
    with "1.IH" have "digits_value (show_nat (n div 10)) = n div 10" by simp
    with False show ?thesis by (subst show_nat.simps) (simp add: digits_value_snoc)
  qed
qed

lemma show_nat_then_brace:
  "takeWhile is_digit (show_nat n @ ''}'') = show_nat n"
  "dropWhile is_digit (show_nat n @ ''}'') = ''}''"
  using show_nat_digits [of n] by (simp_all add: is_digit_def)

lemma starts_with_append: "starts_with (p @ r) p"
  by (induction p) auto

lemmas stored_text_simps = parse_stored_def stringify_stored_def json_quote_def starts_with_append
  json_string_body_quote show_nat_then_brace show_nat_not_Nil digits_value_show_nat

lemma stringify_stored_not_Nil: "stringify_stored t \<noteq> []"
  by (simp add: stringify_stored_def)

lemma getTaskId_saved:
  "getTaskId t (saveTaskId now i st) =
     (if now + TASK_EXPIRY_MS < t then (clearTaskId (saveTaskId now i st), None)
      else (saveTaskId now i st, Some i))"
proof -
  have "parse_stored (stringify_stored \<lparr>stored_id = i, expiry = now + TASK_EXPIRY_MS\<rparr>) =
        Some \<lparr>stored_id = i, expiry = now + TASK_EXPIRY_MS\<rparr>"
    by (simp add: stored_text_simps)
  then show ?thesis by (simp add: getTaskId_def saveTaskId_def stringify_stored_not_Nil)
qed

lemma clearTaskId_key [simp]: "clearTaskId st TASK_ID_KEY = None"
  by (simp add: clearTaskId_def)

lemma getTaskId_cleared: "getTaskId now (clearTaskId st) = (clearTaskId st, None)"
  by (simp add: getTaskId_def clearTaskId_def)

lemma getTaskId_frame: "k \<noteq> TASK_ID_KEY \<Longrightarrow> fst (getTaskId now st) k = st k"
  by (auto simp: getTaskId_def clearTaskId_def split: option.splits)

subsection \<open>Properties of the task storage\<close>

text \<open>
  C9. A task id saved at \<open>now\<close> is read back unchanged, without any write,
  at every time up to and including \<open>now + 2.5 h\<close>.
\<close>

theorem saved_task_read_within_ttl:
  assumes "t \<le> now + TASK_EXPIRY_MS"
  shows "getTaskId t (saveTaskId now i st) = (saveTaskId now i st, Some i)"
  using assms by (simp add: getTaskId_saved)

theorem saved_task_read_within_ttl_witness:
  "getTaskId 9000001 (saveTaskId 1 ''task-7'' Map.empty) = (saveTaskId 1 ''task-7'' Map.empty, Some ''task-7'')"
  using saved_task_read_within_ttl [of 9000001 1 "''task-7''" Map.empty] by (simp add: TASK_EXPIRY_MS_def)

text \<open>
  C11. A persisted task read after its expiry is treated as absent and
  evicted from storage.
\<close>

theorem expired_task_evicted:
  assumes "now + TASK_EXPIRY_MS < t"
  shows "getTaskId t (saveTaskId now i st) = ((saveTaskId now i st)(TASK_ID_KEY := None), None)"
  using assms by (simp add: getTaskId_saved clearTaskId_def)

theorem expired_task_evicted_witness:
  "getTaskId 9000002 (saveTaskId 1 ''task-7'' Map.empty) = (Map.empty, None)"
  using expired_task_evicted [of 1 9000002 "''task-7''" Map.empty]
  by (simp add: TASK_EXPIRY_MS_def saveTaskId_def)

text \<open>
  Reading is idempotent: a second \<open>getTaskId\<close> at the same time returns
  the same id and writes nothing more.
\<close>

theorem getTaskId_idempotent:
  "getTaskId now (fst (getTaskId now st)) = (fst (getTaskId now st), snd (getTaskId now st))"
  by (auto simp: getTaskId_def clearTaskId_def split: option.splits)

text \<open>
  The task storage writes only its own key: every other item of
  \<open>localStorage\<close> (the auth context's \<open>user\<close> among them) is left as it is.
\<close>

theorem task_storage_frame:
  assumes "k \<noteq> TASK_ID_KEY"
  shows "fst (getTaskId now st) k = st k \<and> saveTaskId now i st k = st k \<and> clearTaskId st k = st k"
  using assms by (auto simp: getTaskId_def saveTaskId_def clearTaskId_def split: option.splits)

theorem task_storage_frame_witness:
  "fst (getTaskId 5 [''user'' \<mapsto> ''u'']) ''user'' = Some ''u''
   \<and> saveTaskId 5 ''t'' [''user'' \<mapsto> ''u''] ''user'' = Some ''u''
   \<and> clearTaskId [''user'' \<mapsto> ''u''] ''user'' = Some ''u''"
  using task_storage_frame [of "''user''" 5 "[''user'' \<mapsto> ''u'']" "''t''"]
  by (simp add: TASK_ID_KEY_def)

end
