(* ===== verification/Task_Poller.thy ===== *)
theory Task_Poller
  imports Task_Storage
begin

text \<open>
  \<open>src/frontend/src/context/TaskContext.tsx\<close>: the provider that tracks the
  bills-PDF task. Its React state (\<open>taskId\<close>, \<open>taskStatus\<close>, \<open>isLoading\<close>)
  is the record \<open>poller_state\<close>, together with what lives outside React:
  the interval the polling effect installed (with the task id its callback
  checks), the \<open>getTaskStatus\<close> calls still awaiting their response, and
  \<open>localStorage\<close>. Every handler returns the new state and the effects it
  performs (status requests and toasts). After a handler has set state,
  React re-renders the provider, which evaluates \<open>useState(getTaskId())\<close>
  again (a read of the storage that may evict an expired item), and then
  re-runs the polling effect: \<open>commit\<close> models both.
\<close>

datatype toast = SuccessToast string | ErrorToast string

datatype poller_effect =
    StatusRequest string        \<comment> \<open>\<open>getTaskStatus(id)\<close>\<close>
  | Toast toast                 \<comment> \<open>\<open>showSuccessToast\<close> / \<open>showErrorToast\<close>\<close>

datatype fetch_result = Fetched jsval | FetchFailed  \<comment> \<open>the awaited \<open>getTaskStatus\<close>\<close>

record poller_state =
  taskId :: "string option"
  taskStatus :: jsval           \<comment> \<open>\<open>TaskStatusData | null\<close>\<close>
  isLoading :: bool
  interval :: "string option"   \<comment> \<open>the live \<open>setInterval\<close> and the id it checks\<close>
  checks :: "string list"       \<comment> \<open>\<open>getTaskStatus\<close> calls awaiting their response\<close>
  store :: storage              \<comment> \<open>\<open>localStorage\<close>\<close>

definition MSG_READY :: string where "MSG_READY = ''Your bills PDF is ready for download!''"
definition MSG_FAILED :: string where "MSG_FAILED = ''Failed to generate bills. Please try again.''"
definition MSG_RETRY :: string where
  "MSG_RETRY = ''Something went wrong during generation. Please try again or contact support.''"
definition MSG_CHECK :: string where "MSG_CHECK = ''Unable to check task status. Please try again.''"

subsection \<open>Handlers\<close>

definition clearTask :: "poller_state \<Rightarrow> poller_state" where
  "clearTask s = s\<lparr>store := clearTaskId (store s), taskId := None, taskStatus := JNull\<rparr>"

text \<open>The status payload, unwrapped from the envelope \<open>{message, data, status}\<close>.\<close>

definition normalize :: "jsval \<Rightarrow> jsval option" where
  "normalize raw = do {
     a \<leftarrow> do { x \<leftarrow> js_and raw (\<lambda>_. js_prop raw ''data'');
               js_and x (\<lambda>_. do { d \<leftarrow> js_prop raw ''data''; js_prop d ''data'' }) };
     b \<leftarrow> js_coalesce a (\<lambda>_. js_and raw (\<lambda>_. js_prop raw ''data''));
     js_coalesce b (\<lambda>_. Some raw) }"

definition status_of :: "jsval \<Rightarrow> jsval" where
  "status_of v = js_opt_prop v ''status''"

text \<open>\<open>checkTaskStatus(id)\<close> up to its \<open>await\<close>.\<close>

definition checkTaskStatus :: "string \<Rightarrow> poller_state \<Rightarrow> poller_state \<times> poller_effect list" where
  "checkTaskStatus i s = (s\<lparr>isLoading := True, checks := checks s @ [i]\<rparr>, [StatusRequest i])"

text \<open>
  The rest of \<open>checkTaskStatus\<close>, run when the awaited call settles: the
  \<open>try\<close> block on a payload, the \<open>catch\<close> block on a rejection (or on a
  \<open>TypeError\<close> in the normalisation, which cannot occur), the \<open>finally\<close>
  block in both cases.
\<close>

definition checkTaskStatus_settled ::
  "string \<Rightarrow> fetch_result \<Rightarrow> poller_state \<Rightarrow> poller_state \<times> poller_effect list" where
  "checkTaskStatus_settled i res s =
     (let s0 = s\<lparr>checks := remove1 i (checks s)\<rparr>;
          caught = ((clearTask s0)\<lparr>isLoading := False\<rparr>, [Toast (ErrorToast MSG_CHECK)])
      in case res of
           FetchFailed \<Rightarrow> caught
         | Fetched raw \<Rightarrow>
             (case normalize raw of
                None \<Rightarrow> caught
              | Some nv \<Rightarrow>
                  (let s1 = s0\<lparr>taskStatus := nv\<rparr>; st = status_of nv in
                   if st = JStr ''SUCCESS'' then (s1\<lparr>isLoading := False\<rparr>, [Toast (SuccessToast MSG_READY)])
                   else if st = JStr ''FAILURE'' then
                     ((clearTask s1)\<lparr>isLoading := False\<rparr>, [Toast (ErrorToast MSG_FAILED)])
                   else if st = JStr ''RETRY'' then
                     ((clearTask s1)\<lparr>isLoading := False\<rparr>, [Toast (ErrorToast MSG_RETRY)])
                   else (s1\<lparr>isLoading := False\<rparr>, []))))"

definition startTask :: "timestamp \<Rightarrow> string \<Rightarrow> poller_state \<Rightarrow> poller_state" where
  "startTask now i s =
     s\<lparr>store := saveTaskId now i (store s), taskId := Some i,
       taskStatus := JObj [(''task_id'', JStr i), (''status'', JStr ''PENDING''), (''result'', JNull)]\<rparr>"

subsection \<open>Rendering and the polling effect\<close>

text \<open>
  The polling effect depends on \<open>[taskId, taskStatus]\<close>; its condition is
  \<open>taskId\<close> truthy (present and not empty) and the status neither
  \<open>SUCCESS\<close> nor \<open>RETRY\<close>. Its cleanup clears the previous interval
  whenever it re-runs, so the live interval is the one the condition
  describes for the committed state.
\<close>

definition poll_target :: "string option \<Rightarrow> jsval \<Rightarrow> string option" where
  "poll_target tid status =
     (case tid of
        None \<Rightarrow> None
      | Some i \<Rightarrow>
          if i \<noteq> [] \<and> status_of status \<noteq> JStr ''SUCCESS'' \<and> status_of status \<noteq> JStr ''RETRY''
          then Some i else None)"

definition pollingEffect :: "poller_state \<Rightarrow> poller_state" where
  "pollingEffect s = s\<lparr>interval := poll_target (taskId s) (taskStatus s)\<rparr>"

definition render :: "timestamp \<Rightarrow> poller_state \<Rightarrow> poller_state" where
  "render now s = s\<lparr>store := fst (getTaskId now (store s))\<rparr>"

definition commit :: "timestamp \<Rightarrow> poller_state \<Rightarrow> poller_state" where
  "commit now s = pollingEffect (render now s)"

subsection \<open>Mounting the provider\<close>

text \<open>
  The initial-check effect: it reads the storage again and, for a truthy
  id, sets it and calls \<open>checkTaskStatus\<close>; that state change is committed
  in turn.
\<close>

definition initialCheck :: "timestamp \<Rightarrow> poller_state \<Rightarrow> poller_state \<times> poller_effect list" where
  "initialCheck now s =
     (let (st2, existing) = getTaskId now (store s)
      in case existing of
           Some e \<Rightarrow>
             if e \<noteq> [] then (let (s', es) = checkTaskStatus e (s\<lparr>store := st2, taskId := Some e\<rparr>)
                              in (commit now s', es))
             else (s\<lparr>store := st2\<rparr>, [])
         | None \<Rightarrow> (s\<lparr>store := st2\<rparr>, []))"

text \<open>
  The first render reads the storage for the initial \<open>taskId\<close>; the first
  commit runs the polling effect and then the initial-check effect.
\<close>

definition mount :: "timestamp \<Rightarrow> storage \<Rightarrow> poller_state \<times> poller_effect list" where
  "mount now st0 =
     (let (st1, tid) = getTaskId now st0
      in initialCheck now (pollingEffect \<lparr>taskId = tid, taskStatus = JNull, isLoading = False, interval = None,
                                          checks = [], store = st1\<rparr>))"

subsection \<open>Events and runs\<close>

text \<open>
  What can happen to a mounted provider: a screen calls \<open>startTask\<close>,
  \<open>clearTask\<close> or \<open>checkTaskStatus\<close>, the interval fires, an awaited status
  call settles, or the
  provider re-renders for another reason.
\<close>

datatype poller_event =
    StartTask string
  | ClearTask
  | TimerTick
  | StatusArrives string fetch_result
  | CheckStatus string             \<comment> \<open>a screen calls \<open>checkTaskStatus(id)\<close> of the context\<close>
  | Rerender

fun poller_step :: "timestamp \<Rightarrow> poller_state \<Rightarrow> poller_event \<Rightarrow> poller_state \<times> poller_effect list" where
  "poller_step now s (StartTask i) = (commit now (startTask now i s), [])"
| "poller_step now s ClearTask = (commit now (clearTask s), [])"
| "poller_step now s TimerTick =
     (case interval s of
        None \<Rightarrow> (s, [])
      | Some i \<Rightarrow> (let (s', es) = checkTaskStatus i s in (commit now s', es)))"
| "poller_step now s (StatusArrives i r) =
     (if i \<in> set (checks s)
      then (let (s', es) = checkTaskStatus_settled i r s in (commit now s', es))
      else (s, []))"
| "poller_step now s (CheckStatus i) = (let (s', es) = checkTaskStatus i s in (commit now s', es))"
| "poller_step now s Rerender = (commit now s, [])"

fun poller_run :: "poller_state \<Rightarrow> (timestamp \<times> poller_event) list \<Rightarrow> poller_state \<times> poller_effect list" where
  "poller_run s [] = (s, [])"
| "poller_run s ((now, ev) # evs) =
     (let (s1, es1) = poller_step now s ev; (s2, es2) = poller_run s1 evs in (s2, es1 @ es2))"

subsection \<open>Commit, the polling effect and the interval\<close>

lemma commit_simps [simp]:
  "taskId (commit now s) = taskId s"
  "taskStatus (commit now s) = taskStatus s"
  "isLoading (commit now s) = isLoading s"
  "checks (commit now s) = checks s"
  "store (commit now s) = fst (getTaskId now (store s))"
  "interval (commit now s) = poll_target (taskId s) (taskStatus s)"
  by (simp_all add: commit_def pollingEffect_def render_def)

lemma poll_target_terminal:
  "status_of st = JStr ''SUCCESS'' \<or> status_of st = JStr ''RETRY'' \<or> tid = None \<Longrightarrow>
   poll_target tid st = None"
  by (auto simp: poll_target_def split: option.splits)

lemma ticks_idle:
  "interval s = None \<Longrightarrow> poller_run s (map (\<lambda>t. (t, TimerTick)) ts) = (s, [])"
  by (induction ts) auto

lemmas settle_simps = checkTaskStatus_settled_def normalize_def status_of_def js_and_def js_coalesce_def
  js_opt_prop_def nullish_def Let_def

subsection \<open>Properties of the task poller\<close>

text \<open>
  After \<open>startTask(id)\<close>, a timer tick and a \<open>PENDING\<close> answer, exactly
  one status request has been made, the task is still held with status
  \<open>PENDING\<close> and the interval keeps polling it.
\<close>

theorem start_then_pending_keeps_polling:
  assumes "i \<noteq> []"
  shows "let (s', es) = poller_run s [(t0, StartTask i), (t1, TimerTick),
            (t2, StatusArrives i (Fetched (JObj [(''task_id'', JStr i), (''status'', JStr ''PENDING''), (''result'', JNull)])))]
         in es = [StatusRequest i] \<and> interval s' = Some i \<and> taskId s' = Some i
            \<and> status_of (taskStatus s') = JStr ''PENDING''"
  using assms by (simp add: startTask_def checkTaskStatus_def settle_simps poll_target_def)

theorem start_then_pending_keeps_polling_witness:
  "let (s', es) = poller_run (fst (mount 0 Map.empty)) [(1, StartTask ''T1''), (15001, TimerTick),
       (15100, StatusArrives ''T1'' (Fetched (JObj [(''task_id'', JStr ''T1''), (''status'', JStr ''PENDING''), (''result'', JNull)])))]
   in es = [StatusRequest ''T1''] \<and> interval s' = Some ''T1'' \<and> taskId s' = Some ''T1''
      \<and> status_of (taskStatus s') = JStr ''PENDING''"
  by (rule start_then_pending_keeps_polling) simp

text \<open>
  C17. A \<open>SUCCESS\<close> answer stores the payload with its result, fires the
  success toast exactly once and stops polling: later timer ticks make no
  request.
\<close>

theorem success_stops_polling:
  assumes "i \<in> set (checks s)"
  shows "let p = JObj [(''task_id'', JStr i), (''status'', JStr ''SUCCESS''), (''result'', r)];
             (s', es) = poller_step now s (StatusArrives i (Fetched p))
         in es = [Toast (SuccessToast MSG_READY)] \<and> taskStatus s' = p \<and> interval s' = None
          \<and> poller_run s' (map (\<lambda>t. (t, TimerTick)) ts) = (s', [])"
  using assms by (simp add: settle_simps poll_target_terminal ticks_idle)

theorem success_stops_polling_witness:
  "let p = JObj [(''task_id'', JStr ''T1''), (''status'', JStr ''SUCCESS''), (''result'', JStr ''bills.pdf'')];
       (s', es) = poller_step 20 \<lparr>taskId = Some ''T1'', taskStatus = JNull, isLoading = True, interval = Some ''T1'', checks = [''T1''], store = Map.empty\<rparr> (StatusArrives ''T1'' (Fetched p))
   in es = [Toast (SuccessToast MSG_READY)] \<and> taskStatus s' = p \<and> interval s' = None
    \<and> poller_run s' (map (\<lambda>t. (t, TimerTick)) [35, 50]) = (s', [])"
  by (rule success_stops_polling) simp

text \<open>
  C14. A \<open>RETRY\<close> answer fires the retry error toast, clears the task from
  state and storage and disables polling: later ticks make no request.
\<close>

theorem retry_clears_task:
  assumes "i \<in> set (checks s)"
  shows "let (s', es) = poller_step now s (StatusArrives i (Fetched (JObj [(''status'', JStr ''RETRY'')])))
         in es = [Toast (ErrorToast MSG_RETRY)] \<and> taskId s' = None \<and> store s' TASK_ID_KEY = None
          \<and> interval s' = None \<and> poller_run s' (map (\<lambda>t. (t, TimerTick)) ts) = (s', [])"
  using assms by (simp add: settle_simps clearTask_def poll_target_def ticks_idle getTaskId_cleared)

theorem retry_clears_task_witness:
  "let (s', es) = poller_step 20 \<lparr>taskId = Some ''T1'', taskStatus = JNull, isLoading = True, interval = Some ''T1'', checks = [''T1''], store = Map.empty\<rparr> (StatusArrives ''T1'' (Fetched (JObj [(''status'', JStr ''RETRY'')])))
   in es = [Toast (ErrorToast MSG_RETRY)] \<and> taskId s' = None \<and> store s' TASK_ID_KEY = None
    \<and> interval s' = None \<and> poller_run s' (map (\<lambda>t. (t, TimerTick)) [35]) = (s', [])"
  by (rule retry_clears_task) simp

text \<open>
  C19. A \<open>FAILURE\<close> answer, or a status call that rejects, fires one error
  toast with its message, clears the task from state and storage, stops
  polling and clears the loading flag.
\<close>

theorem failure_clears_task:
  assumes "i \<in> set (checks s)"
    and "r = Fetched (JObj [(''status'', JStr ''FAILURE'')]) \<and> m = MSG_FAILED \<or> r = FetchFailed \<and> m = MSG_CHECK"
  shows "let (s', es) = poller_step now s (StatusArrives i r)
         in es = [Toast (ErrorToast m)] \<and> taskId s' = None \<and> store s' TASK_ID_KEY = None
          \<and> interval s' = None \<and> \<not> isLoading s'"
  using assms by (auto simp: settle_simps clearTask_def poll_target_def getTaskId_cleared)

theorem failure_clears_task_witness:
  "let (s', es) = poller_step 20 \<lparr>taskId = Some ''T1'', taskStatus = JNull, isLoading = True, interval = Some ''T1'', checks = [''T1''], store = Map.empty\<rparr> (StatusArrives ''T1'' FetchFailed)
   in es = [Toast (ErrorToast MSG_CHECK)] \<and> taskId s' = None \<and> store s' TASK_ID_KEY = None
    \<and> interval s' = None \<and> \<not> isLoading s'"
  by (rule failure_clears_task) simp_all

text \<open>
  The normalisation of a status payload never throws, whatever value
  the backend returns (\<open>null\<close>, primitives, objects with or without a
  \<open>data\<close> field).
\<close>

theorem normalize_total: "normalize raw \<noteq> None"
  by (cases raw) (auto simp: normalize_def js_and_def js_coalesce_def nullish_def js_prop_truthy)

text \<open>
  The normalisation unwraps the envelope \<open>{message, data, status}\<close> to
  its \<open>data\<close> object and leaves a plain status object as it is.
\<close>

theorem normalize_unwraps_envelope:
  assumes "map_of fs ''data'' = None"
  shows "normalize (JObj [(''message'', m), (''data'', JObj fs), (''status'', st)]) = Some (JObj fs)
       \<and> normalize (JObj fs) = Some (JObj fs)"
  using assms by (simp add: normalize_def js_and_def js_coalesce_def nullish_def)

theorem normalize_unwraps_envelope_witness:
  "normalize (JObj [(''message'', JStr ''ok''),
      (''data'', JObj [(''task_id'', JStr ''T1''), (''status'', JStr ''SUCCESS'')]), (''status'', JNum 200)])
     = Some (JObj [(''task_id'', JStr ''T1''), (''status'', JStr ''SUCCESS'')])
   \<and> normalize (JObj [(''task_id'', JStr ''T1''), (''status'', JStr ''SUCCESS'')])
     = Some (JObj [(''task_id'', JStr ''T1''), (''status'', JStr ''SUCCESS'')])"
  by (rule normalize_unwraps_envelope) simp

text \<open>
  C22. Mounting the provider with an unexpired persisted task issues
  exactly one immediate status request, before any timer tick, and leaves
  the interval polling that task.
\<close>

theorem mount_resumes_stored_task:
  assumes "t \<le> t0 + TASK_EXPIRY_MS" and "i \<noteq> []"
  shows "let (s, es) = mount t (saveTaskId t0 i st)
         in es = [StatusRequest i] \<and> taskId s = Some i \<and> interval s = Some i \<and> checks s = [i]"
  using assms
  by (simp add: mount_def initialCheck_def getTaskId_saved checkTaskStatus_def poll_target_def status_of_def js_opt_prop_def
      Let_def pollingEffect_def)

theorem mount_resumes_stored_task_witness:
  "let (s, es) = mount 3600000 (saveTaskId 0 ''T1'' Map.empty)
   in es = [StatusRequest ''T1''] \<and> taskId s = Some ''T1'' \<and> interval s = Some ''T1'' \<and> checks s = [''T1'']"
  by (rule mount_resumes_stored_task) (simp_all add: TASK_EXPIRY_MS_def)

text \<open>
  C15. Mounting the provider with an expired persisted task evicts it,
  issues no request and installs no interval.
\<close>

theorem mount_drops_expired_task:
  assumes "t0 + TASK_EXPIRY_MS < t"
  shows "mount t (saveTaskId t0 i st) =
     (\<lparr>taskId = None, taskStatus = JNull, isLoading = False, interval = None, checks = [],
       store = (saveTaskId t0 i st)(TASK_ID_KEY := None)\<rparr>, [])"
  using assms
  by (simp add: mount_def initialCheck_def getTaskId_saved getTaskId_cleared poll_target_def Let_def pollingEffect_def)
     (simp add: clearTaskId_def)

theorem mount_drops_expired_task_witness:
  "mount 9000001 (saveTaskId 0 ''T1'' Map.empty) =
     (\<lparr>taskId = None, taskStatus = JNull, isLoading = False, interval = None, checks = [],
       store = (saveTaskId 0 ''T1'' Map.empty)(TASK_ID_KEY := None)\<rparr>, [])"
  by (rule mount_drops_expired_task) (simp add: TASK_EXPIRY_MS_def)

text \<open>
  C24. The answer to a status check is not matched against the task it was
  issued for: after \<open>startTask(i2)\<close>, a \<open>FAILURE\<close> answer for the earlier
  task \<open>i1\<close> clears the new task from state and storage and stops its
  polling, and a \<open>SUCCESS\<close> answer for \<open>i1\<close> announces the PDF as ready
  and stops polling \<open>i2\<close>, which stays the current task and is never
  checked again.
\<close>

theorem stale_answer_ends_new_task:
  assumes "i1 \<noteq> []"
  shows "(let (s', es) = poller_run s [(t0, StartTask i1), (t1, TimerTick), (t2, StartTask i2),
                                      (t3, StatusArrives i1 (Fetched (JObj [(''status'', JStr ''FAILURE'')])))]
          in taskId s' = None \<and> store s' TASK_ID_KEY = None \<and> interval s' = None)
       \<and> (let (s', es) = poller_run s [(t0, StartTask i1), (t1, TimerTick), (t2, StartTask i2),
                                      (t3, StatusArrives i1 (Fetched (JObj [(''status'', JStr ''SUCCESS'')])))]
          in taskId s' = Some i2 \<and> interval s' = None
           \<and> es = [StatusRequest i1, Toast (SuccessToast MSG_READY)])"
  using assms
  by (simp add: startTask_def checkTaskStatus_def settle_simps clearTask_def poll_target_def getTaskId_cleared)

theorem stale_answer_ends_new_task_witness:
  "(let (s', es) = poller_run (fst (mount 0 Map.empty)) [(1, StartTask ''T1''), (15001, TimerTick),
       (15002, StartTask ''T2''), (15100, StatusArrives ''T1'' (Fetched (JObj [(''status'', JStr ''FAILURE'')])))]
    in taskId s' = None \<and> store s' TASK_ID_KEY = None \<and> interval s' = None)
   \<and> (let (s', es) = poller_run (fst (mount 0 Map.empty)) [(1, StartTask ''T1''), (15001, TimerTick),
       (15002, StartTask ''T2''), (15100, StatusArrives ''T1'' (Fetched (JObj [(''status'', JStr ''SUCCESS'')])))]
    in taskId s' = Some ''T2'' \<and> interval s' = None
     \<and> es = [StatusRequest ''T1'', Toast (SuccessToast MSG_READY)])"
  by (rule stale_answer_ends_new_task) simp

text \<open>
  C25. Polling outlives the persisted record: the interval keeps checking
  the task held in state after its storage item has expired and been
  evicted by a render.
\<close>

theorem polling_outlives_stored_task:
  assumes "i \<noteq> []" and "t0 + TASK_EXPIRY_MS < t1"
  shows "let (s', es) = poller_run s [(t0, StartTask i), (t1, TimerTick)]
         in es = [StatusRequest i] \<and> interval s' = Some i \<and> store s' TASK_ID_KEY = None"
  using assms
  by (simp add: startTask_def checkTaskStatus_def poll_target_def status_of_def js_opt_prop_def
      getTaskId_saved)

theorem polling_outlives_stored_task_witness:
  "let (s', es) = poller_run (fst (mount 0 Map.empty)) [(1, StartTask ''T1''), (9000002, TimerTick)]
   in es = [StatusRequest ''T1''] \<and> interval s' = Some ''T1'' \<and> store s' TASK_ID_KEY = None"
  by (rule polling_outlives_stored_task) (simp_all add: TASK_EXPIRY_MS_def)

text \<open>
  The provider writes no \<open>localStorage\<close> key other than the task key,
  whatever event it handles.
\<close>

theorem poller_step_frame:
  assumes "k \<noteq> TASK_ID_KEY"
  shows "store (fst (poller_step now s ev)) k = store s k"
  using assms
  by (cases ev) (auto simp: getTaskId_frame startTask_def saveTaskId_def clearTask_def clearTaskId_def
      checkTaskStatus_def checkTaskStatus_settled_def Let_def split: option.splits prod.splits fetch_result.splits)

theorem poller_step_frame_witness:
  "store (fst (poller_step 5 (fst (mount 0 [''user'' \<mapsto> ''u''])) (StartTask ''T1''))) ''user'' = Some ''u''"
  using poller_step_frame [of "''user''" 5 "fst (mount 0 [''user'' \<mapsto> ''u''])" "StartTask ''T1''"]
  by (simp add: TASK_ID_KEY_def mount_def initialCheck_def getTaskId_def Let_def pollingEffect_def)

end
