(* ===== verification/Alert_Messages.thy ===== *)
theory Alert_Messages
  imports Task_Storage
begin

text \<open>
  \<open>src/frontend/src/context/AlertContext.tsx\<close>: \<open>handleError\<close>, which turns
  whatever a failed call threw into the message it shows as an error toast
  and returns. A thrown value is a string, an \<open>AxiosError\<close> (its
  \<open>response?.data\<close>, \<open>undefined\<close> when there is no response, and its
  \<open>message\<close>), another \<open>Error\<close>, or anything else. The message is a
  JavaScript value, not necessarily a string: \<open>data.message\<close> is returned as
  the server sent it. A \<open>TypeError\<close> raised inside the handler is \<open>None\<close>.
  Numbers are printed with \<open>show_nat\<close> of the task storage's JSON model.
\<close>

datatype thrown =
    ThrownString string
  | ThrownAxios jsval string       \<comment> \<open>\<open>error.response?.data\<close>, \<open>error.message\<close>\<close>
  | ThrownError string             \<comment> \<open>\<open>error.message\<close>\<close>
  | ThrownOther

datatype alert = ToastError jsval  \<comment> \<open>\<open>toast.error(errorMessage)\<close>\<close>

text \<open>\<open>Array.prototype.join(",")\<close> on strings.\<close>

fun join_comma :: "string list \<Rightarrow> string" where
  "join_comma [] = []"
| "join_comma [x] = x"
| "join_comma (x # xs) = x @ '','' @ join_comma xs"

text \<open>
  \<open>String(v)\<close>, as a template literal converts its holes. A number is
  printed as its decimal digits, which is what JavaScript prints for every
  safe integer (\<open>|n| < 2^53\<close>), the range in which a \<open>JNum\<close> stands for a
  JavaScript number; the exponent notation from \<open>1e21\<close> on and the rounding
  of larger integers to binary64 lie outside that range.
\<close>

fun js_to_string :: "jsval \<Rightarrow> string" where
  "js_to_string JUndef = ''undefined''"
| "js_to_string JNull = ''null''"
| "js_to_string (JBool b) = (if b then ''true'' else ''false'')"
| "js_to_string (JNum n) = (if n < 0 then ''-'' @ show_nat (nat (- n)) else show_nat (nat n))"
| "js_to_string (JStr s) = s"
| "js_to_string (JObj _) = ''[object Object]''"
| "js_to_string (JArr xs) =
     join_comma (map (\<lambda>v. if nullish v then [] else js_to_string v) xs)"

definition DEFAULT_MESSAGE :: string where
  "DEFAULT_MESSAGE = ''An unexpected error occurred.''"

definition token_messages :: "string list" where
  "token_messages =
     [''Invalid token or token has expired.'', ''Invalid refresh token cookies'', ''Invalid refresh token.'']"

text \<open>The message of an \<open>AxiosError\<close> (lines 34--42).\<close>

definition axios_message :: "jsval \<Rightarrow> string \<Rightarrow> jsval option" where
  "axios_message d msg =
     (case js_opt_prop d ''fieldErrors'' of
        JArr (firstError # _) \<Rightarrow>
          do {
            f \<leftarrow> js_prop firstError ''field'';
            m \<leftarrow> js_prop firstError ''message'';
            Some (JStr (js_to_string (js_or f (JStr ''Field'')) @ '' ''
                        @ js_to_string (js_or m (JStr ''is invalid''))))
          }
      | _ \<Rightarrow> Some (js_or (js_opt_prop d ''message'') (JStr msg)))"

definition error_message :: "thrown \<Rightarrow> jsval option" where
  "error_message e =
     (case e of
        ThrownString s \<Rightarrow> Some (JStr s)
      | ThrownAxios d msg \<Rightarrow> axios_message d msg
      | ThrownError msg \<Rightarrow> Some (JStr msg)
      | ThrownOther \<Rightarrow> Some (JStr DEFAULT_MESSAGE))"

text \<open>
  \<open>errorMessage !== s\<close> for each token message: strict inequality, so a
  non-string message is never suppressed.
\<close>

definition handleError :: "thrown \<Rightarrow> (jsval \<times> alert list) option" where
  "handleError e =
     do {
       m \<leftarrow> error_message e;
       Some (m, if m \<notin> JStr ` set token_messages then [ToastError m] else [])
     }"

lemmas handleError_simps = handleError_def error_message_def axios_message_def js_or_def

subsection \<open>Properties of \<open>handleError\<close>\<close>

text \<open>
  C34. \<open>handleError\<close> itself throws exactly when it is given an
  \<open>AxiosError\<close> whose \<open>fieldErrors\<close> is a non-empty array whose first
  element is \<open>null\<close> or \<open>undefined\<close> (reading \<open>firstError.field\<close> raises a
  \<open>TypeError\<close>); every other thrown value yields a message.
\<close>

theorem handleError_throws_iff:
  "handleError e = None \<longleftrightarrow>
     (\<exists>d msg x xs. e = ThrownAxios d msg \<and> js_opt_prop d ''fieldErrors'' = JArr (x # xs) \<and> nullish x)"
  by (auto simp: handleError_def error_message_def axios_message_def js_prop_None_iff nullish_def
      split: thrown.splits jsval.splits list.splits bind_splits)

text \<open>
  C35. A validation error reported in \<open>fieldErrors\<close> is shown as the first
  entry's field name and message, separated by a space, and toasted unless
  the text is one of the token messages.
\<close>

theorem handleError_field_error:
  assumes "js_opt_prop d ''fieldErrors'' = JArr (JObj fs # xs)"
    and "map_of fs ''field'' = Some (JStr f)" and "f \<noteq> []"
    and "map_of fs ''message'' = Some (JStr m)" and "m \<noteq> []"
  shows "handleError (ThrownAxios d msg) =
           Some (JStr (f @ '' '' @ m),
                 if f @ '' '' @ m \<in> set token_messages then [] else [ToastError (JStr (f @ '' '' @ m))])"
  using assms by (simp add: handleError_simps image_iff)

theorem handleError_field_error_witness:
  "handleError (ThrownAxios (JObj [(''fieldErrors'', JArr [JObj [(''field'', JStr ''email''), (''message'', JStr ''is required'')]])]) ''Request failed'')
     = Some (JStr ''email is required'', [ToastError (JStr ''email is required'')])"
  using handleError_field_error
    [of "JObj [(''fieldErrors'', JArr [JObj [(''field'', JStr ''email''), (''message'', JStr ''is required'')]])]"
        "[(''field'', JStr ''email''), (''message'', JStr ''is required'')]" "[]" "''email''" "''is required''"
        "''Request failed''"]
  by (simp add: js_opt_prop_def token_messages_def)

text \<open>
  Without \<open>fieldErrors\<close>, a truthy \<open>data.message\<close> is returned and
  toasted as the server sent it: when it is not a string, the handler,
  declared to return a string, returns that object or array.
\<close>

theorem handleError_returns_non_string:
  assumes "truthy v" and "\<forall>s. v \<noteq> JStr s"
  shows "handleError (ThrownAxios (JObj [(''message'', v)]) msg) = Some (v, [ToastError v])"
  using assms by (auto simp: handleError_simps js_opt_prop_def)

theorem handleError_returns_non_string_witness:
  "handleError (ThrownAxios (JObj [(''message'', JObj [])]) ''Request failed'') = Some (JObj [], [ToastError (JObj [])])"
  using handleError_returns_non_string [of "JObj []" "''Request failed''"] by simp

text \<open>
  C36. The declared return type \<open>string\<close> fails in one case only: a
  result that is not a string is the truthy \<open>data.message\<close> of an
  \<open>AxiosError\<close>'s response, returned unchanged.
\<close>

theorem handleError_string_result:
  assumes "handleError e = Some (m, ts)" and "\<forall>s. m \<noteq> JStr s"
  shows "\<exists>d msg. e = ThrownAxios d msg \<and> m = js_opt_prop d ''message'' \<and> truthy m"
  using assms
  by (auto simp: handleError_simps split: thrown.splits jsval.splits list.splits bind_splits if_splits)

theorem handleError_string_result_witness:
  "\<exists>d msg. ThrownAxios (JObj [(''message'', JArr [JNum 1])]) ''Request failed'' = ThrownAxios d msg
     \<and> JArr [JNum 1] = js_opt_prop d ''message'' \<and> truthy (JArr [JNum 1])"
  using handleError_string_result
    [of "ThrownAxios (JObj [(''message'', JArr [JNum 1])]) ''Request failed''" "JArr [JNum 1]" "[ToastError (JArr [JNum 1])]"]
  by (simp add: handleError_simps js_opt_prop_def)

end
