(* ===== verification/Json_Text.thy ===== *)
theory Json_Text
  imports Alert_Messages
begin

text \<open>
  \<open>JSON.stringify\<close> on the values of \<open>Js_Values\<close>, as the auth context
  applies it to the user object before storing it. A \<open>JObj\<close> stands for an
  object whose keys are distinct (\<open>js_wf\<close>); members whose value is
  \<open>undefined\<close> are left out, \<open>undefined\<close> array elements are written as
  \<open>null\<close>, and \<open>undefined\<close> itself has no JSON text (\<open>None\<close>).
  \<open>json_norm\<close> is the value \<open>JSON.parse\<close> returns for that text.
\<close>

fun json_stringify :: "jsval \<Rightarrow> string option"
and json_members :: "(string \<times> jsval) list \<Rightarrow> string list"
and json_elements :: "jsval list \<Rightarrow> string list" where
  "json_stringify JUndef = None"
| "json_stringify JNull = Some ''null''"
| "json_stringify (JBool b) = Some (if b then ''true'' else ''false'')"
| "json_stringify (JNum n) = Some (js_to_string (JNum n))"
| "json_stringify (JStr s) = Some (json_quote s)"
| "json_stringify (JObj fs) = Some (''{'' @ join_comma (json_members fs) @ ''}'')"
| "json_stringify (JArr xs) = Some (''['' @ join_comma (json_elements xs) @ '']'')"
| "json_members [] = []"
| "json_members ((k, v) # fs) =
     (case json_stringify v of
        None \<Rightarrow> json_members fs
      | Some t \<Rightarrow> (json_quote k @ '':'' @ t) # json_members fs)"
| "json_elements [] = []"
| "json_elements (v # vs) = (case json_stringify v of None \<Rightarrow> ''null'' | Some t \<Rightarrow> t) # json_elements vs"

fun json_norm :: "jsval \<Rightarrow> jsval" where
  "json_norm (JObj fs) = JObj (map (\<lambda>(k, v). (k, json_norm v)) (filter (\<lambda>(k, v). v \<noteq> JUndef) fs))"
| "json_norm (JArr xs) = JArr (map (\<lambda>v. if v = JUndef then JNull else json_norm v) xs)"
| "json_norm v = v"

fun js_wf :: "jsval \<Rightarrow> bool" where
  "js_wf (JObj fs) = (distinct (map fst fs) \<and> (\<forall>p \<in> set fs. js_wf (snd p)))"
| "js_wf (JArr xs) = (\<forall>v \<in> set xs. js_wf v)"
| "js_wf _ = True"

lemma json_stringify_Some_iff: "json_stringify v \<noteq> None \<longleftrightarrow> v \<noteq> JUndef"
  by (cases v) auto

lemma json_stringify_nonempty: "json_stringify v = Some t \<Longrightarrow> t \<noteq> []"
  by (cases v) (auto simp: json_quote_def show_nat_not_Nil split: if_splits)

lemma map_of_filter_defined:
  "distinct (map fst fs) \<Longrightarrow>
   map_of (filter (\<lambda>(k, v). v \<noteq> JUndef) fs) k = (if map_of fs k = Some JUndef then None else map_of fs k)"
  by (induction fs) (auto simp: map_of_eq_None_iff image_iff)

lemma json_norm_truthy [simp]: "truthy (json_norm v) = truthy v"
  by (cases v) auto

lemma json_norm_JStr_iff [simp]: "json_norm v = JStr s \<longleftrightarrow> v = JStr s"
  by (cases v) auto

text \<open>Reading a property of the parsed text is normalising the property.\<close>

lemma json_norm_prop: "js_wf v \<Longrightarrow> js_opt_prop (json_norm v) k = json_norm (js_opt_prop v k)"
  by (cases v) (auto simp: js_opt_prop_def map_of_map comp_def map_of_filter_defined split: option.splits)

end
