(* ===== verification/Auth_Session.thy ===== *)
theory Auth_Session
  imports Session_Guard Json_Text "HOL-Library.AList"
begin

text \<open>
  \<open>src/frontend/src/context/AuthContext.tsx\<close>: the provider that holds the
  signed-in user. Its React state (\<open>user\<close>, \<open>loading\<close>,
  \<open>showUnauthorizedModal\<close>) and the \<open>localStorage\<close> map it shares with the
  task storage form \<open>auth_state\<close>. The user is the JavaScript value the
  login service resolved with (\<open>JNull\<close> for \<open>null\<close>); \<open>login\<close> stores its
  \<open>JSON.stringify\<close> text under the key \<open>user\<close> and the initial load
  restores it with \<open>JSON.parse\<close>, a parameter \<open>json_parse\<close> of the
  definitions (\<open>None\<close>: the text is rejected and \<open>JSON.parse\<close> throws).
  \<open>login\<close> is split at its \<open>await\<close>: \<open>login\<close> sends the request,
  \<open>login_settled\<close> runs when the service settles. Its
  \<open>authError\<close> listener consumes the \<open>Dispatch\<close> effects of the session
  guard: \<open>window.dispatchEvent\<close> runs the listener synchronously, in the
  order the guard dispatches. The \<open>await\<close> of \<open>authService.logout()\<close> is
  not split: nothing the model observes happens between the call and the
  navigation that follows it.
\<close>

definition USER_KEY :: string where "USER_KEY = ''user''"

record auth_state =
  auth_user :: jsval             \<comment> \<open>\<open>user\<close>: \<open>User | null\<close>\<close>
  loading :: bool
  showUnauthorizedModal :: bool
  auth_store :: storage          \<comment> \<open>\<open>localStorage\<close>\<close>

datatype auth_effect =
    LoginApiCall jsval           \<comment> \<open>\<open>authService.login(payload)\<close>\<close>
  | LoginRejects                 \<comment> \<open>the promise \<open>login\<close> returned rejects with the service's error\<close>
  | LogoutApiCall                \<comment> \<open>\<open>authService.logout()\<close>\<close>
  | Navigate string              \<comment> \<open>\<open>navigate(path)\<close>\<close>

definition auth_init :: "storage \<Rightarrow> auth_state" where
  "auth_init st = \<lparr>auth_user = JNull, loading = True, showUnauthorizedModal = False, auth_store = st\<rparr>"

text \<open>\<open>!!localStorage.getItem(key)\<close>: present and not the empty string.\<close>

definition stored_truthy :: "storage \<Rightarrow> string \<Rightarrow> bool" where
  "stored_truthy st k = (case st k of None \<Rightarrow> False | Some v \<Rightarrow> v \<noteq> [])"

text \<open>
  \<open>{ ...credentials, device_id }\<close>: the credentials' own members in their
  order, \<open>device_id\<close> replacing a member of that name in place or added last.
\<close>

definition login_payload :: "(string \<times> jsval) list \<Rightarrow> string \<Rightarrow> jsval" where
  "login_payload credentials device_id = JObj (AList.update ''device_id'' (JStr device_id) credentials)"

text \<open>\<open>login(credentials)\<close> up to its \<open>await\<close>; \<open>getDeviceId()\<close> is the given id.\<close>

definition login :: "(string \<times> jsval) list \<Rightarrow> string \<Rightarrow> auth_state \<Rightarrow> auth_state \<times> auth_effect list" where
  "login credentials device_id s = (s, [LoginApiCall (login_payload credentials device_id)])"

datatype login_outcome = LoginResolves jsval | LoginFails

text \<open>
  \<open>localStorage.setItem(k, v)\<close> stores \<open>String(v)\<close>: \<open>JSON.stringify\<close>
  returns \<open>undefined\<close> for \<open>undefined\<close>, stored as the text
  \<open>"undefined"\<close>.
\<close>

definition setItem_text :: "string option \<Rightarrow> string" where
  "setItem_text v = (case v of None \<Rightarrow> ''undefined'' | Some t \<Rightarrow> t)"

text \<open>The rest of \<open>login\<close>, run when \<open>authService.login\<close> settles.\<close>

definition login_settled :: "login_outcome \<Rightarrow> auth_state \<Rightarrow> auth_state \<times> auth_effect list" where
  "login_settled r s =
     (case r of
        LoginFails \<Rightarrow> (s, [LoginRejects])
      | LoginResolves userData \<Rightarrow>
          (s\<lparr>auth_store := (auth_store s)(USER_KEY \<mapsto> setItem_text (json_stringify userData)),
             auth_user := userData\<rparr>, [Navigate ''/'']))"

definition logout :: "bool \<Rightarrow> auth_state \<Rightarrow> auth_state \<times> auth_effect list" where
  "logout isSessionExpired s =
     (if \<not> stored_truthy (auth_store s) USER_KEY then (s, [])
      else (let s1 = s\<lparr>auth_store := (auth_store s)(USER_KEY := None), auth_user := JNull\<rparr> in
            if \<not> isSessionExpired then (s1, [LogoutApiCall, Navigate ''/login''])
            else (s1, [Navigate ''/login''])))"

definition handleAuthError :: "auth_reason \<Rightarrow> auth_state \<Rightarrow> auth_state \<times> auth_effect list" where
  "handleAuthError reason s =
     (case reason of
        SessionExpired \<Rightarrow> logout True s
      | Unauthorized \<Rightarrow> (s\<lparr>showUnauthorizedModal := True\<rparr>, []))"

text \<open>
  The initial-load effect. \<open>None\<close>: \<open>JSON.parse\<close> throws inside the effect,
  before \<open>setUser\<close> and \<open>setLoading(false)\<close>; nothing in the tree catches
  it, so React unmounts the application and the stored item stays.
\<close>

definition initialLoad :: "(string \<Rightarrow> jsval option) \<Rightarrow> auth_state \<Rightarrow> auth_state option" where
  "initialLoad json_parse s =
     (case auth_store s USER_KEY of
        Some v \<Rightarrow>
          if v \<noteq> [] then map_option (\<lambda>u. s\<lparr>auth_user := u, loading := False\<rparr>) (json_parse v)
          else Some (s\<lparr>loading := False\<rparr>)
      | None \<Rightarrow> Some (s\<lparr>loading := False\<rparr>))"

text \<open>\<open>onConfirm\<close> of the \<open>UnauthorizedModal\<close> the provider renders.\<close>

definition closeUnauthorizedModal :: "auth_state \<Rightarrow> auth_state" where
  "closeUnauthorizedModal s = s\<lparr>showUnauthorizedModal := False\<rparr>"

text \<open>\<open>isAuthenticated: !!user\<close> of the context value.\<close>

definition isAuthenticated :: "auth_state \<Rightarrow> bool" where
  "isAuthenticated s \<longleftrightarrow> truthy (auth_user s)"

text \<open>The memoised context value, without the two callbacks.\<close>

record auth_context =
  ctx_user :: jsval
  ctx_isAuthenticated :: bool
  ctx_loading :: bool

definition authContextValue :: "auth_state \<Rightarrow> auth_context" where
  "authContextValue s =
     \<lparr>ctx_user = auth_user s, ctx_isAuthenticated = isAuthenticated s, ctx_loading = loading s\<rparr>"

text \<open>\<open>useAuth()\<close>: the context of the nearest provider, or the error it throws.\<close>

definition useAuth :: "auth_context option \<Rightarrow> string + auth_context" where
  "useAuth c = (case c of None \<Rightarrow> Inl ''useAuth must be used within an AuthProvider'' | Some v \<Rightarrow> Inr v)"

text \<open>
  The logout button of \<open>components/layout/Header.tsx\<close>: \<open>if (logout) logout()\<close>,
  a manual logout (\<open>isSessionExpired\<close> defaults to \<open>false\<close>).
\<close>

definition header_logout :: "auth_state \<Rightarrow> auth_state \<times> auth_effect list" where
  "header_logout s = logout False s"

text \<open>
  The listener applied to the guard's effect log: each \<open>Dispatch\<close> is one
  call of \<open>handleAuthError\<close>; the other effects do not reach it.
\<close>

fun deliver :: "auth_state \<Rightarrow> effect list \<Rightarrow> auth_state \<times> auth_effect list" where
  "deliver s [] = (s, [])"
| "deliver s (Dispatch r # es) =
     (let (s1, a1) = handleAuthError r s; (s2, a2) = deliver s1 es in (s2, a1 @ a2))"
| "deliver s (_ # es) = deliver s es"

lemma deliver_append:
  "deliver s (xs @ ys) = (let (s1, a1) = deliver s xs; (s2, a2) = deliver s1 ys in (s2, a1 @ a2))"
  by (induction s xs rule: deliver.induct) (auto split: prod.splits)

lemma deliver_no_dispatch:
  "\<forall>r. Dispatch r \<notin> set xs \<Longrightarrow> deliver s xs = (s, [])"
  by (induction s xs rule: deliver.induct) fastforce+

lemma USER_KEY_not_task_key [simp]: "USER_KEY \<noteq> TASK_ID_KEY" "TASK_ID_KEY \<noteq> USER_KEY"
  by (simp_all add: USER_KEY_def TASK_ID_KEY_def)

lemma header_logout_signed_in:
  "stored_truthy (auth_store s) USER_KEY \<Longrightarrow>
   header_logout s = (s\<lparr>auth_store := (auth_store s)(USER_KEY := None), auth_user := JNull\<rparr>,
                      [LogoutApiCall, Navigate ''/login''])"
  by (simp add: header_logout_def logout_def)

lemma initialLoad_stored:
  "auth_store s USER_KEY = Some v \<Longrightarrow> v \<noteq> [] \<Longrightarrow>
   initialLoad json_parse s = map_option (\<lambda>u. s\<lparr>auth_user := u, loading := False\<rparr>) (json_parse v)"
  by (simp add: initialLoad_def)

lemma setItem_text_nonempty: "setItem_text (json_stringify u) \<noteq> []"
  by (cases "json_stringify u") (auto simp: setItem_text_def json_stringify_nonempty)

subsection \<open>Properties of the auth session\<close>

text \<open>
  C20. A login whose service resolves with \<open>undefined\<close> navigates to the
  home page although no user is signed in, and stores the text
  \<open>"undefined"\<close>; \<open>JSON.parse\<close> rejects that text, so from then on every
  start of the provider throws in its initial load.
\<close>

theorem login_undefined_breaks_reload:
  assumes "json_parse ''undefined'' = None"
  shows "let (a1, es) = login_settled (LoginResolves JUndef) a
         in es = [Navigate ''/''] \<and> \<not> isAuthenticated a1 \<and> auth_store a1 USER_KEY = Some ''undefined''
          \<and> initialLoad json_parse (auth_init (auth_store a1)) = None"
  using assms initialLoad_stored [of "auth_init (auth_store (fst (login_settled (LoginResolves JUndef) a)))"]
  by (simp add: login_settled_def isAuthenticated_def setItem_text_def auth_init_def)

theorem login_undefined_breaks_reload_witness:
  "let (a1, es) = login_settled (LoginResolves JUndef) (auth_init Map.empty)
   in es = [Navigate ''/''] \<and> \<not> isAuthenticated a1 \<and> auth_store a1 USER_KEY = Some ''undefined''
    \<and> initialLoad (\<lambda>_. None) (auth_init (auth_store a1)) = None"
  using login_undefined_breaks_reload [of "\<lambda>_. None" "auth_init Map.empty"] by simp


text \<open>
  A \<open>sessionExpired\<close> event for a signed-in user removes the stored user
  and the user state and navigates to the login page once, without calling
  the logout endpoint; every other storage item, the persisted task among
  them, is kept.
\<close>

theorem session_expired_logs_out:
  assumes "stored_truthy (auth_store s) USER_KEY"
  shows "let (s', es) = handleAuthError SessionExpired s
         in auth_user s' = JNull \<and> auth_store s' = (auth_store s)(USER_KEY := None)
          \<and> es = [Navigate ''/login''] \<and> LogoutApiCall \<notin> set es"
  using assms by (simp add: handleAuthError_def logout_def)

theorem session_expired_logs_out_witness:
  "let (s', es) = handleAuthError SessionExpired (auth_init [USER_KEY \<mapsto> ''{}'', TASK_ID_KEY \<mapsto> ''t''])
   in auth_user s' = JNull \<and> auth_store s' = [USER_KEY \<mapsto> ''{}'', TASK_ID_KEY \<mapsto> ''t''](USER_KEY := None)
    \<and> es = [Navigate ''/login''] \<and> LogoutApiCall \<notin> set es"
  using session_expired_logs_out [of "auth_init [USER_KEY \<mapsto> ''{}'', TASK_ID_KEY \<mapsto> ''t'']"]
  by (simp add: auth_init_def stored_truthy_def)

text \<open>
  Session expiry is handled once: a second \<open>sessionExpired\<close> event after
  the first changes nothing and navigates nowhere.
\<close>

theorem session_expired_twice_noop:
  "handleAuthError SessionExpired (fst (handleAuthError SessionExpired s)) =
     (fst (handleAuthError SessionExpired s), [])"
  by (simp add: handleAuthError_def logout_def stored_truthy_def Let_def)

end
