(* ===== verification/Navigation.thy ===== *)
theory Navigation
  imports Prelude
begin

text \<open>
  Role-gated navigation: the route table and route resolution of
  \<open>src/frontend/src/routes/AppRoutes.tsx\<close> and the role filter of the
  sidebar links in \<open>src/frontend/src/components/layout/AppSidebar.tsx\<close>.
  A signed-in user is represented by its role (\<open>user?.role\<close>); \<open>None\<close> is
  no user. A location is its pathname split into segments. What a route
  renders is an \<open>element\<close>: a page, a redirect, the spinner, the forbidden
  or not-found placeholder, or an element wrapped in the protected layout
  (\<open>ProtectedRoute\<close> and \<open>Layout\<close>, which are rendered as they are).
\<close>

type_synonym role = string

datatype page =
    DashboardPage | UsersPage | PackagesPage | MessagesPage | ReadingsPage | AreasPage
  | FixesPage | MetersPage | BillsPage | ManagePhoneNumber | LoginPage | ForgotPasswordPage
  | AddReadingPage | CameraPage

datatype element =
    Spinner
  | Page page
  | NavigateTo string
  | ForbiddenPage
  | NotFoundPage
  | Protected element

record route_config =
  rpath :: string
  component :: page
  allowedRoles :: "role list"

definition appRoutesConfig :: "route_config list" where
  "appRoutesConfig =
     [\<lparr>rpath = ''dashboard'', component = DashboardPage, allowedRoles = [''system'', ''admin'']\<rparr>,
      \<lparr>rpath = ''users'', component = UsersPage, allowedRoles = [''system'', ''admin'']\<rparr>,
      \<lparr>rpath = ''packages'', component = PackagesPage, allowedRoles = [''system'', ''admin'']\<rparr>,
      \<lparr>rpath = ''messages'', component = MessagesPage, allowedRoles = [''system'', ''admin'']\<rparr>,
      \<lparr>rpath = ''readings'', component = ReadingsPage, allowedRoles = [''system'', ''admin'', ''user'']\<rparr>,
      \<lparr>rpath = ''areas'', component = AreasPage, allowedRoles = [''system'', ''admin'']\<rparr>,
      \<lparr>rpath = ''fixes'', component = FixesPage, allowedRoles = [''system'', ''admin'']\<rparr>,
      \<lparr>rpath = ''meters'', component = MetersPage, allowedRoles = [''system'', ''admin'', ''user'']\<rparr>,
      \<lparr>rpath = ''bills'', component = BillsPage, allowedRoles = [''system'', ''admin'', ''user'']\<rparr>,
      \<lparr>rpath = ''manage-phone-number'', component = ManagePhoneNumber, allowedRoles = [''system'', ''admin'']\<rparr>]"

text \<open>\<open>allowedRoles.includes(user?.role ?? "")\<close>\<close>

definition route_element :: "role option \<Rightarrow> route_config \<Rightarrow> element" where
  "route_element r c =
     (if (case r of None \<Rightarrow> [] | Some x \<Rightarrow> x) \<in> set (allowedRoles c) then Page (component c) else ForbiddenPage)"

definition index_redirect :: "role option \<Rightarrow> string" where
  "index_redirect r = (if r = Some ''user'' then ''meters'' else ''dashboard'')"

text \<open>
  A route path matches a segment as React Router's \<open>matchPath\<close> does for
  a route without \<open>caseSensitive\<close>: its pattern is compiled with the
  \<open>i\<close> flag, so ASCII letters match in either case (the patterns are
  ASCII, and the \<open>i\<close> flag never folds a non-ASCII character to an ASCII one).
\<close>

definition lower_ascii :: "char \<Rightarrow> char" where
  "lower_ascii c =
     (case map_of (zip ''ABCDEFGHIJKLMNOPQRSTUVWXYZ'' ''abcdefghijklmnopqrstuvwxyz'') c of
        Some l \<Rightarrow> l | None \<Rightarrow> c)"

definition seg_match :: "string \<Rightarrow> string \<Rightarrow> bool" where
  "seg_match pat seg \<longleftrightarrow> map lower_ascii seg = map lower_ascii pat"

definition path_is :: "string \<Rightarrow> string list \<Rightarrow> bool" where
  "path_is pat segs \<longleftrightarrow> (case segs of [s] \<Rightarrow> seg_match pat s | _ \<Rightarrow> False)"

text \<open>
  The main \<open><Routes>\<close>: the spinner while the auth context is loading; the
  public routes redirect a signed-in user to \<open>/\<close>; under \<open>/\<close> the index
  redirect, the configured pages and the catch-all, all inside the
  protected layout.
\<close>

definition resolve :: "role option \<Rightarrow> bool \<Rightarrow> string list \<Rightarrow> element" where
  "resolve r isLoading segs =
     (if isLoading then Spinner
      else if path_is ''login'' segs then (if r \<noteq> None then NavigateTo ''/'' else Page LoginPage)
      else if path_is ''reset-password'' segs then (if r \<noteq> None then NavigateTo ''/'' else Page ForgotPasswordPage)
      else case segs of
        [] \<Rightarrow> Protected (NavigateTo (index_redirect r))
      | [p] \<Rightarrow>
          (case find (\<lambda>c. seg_match (rpath c) p) appRoutesConfig of
             Some c \<Rightarrow> Protected (route_element r c)
           | None \<Rightarrow> Protected NotFoundPage)
      | _ \<Rightarrow> Protected NotFoundPage)"

text \<open>The modal \<open><Routes>\<close>, rendered when the location carries a background location.\<close>

definition overlay :: "string list \<Rightarrow> page option" where
  "overlay segs =
     (case segs of
        [a, b, _] \<Rightarrow>
          (if seg_match ''readings'' a \<and> seg_match ''add-reading'' b then Some AddReadingPage
           else if seg_match ''readings'' a \<and> seg_match ''take-photo'' b then Some CameraPage
           else None)
      | _ \<Rightarrow> None)"

subsection \<open>The sidebar\<close>

record nav_item =
  nav_to :: string
  labelKey :: string
  roles :: "role list"

definition NAV_ITEMS :: "nav_item list" where
  "NAV_ITEMS =
     [\<lparr>nav_to = ''/dashboard'', labelKey = ''sidebar.dashboard'', roles = [''system'', ''admin'']\<rparr>,
      \<lparr>nav_to = ''/users'', labelKey = ''sidebar.users'', roles = [''system'', ''admin'']\<rparr>,
      \<lparr>nav_to = ''/packages'', labelKey = ''sidebar.packages'', roles = [''system'', ''admin'']\<rparr>,
      \<lparr>nav_to = ''/meters'', labelKey = ''sidebar.meters'', roles = [''system'', ''admin'', ''user'']\<rparr>,
      \<lparr>nav_to = ''/readings'', labelKey = ''sidebar.readings'', roles = [''system'', ''admin'', ''user'']\<rparr>,
      \<lparr>nav_to = ''/messages'', labelKey = ''sidebar.messages'', roles = [''system'', ''admin'']\<rparr>,
      \<lparr>nav_to = ''/bills'', labelKey = ''sidebar.bills'', roles = [''system'', ''admin'', ''user'']\<rparr>,
      \<lparr>nav_to = ''/fixes'', labelKey = ''sidebar.fixes'', roles = [''system'', ''admin'', ''user'']\<rparr>,
      \<lparr>nav_to = ''/areas'', labelKey = ''sidebar.areas'', roles = [''system'', ''admin'']\<rparr>]"

text \<open>\<open>NAV_ITEMS.filter(link => role && link.roles.includes(role))\<close>: an empty role is falsy.\<close>

definition allowedLinks :: "role option \<Rightarrow> nav_item list" where
  "allowedLinks r =
     filter (\<lambda>l. case r of None \<Rightarrow> False | Some x \<Rightarrow> x \<noteq> [] \<and> x \<in> set (roles l)) NAV_ITEMS"

text \<open>\<open>isActive={location.pathname === item.to}\<close> of a sidebar link.\<close>

definition link_active :: "string \<Rightarrow> nav_item \<Rightarrow> bool" where
  "link_active pathname l \<longleftrightarrow> pathname = nav_to l"

text \<open>The header of the sidebar: \<open>user?.role || "Guest"\<close>.\<close>

definition role_label :: "role option \<Rightarrow> string" where
  "role_label r = (case r of Some x \<Rightarrow> if x \<noteq> [] then x else ''Guest'' | None \<Rightarrow> ''Guest'')"

datatype sidebar_side = LeftSide | RightSide

text \<open>\<open>side={isRtl ? "right" : "left"}\<close> with \<open>isRtl = i18n.dir() === "rtl"\<close>.\<close>

definition sidebar_side_of :: "bool \<Rightarrow> sidebar_side" where
  "sidebar_side_of isRtl = (if isRtl then RightSide else LeftSide)"

text \<open>
  A pathname as the router matches it: its \<open>/\<close>-separated segments, empty
  ones dropped (so a leading or trailing slash does not count).
\<close>

fun segs_aux :: "string \<Rightarrow> string \<Rightarrow> string list" where
  "segs_aux cur [] = [rev cur]"
| "segs_aux cur (c # cs) = (if c = CHR ''/'' then rev cur # segs_aux [] cs else segs_aux (c # cur) cs)"

definition path_segments :: "string \<Rightarrow> string list" where
  "path_segments p = filter (\<lambda>x. x \<noteq> []) (segs_aux [] p)"

text \<open>\<open>lower_ascii\<close> on the characters of route paths, as rewrite rules.\<close>

lemma lower_ascii_chars [simp]:
  "lower_ascii CHR ''a'' = CHR ''a''"
  "lower_ascii CHR ''b'' = CHR ''b''"
  "lower_ascii CHR ''c'' = CHR ''c''"
  "lower_ascii CHR ''d'' = CHR ''d''"
  "lower_ascii CHR ''e'' = CHR ''e''"
  "lower_ascii CHR ''f'' = CHR ''f''"
  "lower_ascii CHR ''g'' = CHR ''g''"
  "lower_ascii CHR ''h'' = CHR ''h''"
  "lower_ascii CHR ''i'' = CHR ''i''"
  "lower_ascii CHR ''j'' = CHR ''j''"
  "lower_ascii CHR ''k'' = CHR ''k''"
  "lower_ascii CHR ''l'' = CHR ''l''"
  "lower_ascii CHR ''m'' = CHR ''m''"
  "lower_ascii CHR ''n'' = CHR ''n''"
  "lower_ascii CHR ''o'' = CHR ''o''"
  "lower_ascii CHR ''p'' = CHR ''p''"
  "lower_ascii CHR ''q'' = CHR ''q''"
  "lower_ascii CHR ''r'' = CHR ''r''"
  "lower_ascii CHR ''s'' = CHR ''s''"
  "lower_ascii CHR ''t'' = CHR ''t''"
  "lower_ascii CHR ''u'' = CHR ''u''"
  "lower_ascii CHR ''v'' = CHR ''v''"
  "lower_ascii CHR ''w'' = CHR ''w''"
  "lower_ascii CHR ''x'' = CHR ''x''"
  "lower_ascii CHR ''y'' = CHR ''y''"
  "lower_ascii CHR ''z'' = CHR ''z''"
  "lower_ascii CHR ''0'' = CHR ''0''"
  "lower_ascii CHR ''1'' = CHR ''1''"
  "lower_ascii CHR ''2'' = CHR ''2''"
  "lower_ascii CHR ''3'' = CHR ''3''"
  "lower_ascii CHR ''4'' = CHR ''4''"
  "lower_ascii CHR ''5'' = CHR ''5''"
  "lower_ascii CHR ''6'' = CHR ''6''"
  "lower_ascii CHR ''7'' = CHR ''7''"
  "lower_ascii CHR ''8'' = CHR ''8''"
  "lower_ascii CHR ''9'' = CHR ''9''"
  "lower_ascii CHR ''-'' = CHR ''-''"
  "lower_ascii CHR ''_'' = CHR ''_''"
  "lower_ascii CHR ''.'' = CHR ''.''"
  "lower_ascii CHR ''A'' = CHR ''a''"
  "lower_ascii CHR ''B'' = CHR ''b''"
  "lower_ascii CHR ''C'' = CHR ''c''"
  "lower_ascii CHR ''D'' = CHR ''d''"
  "lower_ascii CHR ''E'' = CHR ''e''"
  "lower_ascii CHR ''F'' = CHR ''f''"
  "lower_ascii CHR ''G'' = CHR ''g''"
  "lower_ascii CHR ''H'' = CHR ''h''"
  "lower_ascii CHR ''I'' = CHR ''i''"
  "lower_ascii CHR ''J'' = CHR ''j''"
  "lower_ascii CHR ''K'' = CHR ''k''"
  "lower_ascii CHR ''L'' = CHR ''l''"
  "lower_ascii CHR ''M'' = CHR ''m''"
  "lower_ascii CHR ''N'' = CHR ''n''"
  "lower_ascii CHR ''O'' = CHR ''o''"
  "lower_ascii CHR ''P'' = CHR ''p''"
  "lower_ascii CHR ''Q'' = CHR ''q''"
  "lower_ascii CHR ''R'' = CHR ''r''"
  "lower_ascii CHR ''S'' = CHR ''s''"
  "lower_ascii CHR ''T'' = CHR ''t''"
  "lower_ascii CHR ''U'' = CHR ''u''"
  "lower_ascii CHR ''V'' = CHR ''v''"
  "lower_ascii CHR ''W'' = CHR ''w''"
  "lower_ascii CHR ''X'' = CHR ''x''"
  "lower_ascii CHR ''Y'' = CHR ''y''"
  "lower_ascii CHR ''Z'' = CHR ''z''"
  by (simp_all add: lower_ascii_def)

lemma allowedLinks_mem:
  "l \<in> set (allowedLinks r) \<longleftrightarrow> (\<exists>x. r = Some x \<and> x \<noteq> [] \<and> x \<in> set (roles l) \<and> l \<in> set NAV_ITEMS)"
  by (auto simp: allowedLinks_def split: option.splits)

lemma find_rpath:
  "find (\<lambda>c. seg_match (rpath c) p) appRoutesConfig = Some c \<Longrightarrow> c \<in> set appRoutesConfig"
  by (auto simp: find_Some_iff)

lemma allowedRoles_nonempty:
  "c \<in> set appRoutesConfig \<Longrightarrow> [] \<notin> set (allowedRoles c)"
  by (auto simp: appRoutesConfig_def)

lemmas route_simps = resolve_def path_is_def seg_match_def appRoutesConfig_def route_element_def index_redirect_def path_segments_def

text \<open>A path typed in another letter case reaches the same route.\<close>

lemma resolve_ignores_case:
  "resolve r False [''DashBoard''] = resolve r False [''dashboard'']
   \<and> resolve r False [''LOGIN''] = resolve r False [''login'']"
  by (simp add: resolve_def path_is_def seg_match_def appRoutesConfig_def)

subsection \<open>Properties of role-gated navigation\<close>

text \<open>
  C31. Every link the sidebar shows to a signed-in user leads to a page that
  renders for that user's role, with one exception: the \<open>/fixes\<close> link is
  shown to the role \<open>user\<close>, but the route table allows \<open>/fixes\<close> only to
  \<open>system\<close> and \<open>admin\<close>, so that user lands on the forbidden page.
\<close>

theorem sidebar_links_resolve:
  assumes "l \<in> set (allowedLinks r)"
  shows "(if r = Some ''user'' \<and> nav_to l = ''/fixes''
          then resolve r False (path_segments (nav_to l)) = Protected ForbiddenPage
          else (\<exists>p. resolve r False (path_segments (nav_to l)) = Protected (Page p)))"
proof -
  obtain x where r: "r = Some x" and x: "x \<in> set (roles l)" and l: "l \<in> set NAV_ITEMS"
    using assms by (auto simp: allowedLinks_mem)
  from l x show ?thesis
    unfolding r by (auto simp: NAV_ITEMS_def route_simps)
qed

theorem sidebar_links_resolve_witness:
  "resolve (Some ''user'') False (path_segments ''/fixes'') = Protected ForbiddenPage"
  using sidebar_links_resolve
    [of "\<lparr>nav_to = ''/fixes'', labelKey = ''sidebar.fixes'', roles = [''system'', ''admin'', ''user'']\<rparr>"
        "Some ''user''"]
  by (simp add: allowedLinks_def NAV_ITEMS_def)

text \<open>
  C32. The role gate is sound: whenever the router renders a configured page,
  a user is signed in and that page's entry in \<open>appRoutesConfig\<close> lists the
  user's role.
\<close>

theorem route_gate_sound:
  assumes "resolve r False segs = Protected (Page p)"
  shows "\<exists>c\<in>set appRoutesConfig. component c = p \<and> (\<exists>x. r = Some x \<and> x \<in> set (allowedRoles c))"
  using assms
  by (auto simp: resolve_def route_element_def split: list.splits option.splits if_splits dest!: find_rpath
    dest: allowedRoles_nonempty)

theorem route_gate_sound_witness:
  "\<exists>c\<in>set appRoutesConfig. component c = FixesPage \<and> (\<exists>x. Some ''admin'' = Some x \<and> x \<in> set (allowedRoles c))"
  using route_gate_sound [of "Some ''admin''" "[''fixes'']" FixesPage]
  by (simp add: route_simps)

text \<open>
  C33. The default redirect of \<open>/\<close> sends each of the three roles of the
  system to a page that role may see (\<open>meters\<close> for \<open>user\<close>, \<open>dashboard\<close>
  otherwise).
\<close>

theorem index_redirect_allowed:
  assumes "x \<in> {''system'', ''admin'', ''user''}"
  shows "\<exists>p. resolve (Some x) False [index_redirect (Some x)] = Protected (Page p)"
  using assms by (auto simp: route_simps)

theorem index_redirect_allowed_witness:
  "\<exists>p. resolve (Some ''user'') False [index_redirect (Some ''user'')] = Protected (Page p)"
  using index_redirect_allowed [of "''user''"] by simp

text \<open>At most one sidebar link is highlighted, whatever the location.\<close>

lemma one_active_link: "length (filter (link_active p) (allowedLinks r)) \<le> 1"
proof -
  have "distinct (map nav_to NAV_ITEMS)" by (simp add: NAV_ITEMS_def)
  then have "distinct (map nav_to (allowedLinks r))"
    by (simp add: allowedLinks_def distinct_map_filter)
  then show ?thesis unfolding link_active_def by (rule distinct_map_filter_key)
qed

end
