(* ===== verification/Paginated_Fetch.thy ===== *)
theory Paginated_Fetch
  imports Alert_Messages
begin

text \<open>
  \<open>src/frontend/src/hooks/usePaginatedFetch.ts\<close> and the page control of
  \<open>src/frontend/src/components/common/Pagination.tsx\<close>.

  The hook's React state (\<open>data\<close>, \<open>pagination\<close>, \<open>isLoading\<close>,
  \<open>currentPage\<close>) is a record together with what React keeps for it: the
  number of renders so far, the dependencies the effect last ran with, the
  calls of \<open>fetchFunction\<close> issued and the toasts shown. \<open>fetchData\<close> is
  split at its \<open>await\<close>: \<open>fetchData_start\<close> runs up to the call, the events
  \<open>Settled\<close> are its continuation. A state update re-renders only when a
  value changes (\<open>Object.is\<close>); an array taken from a response or written
  as the literal \<open>[]\<close> is a new object, so it always changes.

  The identity of \<open>fetchData\<close> is what its \<open>useCallback\<close> dependencies are.
  The caller's \<open>fetchFunction\<close> and \<open>limit\<close> are taken to be stable (the most
  favourable case), but \<open>useErrorHandler()\<close> returns a fresh object
  \<open>{ handle }\<close> on every render, so \<open>fetchData\<close>, and with it the effect's
  dependency list, is new at every render: the render count stands for it.
\<close>

record page_info =
  current_page :: int
  per_page :: int
  total_pages :: int
  total_items :: int
  has_next :: bool
  has_previous :: bool

datatype fetch_outcome =
    Resolved "jsval list" page_info   \<comment> \<open>\<open>response.items\<close>, \<open>response.pagination\<close>\<close>
  | Rejected thrown

record pf_state =
  pf_data :: "jsval list"
  pf_pagination :: "page_info option"
  pf_isLoading :: bool
  currentPage :: int
  pf_renders :: nat                  \<comment> \<open>identity of \<open>errorHandler\<close>, hence of \<open>fetchData\<close>\<close>
  pf_deps :: "(int \<times> nat) option"    \<comment> \<open>\<open>[currentPage, fetchData]\<close> at the last effect run\<close>
  pf_requests :: "int list"          \<comment> \<open>\<open>fetchFunction(page, limit)\<close> calls, in order\<close>
  pf_alerts :: "alert list"          \<comment> \<open>toasts of \<open>errorHandler.handle\<close>\<close>

definition pf_init :: "pf_state" where
  "pf_init = \<lparr>pf_data = [], pf_pagination = None, pf_isLoading = True, currentPage = 1,
              pf_renders = 0, pf_deps = None, pf_requests = [], pf_alerts = []\<rparr>"

text \<open>
  \<open>fetchData(page)\<close> up to its \<open>await\<close>: \<open>setIsLoading(true)\<close> and the call.
  The flag says whether the update changed the state.
\<close>

definition fetchData_start :: "int \<Rightarrow> pf_state \<Rightarrow> pf_state \<times> bool" where
  "fetchData_start page s =
     (s\<lparr>pf_isLoading := True, pf_requests := pf_requests s @ [page]\<rparr>, \<not> pf_isLoading s)"

text \<open>
  A commit: the render (a new \<open>errorHandler\<close>), then the effect
  \<open>fetchData(currentPage)\<close> when its dependencies differ from the last run;
  when the effect's \<open>setIsLoading(true)\<close> changed the state, React renders
  and commits again. That happens at most once, since the second effect
  finds \<open>isLoading\<close> already set.
\<close>

function commit_pf :: "pf_state \<Rightarrow> pf_state" where
  "commit_pf s =
     (let s1 = s\<lparr>pf_renders := Suc (pf_renders s)\<rparr>;
          deps = (currentPage s1, pf_renders s1)
      in if pf_deps s1 = Some deps then s1
         else (let (s2, changed) = fetchData_start (currentPage s1) (s1\<lparr>pf_deps := Some deps\<rparr>)
               in if changed then commit_pf s2 else s2))"
  by pat_completeness auto
termination
  by (relation "measure (\<lambda>s. if pf_isLoading s then 0 else 1)")
     (auto simp: fetchData_start_def split: if_splits)

declare commit_pf.simps [simp del]

text \<open>The mount: the first render and its effect.\<close>

definition pf_mount :: "pf_state" where
  "pf_mount = commit_pf pf_init"

text \<open>
  The continuation of \<open>fetchData\<close> after its \<open>await\<close>. On a rejection,
  \<open>errorHandler.handle\<close> is \<open>handleError\<close>; when that throws, \<open>setData([])\<close>
  and \<open>setPagination(null)\<close> are skipped and only the \<open>finally\<close> block runs.
\<close>

definition fetchData_settled :: "fetch_outcome \<Rightarrow> pf_state \<Rightarrow> pf_state" where
  "fetchData_settled r s =
     (case r of
        Resolved items p \<Rightarrow>
          commit_pf (s\<lparr>pf_data := items, pf_pagination := Some p, pf_isLoading := False\<rparr>)
      | Rejected e \<Rightarrow>
          (case handleError e of
             Some (_, toasts) \<Rightarrow>
               commit_pf (s\<lparr>pf_alerts := pf_alerts s @ toasts, pf_data := [], pf_pagination := None,
                            pf_isLoading := False\<rparr>)
           | None \<Rightarrow>
               (if pf_isLoading s then commit_pf (s\<lparr>pf_isLoading := False\<rparr>) else s)))"

definition goToPage :: "int \<Rightarrow> pf_state \<Rightarrow> pf_state" where
  "goToPage page s = (if page = currentPage s then s else commit_pf (s\<lparr>currentPage := page\<rparr>))"

definition refresh :: "pf_state \<Rightarrow> pf_state" where
  "refresh s = (let (s1, changed) = fetchData_start (currentPage s) s in if changed then commit_pf s1 else s1)"

datatype pf_event = Settled "fetch_outcome" | GoToPage int | Refresh

fun pf_step :: "pf_event \<Rightarrow> pf_state \<Rightarrow> pf_state" where
  "pf_step (Settled r) s = fetchData_settled r s"
| "pf_step (GoToPage p) s = goToPage p s"
| "pf_step Refresh s = refresh s"

definition pf_run :: "pf_event list \<Rightarrow> pf_state \<Rightarrow> pf_state" where
  "pf_run evs s = fold pf_step evs s"

subsection \<open>The page control\<close>

text \<open>
  The items of \<open><Pagination>\<close> that are given an \<open>onClick\<close>, each with the
  page it requests and whether it is enabled. A disabled item keeps its
  \<open>onClick\<close>, but react-bootstrap renders it as a \<open><span>\<close> and Bootstrap's
  stylesheet gives it \<open>pointer-events: none\<close>, so no click or key press
  reaches the handler; \<open>page_targets\<close> are the pages a click can request.
  The active item and the ellipsis have no handler.
\<close>

datatype pager_control = PFirst | PPrev | PNextItem | PTotalItem | PNext | PLast

definition pager_controls :: "page_info \<Rightarrow> (pager_control \<times> int \<times> bool) list" where
  "pager_controls p =
     [(PFirst, 1, current_page p \<noteq> 1), (PPrev, current_page p - 1, has_previous p)]
     @ (if has_next p then [(PNextItem, current_page p + 1, True)] else [])
     @ (if total_pages p > current_page p + 1 then [(PTotalItem, total_pages p, True)] else [])
     @ [(PNext, current_page p + 1, has_next p), (PLast, total_pages p, current_page p \<noteq> total_pages p)]"

definition page_targets :: "page_info \<Rightarrow> int list" where
  "page_targets p = map (fst \<circ> snd) (filter (snd \<circ> snd) (pager_controls p))"

text \<open>A pagination record as a consistent server sends it.\<close>

definition consistent_page :: "page_info \<Rightarrow> bool" where
  "consistent_page p \<longleftrightarrow> 1 \<le> current_page p \<and> current_page p \<le> total_pages p
     \<and> has_previous p = (1 < current_page p) \<and> has_next p = (current_page p < total_pages p)"

text \<open>The effect's last dependencies are never those of a future render.\<close>

definition deps_behind :: "pf_state \<Rightarrow> bool" where
  "deps_behind s = (case pf_deps s of None \<Rightarrow> True | Some (_, k) \<Rightarrow> k \<le> pf_renders s)"

subsection \<open>Commits of the hook\<close>

lemma commit_pf_loading:
  assumes "deps_behind s" "pf_isLoading s"
  shows "commit_pf s = s\<lparr>pf_renders := Suc (pf_renders s), pf_deps := Some (currentPage s, Suc (pf_renders s)),
                         pf_requests := pf_requests s @ [currentPage s]\<rparr>"
  using assms by (subst commit_pf.simps) (auto simp: deps_behind_def fetchData_start_def split: option.splits)

lemma commit_pf_idle:
  assumes "deps_behind s" "\<not> pf_isLoading s"
  shows "commit_pf s = s\<lparr>pf_renders := Suc (Suc (pf_renders s)), pf_deps := Some (currentPage s, Suc (Suc (pf_renders s))),
                         pf_isLoading := True, pf_requests := pf_requests s @ [currentPage s, currentPage s]\<rparr>"
proof -
  let ?s2 = "s\<lparr>pf_renders := Suc (pf_renders s), pf_deps := Some (currentPage s, Suc (pf_renders s)),
                pf_isLoading := True, pf_requests := pf_requests s @ [currentPage s]\<rparr>"
  have "commit_pf s = commit_pf ?s2"
    using assms by (subst commit_pf.simps) (auto simp: deps_behind_def fetchData_start_def split: option.splits)
  also have "\<dots> = ?s2\<lparr>pf_renders := Suc (pf_renders ?s2), pf_deps := Some (currentPage ?s2, Suc (pf_renders ?s2)),
                         pf_requests := pf_requests ?s2 @ [currentPage ?s2]\<rparr>"
    by (rule commit_pf_loading) (simp_all add: deps_behind_def)
  finally show ?thesis by simp
qed

lemma settled_resolved:
  assumes "deps_behind s"
  shows "deps_behind (fetchData_settled (Resolved items p) s) \<and>
         currentPage (fetchData_settled (Resolved items p) s) = currentPage s \<and>
         pf_requests (fetchData_settled (Resolved items p) s) = pf_requests s @ [currentPage s, currentPage s]"
  using assms by (simp add: fetchData_settled_def commit_pf_idle deps_behind_def split: option.splits)

lemma pf_mount_eq:
  "pf_mount = pf_init\<lparr>pf_renders := 1, pf_deps := Some (1, 1), pf_requests := [1]\<rparr>"
  unfolding pf_mount_def by (subst commit_pf_loading) (simp_all add: pf_init_def deps_behind_def)

lemma run_resolved:
  "deps_behind s \<Longrightarrow>
   deps_behind (pf_run (replicate n (Settled (Resolved items p))) s) \<and>
   currentPage (pf_run (replicate n (Settled (Resolved items p))) s) = currentPage s \<and>
   pf_requests (pf_run (replicate n (Settled (Resolved items p))) s) = pf_requests s @ replicate (2 * n) (currentPage s)"
proof (induction n arbitrary: s)
  case 0 then show ?case by (simp add: pf_run_def)
next
  case (Suc n)
  have "pf_run (replicate (Suc n) (Settled (Resolved items p))) s =
        pf_run (replicate n (Settled (Resolved items p))) (fetchData_settled (Resolved items p) s)"
    by (simp add: pf_run_def)
  with Suc.IH [of "fetchData_settled (Resolved items p) s"] settled_resolved [OF Suc.prems, of items p]
  show ?case by (simp add: replicate_add [symmetric])
qed

subsection \<open>Properties of the paginated fetch\<close>

text \<open>
  C37. The hook never stops fetching: from the mount, every successful
  response re-renders, the new \<open>errorHandler\<close> object gives a new
  \<open>fetchData\<close>, the effect runs again, and its \<open>setIsLoading(true)\<close> renders
  once more with yet another \<open>fetchData\<close>; so after \<open>n\<close> responses
  \<open>2 n + 1\<close> requests for page 1 have been issued.
\<close>

theorem paginated_fetch_request_storm:
  "pf_requests (pf_run (replicate n (Settled (Resolved items p))) pf_mount) = replicate (2 * n + 1) 1"
  using run_resolved [of pf_mount n items p]
  by (simp add: pf_mount_eq pf_init_def deps_behind_def replicate_append_same [symmetric])

text \<open>
  C38. For a consistent pagination record, every enabled item of the page
  control requests a page between 1 and \<open>total_pages\<close>, and none requests
  the page already shown.
\<close>

theorem pager_targets_in_range:
  assumes "consistent_page p"
  shows "set (page_targets p) \<subseteq> {1 .. total_pages p} \<and> current_page p \<notin> set (page_targets p)"
  using assms by (auto simp: page_targets_def pager_controls_def consistent_page_def)

theorem pager_targets_in_range_witness:
  "set (page_targets \<lparr>current_page = 2, per_page = 10, total_pages = 5, total_items = 42,
                       has_next = True, has_previous = True\<rparr>) \<subseteq> {1 .. 5}
   \<and> 2 \<notin> set (page_targets \<lparr>current_page = 2, per_page = 10, total_pages = 5, total_items = 42,
                                has_next = True, has_previous = True\<rparr>)"
  using pager_targets_in_range [of "\<lparr>current_page = 2, per_page = 10, total_pages = 5, total_items = 42,
                                      has_next = True, has_previous = True\<rparr>"]
  by (simp add: consistent_page_def)

text \<open>
  An empty result as \<open>total_pages = 0\<close>, \<open>current_page = 1\<close> is not
  consistent in that sense, and there the enabled \<open>Last\<close> item requests
  page 0.
\<close>

lemma pager_empty_result_requests_page_0:
  "page_targets \<lparr>current_page = 1, per_page = 10, total_pages = 0, total_items = 0,
                  has_next = False, has_previous = False\<rparr> = [0]"
  by (simp add: page_targets_def pager_controls_def)

end
