(* ===== verification/Report_Month.thy ===== *)
theory Report_Month
  imports Alert_Messages
begin

text \<open>
  \<open>getDefaultMonth\<close> of \<open>src/frontend/src/utils/dateHelpers.ts\<close>: the
  \<open>YYYY-MM\<close> month a readings report defaults to. The current date enters
  as the local \<open>getFullYear\<close>, \<open>getMonth\<close> (0 for January) and
  \<open>getDate\<close> fields; \<open>new Date(year, month - 1, 1)\<close> first maps a year
  from 0 to 99 to \<open>1900 + year\<close> (ECMAScript's \<open>Date\<close> constructor,
  step 5.h), then normalises an out-of-range month as \<open>MakeDay\<close> does
  (year plus the floor of the month by 12, the month modulo 12). Years
  beyond the range of time values are not considered. Numbers are converted to text by
  \<open>js_to_string\<close>, as the template literal and \<open>String()\<close> do.
\<close>

text \<open>\<open>new Date(y, m, 1)\<close> read back through \<open>getFullYear\<close> and \<open>getMonth\<close>.\<close>

definition date_year_month :: "int \<Rightarrow> int \<Rightarrow> int \<times> int" where
  "date_year_month y m =
     (let yr = (if 0 \<le> y \<and> y \<le> 99 then 1900 + y else y) in (yr + m div 12, m mod 12))"

text \<open>\<open>s.padStart(n, c)\<close> for a one-character pad.\<close>

definition pad_start :: "nat \<Rightarrow> char \<Rightarrow> string \<Rightarrow> string" where
  "pad_start n c s = replicate (n - length s) c @ s"

definition getDefaultMonth :: "int \<Rightarrow> int \<Rightarrow> int \<Rightarrow> string" where
  "getDefaultMonth year month day =
     (if day > 15 then
        js_to_string (JNum year) @ ''-'' @ pad_start 2 CHR ''0'' (js_to_string (JNum (month + 1)))
      else
        (let (prevYear, pm) = date_year_month year (month - 1); prevMonth = pm + 1 in
         js_to_string (JNum prevYear) @ ''-'' @ pad_start 2 CHR ''0'' (js_to_string (JNum prevMonth))))"

text \<open>
  A reader of the \<open>YYYY-MM\<close> text (not code of the repository): the month it
  names as a count of months since year 0, \<open>12 * year + month - 1\<close>, for a
  year of decimal digits and a two-digit month from 01 to 12.
\<close>

definition month_index :: "string \<Rightarrow> int option" where
  "month_index s =
     (let ys = takeWhile is_digit s in
      case dropWhile is_digit s of
        [c, a, b] \<Rightarrow>
          (if c = CHR ''-'' \<and> ys \<noteq> [] \<and> is_digit a \<and> is_digit b
              \<and> 1 \<le> digits_value [a, b] \<and> digits_value [a, b] \<le> 12
           then Some (12 * int (digits_value ys) + int (digits_value [a, b]) - 1) else None)
      | _ \<Rightarrow> None)"

subsection \<open>The default month\<close>

lemma pad_month:
  assumes "1 \<le> k" "k \<le> (12::nat)"
  shows "\<exists>a b. pad_start 2 CHR ''0'' (show_nat k) = [a, b] \<and> is_digit a \<and> is_digit b \<and> digits_value [a, b] = k"
proof -
  have "k = 1 \<or> k = 2 \<or> k = 3 \<or> k = 4 \<or> k = 5 \<or> k = 6 \<or> k = 7 \<or> k = 8 \<or> k = 9 \<or> k = 10 \<or> k = 11 \<or> k = 12"
    using assms by presburger
  then show ?thesis
    by (elim disjE) (simp_all add: pad_start_def show_nat.simps is_digit_def digits_value_def)
qed

lemma month_index_text:
  assumes "1 \<le> k" "k \<le> (12::nat)"
  shows "month_index (show_nat y @ ''-'' @ pad_start 2 CHR ''0'' (show_nat k)) = Some (12 * int y + int k - 1)"
proof -
  obtain a b where ab: "pad_start 2 CHR ''0'' (show_nat k) = [a, b]" "is_digit a" "is_digit b" "digits_value [a, b] = k"
    using pad_month [OF assms] by blast
  have d: "\<forall>c\<in>set (show_nat y). is_digit c" by (rule show_nat_digits)
  have "takeWhile is_digit (show_nat y @ ''-'' @ [a, b]) = show_nat y"
    using d by (simp add: takeWhile_append2 is_digit_def)
  moreover have "dropWhile is_digit (show_nat y @ ''-'' @ [a, b]) = ''-'' @ [a, b]"
    using d by (simp add: dropWhile_append2 is_digit_def)
  ultimately show ?thesis
    using ab assms by (simp add: month_index_def digits_value_show_nat show_nat_not_Nil)
qed

text \<open>
  The previous month as \<open>new Date(year, month - 1, 1)\<close> computes it, with the
  two-digit-year rule.
\<close>

lemma date_year_month_prev:
  assumes "0 \<le> month" "month < 12"
  shows "date_year_month year (month - 1) =
           (let yr = (if 0 \<le> year \<and> year \<le> 99 then 1900 + year else year) in
            if month = 0 then (yr - 1, 11) else (yr, month - 1))"
  using assms by (auto simp: date_year_month_def Let_def)

text \<open>
  C39. For every date of a year from 0 on, \<open>getDefaultMonth\<close> returns a
  well-formed \<open>YYYY-MM\<close> text naming the current month after the 15th and
  the previous month up to the 15th, January falling back to December of
  the year before; up to the 15th of a month of the years 0 to 99 the
  previous month is taken in the year \<open>1900 + year\<close>, as
  \<open>new Date(year, month - 1, 1)\<close> reads a two-digit year.
\<close>

theorem getDefaultMonth_month:
  assumes "0 \<le> year" "0 \<le> month" "month < 12"
  shows "month_index (getDefaultMonth year month day) =
           Some (if day > 15 then 12 * year + month
                 else 12 * (if year \<le> 99 then 1900 + year else year) + month - 1)"
proof (cases "day > 15")
  case True
  have "month_index (show_nat (nat year) @ ''-'' @ pad_start 2 CHR ''0'' (show_nat (nat (month + 1)))) =
        Some (12 * int (nat year) + int (nat (month + 1)) - 1)"
    by (rule month_index_text) (use assms in simp_all)
  then show ?thesis using True assms by (simp add: getDefaultMonth_def)
next
  case False
  define yr where "yr = (if year \<le> 99 then 1900 + year else year)"
  have yr: "0 \<le> yr - 1" "(if 0 \<le> year \<and> year \<le> 99 then 1900 + year else year) = yr"
    using assms by (auto simp: yr_def)
  show ?thesis
  proof (cases "month = 0")
    case True
    have "month_index (show_nat (nat (yr - 1)) @ ''-'' @ pad_start 2 CHR ''0'' (show_nat (nat 12))) =
          Some (12 * int (nat (yr - 1)) + int (nat 12) - 1)"
      by (rule month_index_text) simp_all
    then show ?thesis
      using False True assms yr date_year_month_prev [OF assms(2,3), of year]
      by (simp add: getDefaultMonth_def yr_def [symmetric])
  next
    case m: False
    have "month_index (show_nat (nat yr) @ ''-'' @ pad_start 2 CHR ''0'' (show_nat (nat month))) =
          Some (12 * int (nat yr) + int (nat month) - 1)"
      by (rule month_index_text) (use assms m in simp_all)
    then show ?thesis
      using False m assms yr date_year_month_prev [OF assms(2,3), of year]
      by (simp add: getDefaultMonth_def yr_def [symmetric])
  qed
qed

theorem getDefaultMonth_month_witness:
  "month_index (getDefaultMonth 2025 0 10) = Some (12 * 2025 - 1)
   \<and> month_index (getDefaultMonth 50 3 10) = Some (12 * 1950 + 2)"
  using getDefaultMonth_month [of 2025 0 10] getDefaultMonth_month [of 50 3 10] by simp

end
