(* ===== verification/Camera.thy ===== *)
theory Camera
  imports Task_Storage
begin

text \<open>
  \<open>src/frontend/src/hooks/useCamera.ts\<close>: the camera hook of the reading
  capture page. Its refs (\<open>streamRef\<close>, the video and canvas elements) and
  its React state (\<open>isStreaming\<close>, \<open>error\<close>) form \<open>camera_state\<close>, together
  with what the browser holds: the media streams whose tracks are running
  (\<open>live\<close>), the \<open>getUserMedia\<close> calls not yet settled, the identity the next
  stream will get, and whether the component is mounted (a state setter of
  an unmounted component does nothing). A stream is named by a number.

  \<open>startCamera\<close> is split at its \<open>await\<close>: \<open>startCamera\<close> runs up to the
  \<open>getUserMedia\<close> call, \<open>mediaResolved\<close> and \<open>mediaRejected\<close> are its
  continuation. The continuation captures nothing of the call that started
  it, so any pending call may settle first. The unmount detaches the refs
  and then runs the effect cleanup, \<open>stopCamera\<close>.
\<close>

record camera_state =
  streamRef :: "nat option"       \<comment> \<open>\<open>streamRef.current\<close>\<close>
  videoPresent :: bool            \<comment> \<open>\<open>videoRef.current !== null\<close>\<close>
  videoSrc :: "nat option"        \<comment> \<open>\<open>videoRef.current.srcObject\<close>\<close>
  canvasPresent :: bool           \<comment> \<open>\<open>canvasRef.current !== null\<close>\<close>
  isStreaming :: bool
  camError :: "string option"
  live :: "nat list"              \<comment> \<open>streams whose tracks have not been stopped\<close>
  pendingMedia :: nat             \<comment> \<open>\<open>getUserMedia\<close> calls awaiting an answer\<close>
  nextStream :: nat
  mounted :: bool

datatype media_failure = DOMException string | NonDOMError

datatype capture_result =
    CapturedFile string           \<comment> \<open>\<open>resolve(file)\<close>, with the file name\<close>
  | NoCapture                     \<comment> \<open>\<open>resolve(null)\<close>\<close>
  | CaptureRejected string        \<comment> \<open>\<open>reject(new Error(message))\<close>\<close>

datatype camera_effect =
    StopTracks nat                \<comment> \<open>\<open>getTracks().forEach(track => track.stop())\<close>\<close>
  | RequestMedia                  \<comment> \<open>\<open>navigator.mediaDevices.getUserMedia(constraints)\<close>\<close>
  | CaptureSettles capture_result

definition camera_init :: camera_state where
  "camera_init = \<lparr>streamRef = None, videoPresent = True, videoSrc = None, canvasPresent = True,
                  isStreaming = False, camError = None, live = [], pendingMedia = 0, nextStream = 0,
                  mounted = True\<rparr>"

text \<open>A React state update: ignored once the component is unmounted.\<close>

definition react_set :: "(camera_state \<Rightarrow> camera_state) \<Rightarrow> camera_state \<Rightarrow> camera_state" where
  "react_set f s = (if mounted s then f s else s)"

definition MSG_DENIED :: string where
  "MSG_DENIED = ''Camera permission was denied. Please allow camera access in your browser settings.''"

definition MSG_NO_CAMERA :: string where
  "MSG_NO_CAMERA = ''No camera found. Please ensure a camera is connected and enabled.''"

definition MSG_START_FAILED :: string where
  "MSG_START_FAILED = ''Could not start camera. Please check your device and permissions.''"

definition MSG_UNEXPECTED :: string where
  "MSG_UNEXPECTED = ''An unexpected error occurred while accessing the camera.''"

definition camera_error_message :: "media_failure \<Rightarrow> string" where
  "camera_error_message f =
     (case f of
        DOMException n \<Rightarrow>
          (if n = ''NotAllowedError'' \<or> n = ''PermissionDeniedError'' then MSG_DENIED
           else if n = ''NotFoundError'' \<or> n = ''DevicesNotFoundError'' then MSG_NO_CAMERA
           else MSG_START_FAILED)
      | NonDOMError \<Rightarrow> MSG_UNEXPECTED)"

text \<open>\<open>if (streamRef.current) streamRef.current.getTracks().forEach(track => track.stop())\<close>\<close>

definition stop_tracks :: "camera_state \<Rightarrow> camera_state \<times> camera_effect list" where
  "stop_tracks s =
     (case streamRef s of
        None \<Rightarrow> (s, [])
      | Some t \<Rightarrow> (s\<lparr>live := removeAll t (live s)\<rparr>, [StopTracks t]))"

definition startCamera :: "camera_state \<Rightarrow> camera_state \<times> camera_effect list" where
  "startCamera s =
     (let (s1, es) = stop_tracks s;
          s2 = react_set (\<lambda>s. s\<lparr>camError := None\<rparr>) s1
      in (s2\<lparr>pendingMedia := Suc (pendingMedia s2)\<rparr>, es @ [RequestMedia]))"

text \<open>\<open>getUserMedia\<close> resolves with a new stream: the \<open>try\<close> block after the \<open>await\<close>.\<close>

definition mediaResolved :: "camera_state \<Rightarrow> camera_state \<times> camera_effect list" where
  "mediaResolved s =
     (if pendingMedia s = 0 then (s, [])
      else (let t = nextStream s;
                s1 = s\<lparr>pendingMedia := pendingMedia s - 1, nextStream := Suc t,
                        live := live s @ [t], streamRef := Some t\<rparr>;
                s2 = (if videoPresent s1 then s1\<lparr>videoSrc := Some t\<rparr> else s1)
            in (react_set (\<lambda>s. s\<lparr>isStreaming := True\<rparr>) s2, [])))"

text \<open>\<open>getUserMedia\<close> rejects: the \<open>catch\<close> block.\<close>

definition mediaRejected :: "media_failure \<Rightarrow> camera_state \<Rightarrow> camera_state \<times> camera_effect list" where
  "mediaRejected f s =
     (if pendingMedia s = 0 then (s, [])
      else (let s1 = react_set (\<lambda>s. s\<lparr>camError := Some (camera_error_message f)\<rparr>)
                       (s\<lparr>pendingMedia := pendingMedia s - 1\<rparr>);
                s2 = s1\<lparr>streamRef := None\<rparr>
            in (react_set (\<lambda>s. s\<lparr>isStreaming := False\<rparr>) s2, [])))"

definition stopCamera :: "camera_state \<Rightarrow> camera_state \<times> camera_effect list" where
  "stopCamera s =
     (let (s1, es) = stop_tracks s;
          s2 = s1\<lparr>streamRef := None\<rparr>;
          s3 = (if videoPresent s2 then s2\<lparr>videoSrc := None\<rparr> else s2)
      in (react_set (\<lambda>s. s\<lparr>isStreaming := False\<rparr>) s3, es))"

text \<open>
  \<open>capturePhoto\<close>: whether the canvas yields a 2D context and whether
  \<open>toBlob\<close> yields a blob are the browser's answers; \<open>now\<close> is \<open>Date.now()\<close>.
\<close>

definition capturePhoto :: "bool \<Rightarrow> bool \<Rightarrow> timestamp \<Rightarrow> camera_state \<Rightarrow> camera_state \<times> camera_effect list" where
  "capturePhoto hasContext hasBlob now s =
     (if videoPresent s \<and> canvasPresent s \<and> streamRef s \<noteq> None then
        (if hasContext then
           (if hasBlob then (s, [CaptureSettles (CapturedFile (''reading-'' @ show_nat now @ ''.jpeg''))])
            else (s, [CaptureSettles (CaptureRejected ''Could not create blob from canvas.'')]))
         else (s, [CaptureSettles (CaptureRejected ''Could not get 2D context from canvas.'')]))
      else (s, [CaptureSettles NoCapture]))"

text \<open>The unmount: React detaches the refs, then the cleanup calls \<open>stopCamera\<close>.\<close>

definition unmount :: "camera_state \<Rightarrow> camera_state \<times> camera_effect list" where
  "unmount s = stopCamera (s\<lparr>mounted := False, videoPresent := False, canvasPresent := False\<rparr>)"

datatype camera_event =
    StartCamera | MediaResolved | MediaRejected media_failure | StopCamera
  | CapturePhoto bool bool timestamp | Unmount

fun camera_step :: "camera_event \<Rightarrow> camera_state \<Rightarrow> camera_state \<times> camera_effect list" where
  "camera_step StartCamera s = startCamera s"
| "camera_step MediaResolved s = mediaResolved s"
| "camera_step (MediaRejected f) s = mediaRejected f s"
| "camera_step StopCamera s = stopCamera s"
| "camera_step (CapturePhoto c b now) s = capturePhoto c b now s"
| "camera_step Unmount s = unmount s"

fun camera_run :: "camera_state \<Rightarrow> camera_event list \<Rightarrow> camera_state \<times> camera_effect list" where
  "camera_run s [] = (s, [])"
| "camera_run s (ev # evs) =
     (let (s1, es1) = camera_step ev s; (s2, es2) = camera_run s1 evs in (s2, es1 @ es2))"

text \<open>
  A use of the hook that never overlaps a start with another start or with
  the unmount: the page's own calls happen while it is mounted, and a start
  or the unmount waits until no \<open>getUserMedia\<close> call is pending.
\<close>

fun sequenced :: "camera_event \<Rightarrow> camera_state \<Rightarrow> bool" where
  "sequenced MediaResolved s = True"
| "sequenced (MediaRejected _) s = True"
| "sequenced StartCamera s = (mounted s \<and> pendingMedia s = 0)"
| "sequenced Unmount s = (mounted s \<and> pendingMedia s = 0)"
| "sequenced _ s = mounted s"

inductive camera_reachable :: "camera_state \<Rightarrow> bool" where
  init: "camera_reachable camera_init"
| step: "camera_reachable s \<Longrightarrow> sequenced ev s \<Longrightarrow> camera_reachable (fst (camera_step ev s))"

text \<open>
  The invariant of sequenced use: the only stream that may be running is the
  one \<open>streamRef\<close> holds, at most one \<open>getUserMedia\<close> call is pending and
  none runs meanwhile, and an unmounted hook runs nothing.
\<close>

definition cam_inv :: "camera_state \<Rightarrow> bool" where
  "cam_inv s \<longleftrightarrow> set (live s) \<subseteq> set_option (streamRef s) \<and> pendingMedia s \<le> 1
     \<and> (0 < pendingMedia s \<longrightarrow> live s = [])
     \<and> (\<not> mounted s \<longrightarrow> live s = [] \<and> pendingMedia s = 0)"

subsection \<open>Invariant of the camera hook\<close>

lemma stop_tracks_state:
  "fst (stop_tracks s) = s\<lparr>live := (case streamRef s of None \<Rightarrow> live s | Some t \<Rightarrow> removeAll t (live s))\<rparr>"
  by (simp add: stop_tracks_def split: option.splits)

lemma stopped_live:
  "set (live s) \<subseteq> set_option (streamRef s) \<Longrightarrow> (case streamRef s of None \<Rightarrow> live s | Some t \<Rightarrow> removeAll t (live s)) = []"
  by (cases "streamRef s") (auto simp: removeAll_filter_not_eq filter_empty_conv)

lemmas camera_ops = startCamera_def mediaResolved_def mediaRejected_def stopCamera_def capturePhoto_def
  unmount_def react_set_def split_def stop_tracks_state Let_def

lemma startCamera_inv: "cam_inv s \<Longrightarrow> mounted s \<Longrightarrow> pendingMedia s = 0 \<Longrightarrow> cam_inv (fst (startCamera s))"
  by (auto simp: cam_inv_def camera_ops stopped_live)

lemma mediaResolved_inv: "cam_inv s \<Longrightarrow> cam_inv (fst (mediaResolved s))"
  by (auto simp: cam_inv_def camera_ops Let_def)

lemma mediaRejected_inv: "cam_inv s \<Longrightarrow> cam_inv (fst (mediaRejected f s))"
  by (auto simp: cam_inv_def camera_ops Let_def)

lemma stopCamera_inv: "cam_inv s \<Longrightarrow> cam_inv (fst (stopCamera s))"
  by (auto simp: cam_inv_def camera_ops stopped_live)

lemma unmount_inv: "cam_inv s \<Longrightarrow> pendingMedia s = 0 \<Longrightarrow> cam_inv (fst (unmount s))"
  using stopped_live [of "s\<lparr>mounted := False, videoPresent := False, canvasPresent := False\<rparr>"]
  by (auto simp: cam_inv_def camera_ops)

lemma camera_step_inv: "cam_inv s \<Longrightarrow> sequenced ev s \<Longrightarrow> cam_inv (fst (camera_step ev s))"
  by (cases ev) (auto simp: startCamera_inv mediaResolved_inv mediaRejected_inv stopCamera_inv unmount_inv
      capturePhoto_def)

lemma camera_reachable_inv: "camera_reachable s \<Longrightarrow> cam_inv s"
proof (induction rule: camera_reachable.induct)
  case init show ?case by (simp add: cam_inv_def camera_init_def)
next
  case (step s ev) then show ?case by (intro camera_step_inv)
qed

subsection \<open>Properties of the camera hook\<close>

text \<open>
  C12. As long as the page never overlaps a start with another start or with
  the unmount, every running camera stream is the one \<open>streamRef\<close> holds, so
  \<open>stopCamera\<close> can stop it, and after the unmount no stream runs.
\<close>

theorem camera_no_stray_stream:
  assumes "camera_reachable s"
  shows "set (live s) \<subseteq> set_option (streamRef s) \<and> (\<not> mounted s \<longrightarrow> live s = [])"
  using camera_reachable_inv [OF assms] by (simp add: cam_inv_def)

theorem camera_no_stray_stream_witness:
  "set (live (fst (camera_step Unmount (fst (camera_step MediaResolved (fst (camera_step StartCamera camera_init))))))) \<subseteq> set_option (streamRef (fst (camera_step Unmount (fst (camera_step MediaResolved (fst (camera_step StartCamera camera_init)))))))
   \<and> live (fst (camera_step Unmount (fst (camera_step MediaResolved (fst (camera_step StartCamera camera_init)))))) = []"
proof -
  have r: "camera_reachable (fst (camera_step Unmount (fst (camera_step MediaResolved (fst (camera_step StartCamera camera_init))))))"
    by (intro camera_reachable.step camera_reachable.init; simp add: camera_init_def camera_ops)
  have "\<not> mounted (fst (camera_step Unmount (fst (camera_step MediaResolved (fst (camera_step StartCamera camera_init))))))" by (simp add: camera_init_def camera_ops)
  then show ?thesis using camera_no_stray_stream [OF r] by simp
qed

text \<open>
  C16. Overlapping calls leak a running camera. Two starts whose
  \<open>getUserMedia\<close> calls are both pending each store their stream in
  \<open>streamRef\<close>, the second overwriting the first without stopping it, so a
  later \<open>stopCamera\<close> leaves the first stream running; and a call still
  pending at the unmount resolves afterwards and starts a stream that
  nothing can stop any more.
\<close>

theorem camera_overlapping_start_leaks:
  assumes "mounted s" and "pendingMedia s = 0" and "set (live s) \<subseteq> set_option (streamRef s)"
  shows "live (fst (camera_run s [StartCamera, StartCamera, MediaResolved, MediaResolved, StopCamera])) = [nextStream s]
       \<and> streamRef (fst (camera_run s [StartCamera, StartCamera, MediaResolved, MediaResolved, StopCamera])) = None
       \<and> live (fst (camera_run s [StartCamera, Unmount, MediaResolved])) = [nextStream s]
       \<and> \<not> mounted (fst (camera_run s [StartCamera, Unmount, MediaResolved]))"
  using assms stopped_live [of s]
  by (cases "streamRef s") (simp_all add: camera_ops)

theorem camera_overlapping_start_leaks_witness:
  "live (fst (camera_run camera_init [StartCamera, StartCamera, MediaResolved, MediaResolved, StopCamera])) = [0]
   \<and> streamRef (fst (camera_run camera_init [StartCamera, StartCamera, MediaResolved, MediaResolved, StopCamera])) = None
   \<and> live (fst (camera_run camera_init [StartCamera, Unmount, MediaResolved])) = [0]
   \<and> \<not> mounted (fst (camera_run camera_init [StartCamera, Unmount, MediaResolved]))"
  using camera_overlapping_start_leaks [of camera_init] by (simp add: camera_init_def)

end
