(* ===== verification/Document_Direction.thy ===== *)
theory Document_Direction
  imports Prelude
begin

text \<open>
  Language and text direction of the document: the effect of
  \<open>src/frontend/src/App.tsx\<close> with its helper \<open>loadBootstrap\<close>, the
  direction effects of \<open>components/layout/Layout.tsx\<close> and
  \<open>components/layout/Header.tsx\<close>, the language switches of
  \<open>components/layout/LanguageSwitcher.tsx\<close> and the sidebar, and the
  language detection configured in \<open>i18n/i18n.ts\<close>.

  The document is the record \<open>document\<close>: the \<open>dir\<close> and \<open>lang\<close> attributes of
  \<open><html>\<close>, the \<open>rtl\<close> class of \<open><body>\<close>, the \<open><link>\<close> elements of
  \<open><head>\<close> in document order, and the language i18next holds together
  with the copy it caches in \<open>localStorage\<close>. i18next's \<open>dir(lng)\<close> is a
  parameter \<open>i18n_dir\<close> (the library's table of right-to-left languages).
  A language change re-renders the tree and runs the changed effects
  children first: \<open>Header\<close>, then \<open>Layout\<close>, then \<open>App\<close>.
\<close>

datatype dir = Ltr | Rtl

record link_el =
  link_id :: string
  rel :: string
  href :: string
  integrity :: string
  crossOrigin :: string

record document =
  html_dir :: dir
  html_lang :: string
  body_rtl :: bool
  head :: "link_el list"
  language :: string           \<comment> \<open>\<open>i18n.language\<close>\<close>
  cached_lng :: "string option"  \<comment> \<open>\<open>localStorage.i18nextLng\<close>\<close>

definition BOOTSTRAP_ID :: string where "BOOTSTRAP_ID = ''bootstrap-css''"

definition bootstrap_href :: "dir \<Rightarrow> string" where
  "bootstrap_href d =
     (if d = Rtl then ''https://cdn.jsdelivr.net/npm/bootstrap@5.3.2/dist/css/bootstrap.rtl.min.css''
      else ''https://cdn.jsdelivr.net/npm/bootstrap@5.3.2/dist/css/bootstrap.min.css'')"

definition bootstrap_integrity :: "dir \<Rightarrow> string" where
  "bootstrap_integrity d =
     (if d = Rtl then ''sha384-nU14brUcp6StFntEOOEBvcJm4huWjB0OcIeQ3flBFcfYI4ma8GM6LCA30GASuA8g''
      else ''sha384-T3c6CoIi6uLrA9TneNEoa7RxnatzjcDSCmG1MXxSR1GAsXEV/Dwwykc2MPK8M2HN'')"

abbreviation is_bs :: "link_el \<Rightarrow> bool" where "is_bs l \<equiv> link_id l = BOOTSTRAP_ID"

text \<open>\<open>document.getElementById("bootstrap-css")\<close>: the first such element.\<close>

definition bootstrap_link :: "link_el list \<Rightarrow> link_el option" where
  "bootstrap_link h = find (\<lambda>l. link_id l = BOOTSTRAP_ID) h"

definition new_bootstrap_link :: "dir \<Rightarrow> link_el" where
  "new_bootstrap_link d =
     \<lparr>link_id = BOOTSTRAP_ID, rel = ''stylesheet'', href = bootstrap_href d,
      integrity = bootstrap_integrity d, crossOrigin = ''anonymous''\<rparr>"

definition loadBootstrap :: "dir \<Rightarrow> link_el list \<Rightarrow> link_el list" where
  "loadBootstrap d h =
     (case bootstrap_link h of
        Some e \<Rightarrow> (if href e = bootstrap_href d then h else remove1 e h @ [new_bootstrap_link d])
      | None \<Rightarrow> h @ [new_bootstrap_link d])"

text \<open>The effect of \<open>App\<close>: Arabic is recognised by the exact code \<open>"ar"\<close>.\<close>

definition app_direction_effect :: "document \<Rightarrow> document" where
  "app_direction_effect doc =
     (let d = (if language doc = ''ar'' then Rtl else Ltr)
      in doc\<lparr>html_dir := d, html_lang := language doc, head := loadBootstrap d (head doc)\<rparr>)"

text \<open>The effect of \<open>Layout\<close>: direction from i18next, and the body class.\<close>

definition layout_direction_effect :: "(string \<Rightarrow> dir) \<Rightarrow> document \<Rightarrow> document" where
  "layout_direction_effect i18n_dir doc =
     (let d = i18n_dir (language doc)
      in doc\<lparr>html_dir := d, html_lang := language doc, body_rtl := (d = Rtl)\<rparr>)"

text \<open>The effect of \<open>Header\<close>.\<close>

definition header_direction_effect :: "(string \<Rightarrow> dir) \<Rightarrow> document \<Rightarrow> document" where
  "header_direction_effect i18n_dir doc =
     (let d = i18n_dir (language doc) in doc\<lparr>html_dir := d, html_lang := language doc\<rparr>)"

text \<open>
  A commit after the language changed, with the protected layout on screen:
  the three effects, children first.
\<close>

definition direction_commit :: "(string \<Rightarrow> dir) \<Rightarrow> document \<Rightarrow> document" where
  "direction_commit i18n_dir doc =
     app_direction_effect (layout_direction_effect i18n_dir (header_direction_effect i18n_dir doc))"

text \<open>
  \<open>handleLanguageChange(lang)\<close> of the language switcher and of the sidebar:
  \<open>i18n.changeLanguage(lang)\<close>, which caches the language in
  \<open>localStorage\<close>, then the commit.
\<close>

definition changeLanguage :: "(string \<Rightarrow> dir) \<Rightarrow> string \<Rightarrow> document \<Rightarrow> document" where
  "changeLanguage i18n_dir lang doc =
     direction_commit i18n_dir (doc\<lparr>language := lang, cached_lng := Some lang\<rparr>)"

text \<open>
  The detection order of \<open>i18n.ts\<close>: \<open>localStorage\<close>, cookie, the \<open>lang\<close>
  attribute of \<open><html>\<close>, then the browser's languages; \<open>"en"\<close> when none is
  found.
\<close>

definition detect_language ::
  "string option \<Rightarrow> string option \<Rightarrow> string option \<Rightarrow> string list \<Rightarrow> string" where
  "detect_language stored cookie htmlTag navigatorLangs =
     (case filter (\<lambda>l. l \<noteq> []) (List.map_filter id [stored, cookie, htmlTag] @ navigatorLangs) of
        [] \<Rightarrow> ''en''
      | l # _ \<Rightarrow> l)"

subsection \<open>The stylesheet link\<close>

lemma bootstrap_link_single:
  assumes "length (filter is_bs h) \<le> 1" "bootstrap_link h = Some e"
  shows "filter is_bs h = [e]"
proof -
  have "e \<in> set (filter is_bs h)" using assms(2) by (auto simp: bootstrap_link_def find_Some_iff nth_mem)
  then obtain ys where "filter is_bs h = e # ys \<or> (\<exists>a. filter is_bs h = a # e # ys)"
    using assms(1) by (cases "filter is_bs h") auto
  then show ?thesis using assms(1) by auto
qed

lemma bootstrap_link_removed:
  assumes "length (filter is_bs h) \<le> 1" "bootstrap_link h = Some e"
  shows "filter is_bs (remove1 e h) = []"
proof -
  have "is_bs e" using assms(2) by (auto simp: bootstrap_link_def find_Some_iff)
  then show ?thesis using bootstrap_link_single [OF assms] by (simp add: filter_remove1_self)
qed

lemma new_bootstrap_link_is_bs [simp]: "is_bs (new_bootstrap_link d)" "href (new_bootstrap_link d) = bootstrap_href d"
  by (simp_all add: new_bootstrap_link_def)

lemma loadBootstrap_single:
  assumes "length (filter is_bs h) \<le> 1"
  shows "length (filter is_bs (loadBootstrap d h)) = 1"
proof (cases "bootstrap_link h")
  case None
  then have "filter is_bs h = []" by (auto simp: bootstrap_link_def find_None_iff filter_empty_conv)
  then show ?thesis using None by (simp add: loadBootstrap_def)
next
  case (Some e)
  have f: "filter is_bs h = [e]" by (rule bootstrap_link_single [OF assms Some])
  have "filter is_bs (remove1 e h) = []" by (rule bootstrap_link_removed [OF assms Some])
  then show ?thesis using Some f by (simp add: loadBootstrap_def)
qed

lemma loadBootstrap_href:
  assumes "length (filter is_bs h) \<le> 1"
  shows "map_option href (bootstrap_link (loadBootstrap d h)) = Some (bootstrap_href d)"
proof (cases "bootstrap_link h")
  case None
  then show ?thesis by (simp add: loadBootstrap_def bootstrap_link_def find_append_list)
next
  case (Some e)
  have f: "filter is_bs h = [e]" by (rule bootstrap_link_single [OF assms Some])
  have "filter is_bs (remove1 e h) = []" by (rule bootstrap_link_removed [OF assms Some])
  then have "find is_bs (remove1 e h) = None" by (simp add: find_None_iff filter_empty_conv)
  then show ?thesis using Some
    by (simp add: loadBootstrap_def bootstrap_link_def find_append_list)
qed
lemma bootstrap_href_eq [simp]: "bootstrap_href a = bootstrap_href b \<longleftrightarrow> a = b"
  by (cases a; cases b) (simp_all add: bootstrap_href_def)

lemma changeLanguage_doc:
  "html_dir (changeLanguage i18n_dir lang doc) = (if lang = ''ar'' then Rtl else Ltr)"
  "body_rtl (changeLanguage i18n_dir lang doc) = (i18n_dir lang = Rtl)"
  "head (changeLanguage i18n_dir lang doc) = loadBootstrap (if lang = ''ar'' then Rtl else Ltr) (head doc)"
  by (simp_all add: changeLanguage_def direction_commit_def app_direction_effect_def
      layout_direction_effect_def header_direction_effect_def Let_def)

subsection \<open>Properties of the document direction\<close>

text \<open>
  C18. After a language change, the direction of \<open><html>\<close>, the \<open>rtl\<close>
  class of \<open><body>\<close> and the Bootstrap stylesheet all follow i18next's
  direction for the language exactly when that direction is right-to-left
  for \<open>"ar"\<close> alone. \<open>App\<close> tests the code \<open>"ar"\<close> and runs last, so a
  regional tag such as \<open>"ar-LB"\<close> gets a left-to-right document and
  stylesheet under an \<open>rtl\<close> body class.
\<close>

theorem direction_consistent_iff:
  assumes "length (filter (\<lambda>l. link_id l = BOOTSTRAP_ID) (head doc)) \<le> 1"
  shows "(html_dir (changeLanguage i18n_dir lang doc) = i18n_dir lang
          \<and> body_rtl (changeLanguage i18n_dir lang doc) = (i18n_dir lang = Rtl)
          \<and> map_option href (bootstrap_link (head (changeLanguage i18n_dir lang doc)))
              = Some (bootstrap_href (i18n_dir lang)))
         \<longleftrightarrow> (i18n_dir lang = Rtl \<longleftrightarrow> lang = ''ar'')"
  using loadBootstrap_href [OF assms, of "if lang = ''ar'' then Rtl else Ltr"]
  by (cases "i18n_dir lang") (auto simp: changeLanguage_doc)

theorem direction_consistent_iff_witness:
  "(html_dir (changeLanguage (\<lambda>l. if take 2 l = ''ar'' then Rtl else Ltr) ''ar-LB''
       \<lparr>html_dir = Ltr, html_lang = ''en'', body_rtl = False, head = [], language = ''en'', cached_lng = None\<rparr>)
      = (\<lambda>l. if take 2 l = ''ar'' then Rtl else Ltr) ''ar-LB''
    \<and> body_rtl (changeLanguage (\<lambda>l. if take 2 l = ''ar'' then Rtl else Ltr) ''ar-LB''
       \<lparr>html_dir = Ltr, html_lang = ''en'', body_rtl = False, head = [], language = ''en'', cached_lng = None\<rparr>)
      = ((\<lambda>l. if take 2 l = ''ar'' then Rtl else Ltr) ''ar-LB'' = Rtl)
    \<and> map_option href (bootstrap_link (head (changeLanguage (\<lambda>l. if take 2 l = ''ar'' then Rtl else Ltr) ''ar-LB''
       \<lparr>html_dir = Ltr, html_lang = ''en'', body_rtl = False, head = [], language = ''en'', cached_lng = None\<rparr>)))
      = Some (bootstrap_href ((\<lambda>l. if take 2 l = ''ar'' then Rtl else Ltr) ''ar-LB'')))
   \<longleftrightarrow> ((\<lambda>l. if take 2 l = ''ar'' then Rtl else Ltr) ''ar-LB'' = Rtl \<longleftrightarrow> ''ar-LB'' = ''ar'')"
  by (rule direction_consistent_iff) simp

end
