(* ===== verification/Ui_Widgets.thy ===== *)
theory Ui_Widgets
  imports Js_Values
begin

text \<open>
  The small stateful widgets of \<open>src/frontend/src/components/common\<close>: the
  manual entry of \<open>QRScanner.tsx\<close>, the validity flags of \<open>Input.tsx\<close>, the
  buttons and close paths of \<open>ConfirmationModal.tsx\<close> and
  \<open>UnauthorizedModal.tsx\<close>, the cell grid of \<open>SkeletonTable.tsx\<close>, and the
  props \<open>Input.tsx\<close> and \<open>Button.tsx\<close> hand to react-bootstrap. Each
  widget is its state and the callbacks it calls, in order; the markup is
  not modelled.
\<close>

subsection \<open>QR scanner placeholder\<close>

datatype qr_effect = OnScan string | PreventDefault

definition qr_change :: "string \<Rightarrow> string \<Rightarrow> string" where
  "qr_change value manualInput = value"

definition handleManualSubmit :: "string \<Rightarrow> qr_effect list" where
  "handleManualSubmit manualInput = PreventDefault # (if manualInput \<noteq> [] then [OnScan manualInput] else [])"

text \<open>
  The scanner's form: typing replaces \<open>manualInput\<close>, submitting calls
  \<open>handleManualSubmit\<close> with the current input, which is not reset.
\<close>

datatype qr_event = QrChange string | QrSubmit

fun qr_step :: "string \<Rightarrow> qr_event \<Rightarrow> string \<times> qr_effect list" where
  "qr_step manualInput (QrChange v) = (qr_change v manualInput, [])"
| "qr_step manualInput QrSubmit = (manualInput, handleManualSubmit manualInput)"

fun qr_run :: "string \<Rightarrow> qr_event list \<Rightarrow> string \<times> qr_effect list" where
  "qr_run m [] = (m, [])"
| "qr_run m (e # es) = (let (m1, f1) = qr_step m e; (m2, f2) = qr_run m1 es in (m2, f1 @ f2))"

text \<open>The input current at each submit of a run, starting from \<open>m\<close>.\<close>

fun submitted :: "string \<Rightarrow> qr_event list \<Rightarrow> string list" where
  "submitted m [] = []"
| "submitted m (QrChange v # es) = submitted v es"
| "submitted m (QrSubmit # es) = m # submitted m es"

subsection \<open>Form input\<close>

text \<open>Formik's field meta: whether the field was touched and its error text, if any.\<close>

record field_meta =
  touched :: bool
  meta_error :: "string option"

text \<open>\<open>!!meta.error\<close>: a present, non-empty error text.\<close>

definition has_error :: "field_meta \<Rightarrow> bool" where
  "has_error m \<longleftrightarrow> (case meta_error m of None \<Rightarrow> False | Some e \<Rightarrow> e \<noteq> [])"

definition isInvalid :: "field_meta \<Rightarrow> bool" where
  "isInvalid m \<longleftrightarrow> touched m \<and> has_error m"

definition isValid :: "field_meta \<Rightarrow> bool" where
  "isValid m \<longleftrightarrow> touched m \<and> \<not> has_error m"

definition controlId :: "string option \<Rightarrow> string \<Rightarrow> string" where
  "controlId propsId name = (case propsId of Some i \<Rightarrow> if i \<noteq> [] then i else name | None \<Rightarrow> name)"

text \<open>
  What \<open>Input\<close> renders: the \<open>FloatingLabel\<close>'s \<open>controlId\<close>
  (\<open>props.id || props.name\<close>) and label, the props of \<open>Form.Control\<close>
  (\<open>{...field} {...props} isInvalid isValid\<close>, \<open>props\<close> without
  \<open>label\<close>), and the feedback text \<open>meta.error\<close>. \<open>field\<close> is what
  Formik's \<open>useField(props.name)\<close> returns.
\<close>

record input_view =
  iv_controlId :: jsval
  iv_label :: string
  iv_control :: "(string \<times> jsval) list"
  iv_feedback :: "string option"

definition Input :: "string \<Rightarrow> (string \<times> jsval) list \<Rightarrow> (string \<times> jsval) list \<Rightarrow> field_meta \<Rightarrow> input_view" where
  "Input label props field meta =
     \<lparr>iv_controlId = js_or (js_opt_prop (JObj props) ''id'') (js_opt_prop (JObj props) ''name''),
      iv_label = label,
      iv_control = js_spread (js_spread field props)
                     [(''isInvalid'', JBool (isInvalid meta)), (''isValid'', JBool (isValid meta))],
      iv_feedback = meta_error meta\<rparr>"

text \<open>\<open>Button\<close>: react-bootstrap's button with the caller's props spread onto it.\<close>

definition Button :: "(string \<times> jsval) list \<Rightarrow> (string \<times> jsval) list" where
  "Button props = js_spread [] props"

subsection \<open>Confirmation and access-denied dialogs\<close>

datatype modal_input = CancelButton | ConfirmButton | CloseButton | Backdrop | EscapeKey

datatype modal_callback = OnHide | OnConfirm

text \<open>
  \<open>ConfirmationModal\<close>: both footer buttons are \<open>disabled={isConfirming}\<close>;
  the header close button, the backdrop and the Escape key call \<open>onHide\<close>
  through \<open><Modal onHide>\<close>, which has no such guard.
\<close>

definition confirmation_modal :: "bool \<Rightarrow> bool \<Rightarrow> modal_input \<Rightarrow> modal_callback list" where
  "confirmation_modal show isConfirming input =
     (if \<not> show then []
      else case input of
        CancelButton \<Rightarrow> (if isConfirming then [] else [OnHide])
      | ConfirmButton \<Rightarrow> (if isConfirming then [] else [OnConfirm])
      | _ \<Rightarrow> [OnHide])"

text \<open>\<open>UnauthorizedModal\<close>: every way out calls \<open>onConfirm\<close>.\<close>

definition unauthorized_modal :: "bool \<Rightarrow> modal_input \<Rightarrow> modal_callback list" where
  "unauthorized_modal show input =
     (if \<not> show then []
      else case input of ConfirmButton \<Rightarrow> [] | _ \<Rightarrow> [OnConfirm])"

subsection \<open>Skeleton table\<close>

text \<open>The placeholder cells: one header row of \<open>cols\<close> cells, then \<open>rows\<close> rows.\<close>

definition skeleton_cells :: "nat \<Rightarrow> nat \<Rightarrow> (nat option \<times> nat) list" where
  "skeleton_cells rows cols =
     map (\<lambda>c. (None, c)) [0..<cols] @ concat (map (\<lambda>r. map (\<lambda>c. (Some r, c)) [0..<cols]) [0..<rows])"

subsection \<open>Properties of the widgets\<close>

lemma input_flags_exclusive:
  "\<not> (isInvalid m \<and> isValid m)" "touched m \<Longrightarrow> isInvalid m \<or> isValid m"
  by (auto simp: isInvalid_def isValid_def)

text \<open>
  The validity flags of the rendered control are always Formik's, whatever
  the caller passes; any other prop the caller passes, \<open>value\<close> or
  \<open>onChange\<close> included, replaces the binding Formik's field supplies.
\<close>

lemma Input_flags:
  "map_of (iv_control (Input label props field meta)) ''isInvalid'' = Some (JBool (isInvalid meta))"
  "map_of (iv_control (Input label props field meta)) ''isValid'' = Some (JBool (isValid meta))"
  by (simp_all add: Input_def map_of_js_spread)

lemma Input_prop_overrides_field:
  "k \<noteq> ''isInvalid'' \<Longrightarrow> k \<noteq> ''isValid'' \<Longrightarrow>
   map_of (iv_control (Input label props field meta)) k = (map_of field ++ map_of (rev props)) k"
  by (simp add: Input_def map_of_js_spread map_add_def split: option.splits)

lemma qr_submit_nonempty: "OnScan x \<in> set (handleManualSubmit s) \<longleftrightarrow> x = s \<and> s \<noteq> []"
  by (auto simp: handleManualSubmit_def)

text \<open>
  A run of the scanner form calls \<open>onScan\<close> once per submit whose input
  is non-empty, with that input, in order; the same input submitted twice
  is scanned twice.
\<close>

lemma qr_run_scans:
  "[x. OnScan x \<leftarrow> snd (qr_run m es)] = filter (\<lambda>x. x \<noteq> []) (submitted m es)"
  by (induction m es rule: submitted.induct) (auto simp: qr_change_def handleManualSubmit_def split: prod.splits)

lemma confirming_blocks_buttons:
  "isConfirming \<Longrightarrow> confirmation_modal True isConfirming CancelButton = []
                   \<and> confirmation_modal True isConfirming ConfirmButton = []"
  by (simp add: confirmation_modal_def)

lemma confirming_still_dismissible:
  "confirmation_modal True True CloseButton = [OnHide]"
  by (simp add: confirmation_modal_def)

lemma skeleton_cells_count: "length (skeleton_cells rows cols) = (rows + 1) * cols"
  by (simp add: skeleton_cells_def length_concat comp_def sum_list_triv)

lemma skeleton_rows_distinct: "distinct (concat (map (\<lambda>r. map (\<lambda>c. (Some r, c)) [0..<cols]) [0..<rows]))"
  by (induction rows) (auto simp: distinct_map inj_on_def)

lemma skeleton_cells_distinct: "distinct (skeleton_cells rows cols)"
  using skeleton_rows_distinct [of cols rows] by (auto simp: skeleton_cells_def distinct_map inj_on_def)

end
