(* ===== verification/I18n_Text.thy ===== *)
theory I18n_Text
  imports Prelude
begin

text \<open>
  The translation function \<open>t\<close> that \<open>src/frontend/src/i18n/i18n.ts\<close>
  configures: the resources hold one table for \<open>en\<close> and one for \<open>ar\<close>
  (the JSON files under \<open>i18n/locales\<close>, parameters \<open>en\<close> and \<open>ar\<close> here),
  the fallback language is \<open>en\<close>. For a language code i18next tries the
  code itself, then its language part before the first \<open>-\<close>, then the
  fallback, and returns the first translation found, or the key itself.
  Letter case normalisation of codes is not modelled.
\<close>

type_synonym table = "string \<Rightarrow> string option"

definition fallbackLng :: string where "fallbackLng = ''en''"

text \<open>\<open>resources\<close>: the table of a language, if it has one.\<close>

definition resources :: "table \<Rightarrow> table \<Rightarrow> string \<Rightarrow> table option" where
  "resources en ar lng = (if lng = ''en'' then Some en else if lng = ''ar'' then Some ar else None)"

definition language_only :: "string \<Rightarrow> string" where
  "language_only lng = takeWhile (\<lambda>c. c \<noteq> CHR ''-'') lng"

definition lng_hierarchy :: "string \<Rightarrow> string list" where
  "lng_hierarchy lng = remdups [lng, language_only lng, fallbackLng]"

definition lookup_in :: "table \<Rightarrow> table \<Rightarrow> string \<Rightarrow> string \<Rightarrow> string option" where
  "lookup_in en ar key lng = (case resources en ar lng of None \<Rightarrow> None | Some tb \<Rightarrow> tb key)"

definition i18n_t :: "table \<Rightarrow> table \<Rightarrow> string \<Rightarrow> string \<Rightarrow> string" where
  "i18n_t en ar lng key =
     (case List.map_filter (lookup_in en ar key) (lng_hierarchy lng) of [] \<Rightarrow> key | x # _ \<Rightarrow> x)"

subsection \<open>Properties of the translation\<close>

text \<open>
  A regional code of a language with a table is translated exactly as the
  language itself: \<open>en-US\<close> as \<open>en\<close>, \<open>ar-LB\<close> as \<open>ar\<close>.
\<close>

lemma i18n_t_regional:
  assumes "c = ''en'' \<or> c = ''ar''"
  shows "i18n_t en ar (c @ ''-'' @ r) key = i18n_t en ar c key"
  using assms
  by (auto simp: i18n_t_def lng_hierarchy_def language_only_def fallbackLng_def lookup_in_def
      resources_def map_filter_simps)

lemma i18n_t_unlisted:
  "CHR ''-'' \<notin> set lng \<Longrightarrow> lng \<noteq> ''ar'' \<Longrightarrow>
   i18n_t en ar lng key = (case en key of Some x \<Rightarrow> x | None \<Rightarrow> key)"
proof -
  assume "CHR ''-'' \<notin> set lng" "lng \<noteq> ''ar''"
  then have "language_only lng = lng" by (auto simp: language_only_def takeWhile_eq_all_conv)
  with \<open>lng \<noteq> ''ar''\<close> show ?thesis
    by (simp add: i18n_t_def lng_hierarchy_def fallbackLng_def lookup_in_def resources_def map_filter_simps
        split: option.splits)
qed

end
