(* ===== verification/App_Shell.thy ===== *)
theory App_Shell
  imports Auth_Session Navigation Document_Direction Task_Poller Ui_Widgets I18n_Text
begin

text \<open>
  The application shell that reads the providers' context values: the
  main routes of \<open>routes/AppRoutes.tsx\<close> over the auth context, the values
  \<open>components/layout/Header.tsx\<close> gives its welcome message, what
  \<open>components/layout/AppSidebar.tsx\<close> and
  \<open>components/layout/LanguageSwitcher.tsx\<close> show, the context values and
  hooks of \<open>context/AlertContext.tsx\<close>, \<open>context/TaskContext.tsx\<close> and
  \<open>hooks/useErrorHandler.ts\<close>, \<open>components/layout/Layout.tsx\<close>, the
  access-denied dialog the auth provider renders, and the development-mode
  double effect run of \<open><React.StrictMode>\<close> in \<open>main.tsx\<close>. i18next's \<open>t\<close> is a parameter \<open>t\<close> (the
  translation of a key, the key itself when it has none), its \<open>dir\<close> the
  parameter \<open>i18n_dir\<close> of \<open>Document_Direction\<close>. A view is the data the
  markup renders, not the markup.
\<close>

subsection \<open>The user as the routes and the sidebar read it\<close>

text \<open>
  \<open>Navigation\<close> takes the user as a role option: \<open>None\<close> when \<open>user\<close> is
  falsy (\<open>user ? ... : ...\<close>), otherwise \<open>user?.role\<close> when it is a string.
  A role that is absent or not a string behaves as the empty role: it is
  in no \<open>allowedRoles\<close> list, is not \<open>"user"\<close>, and is falsy or fails
  \<open>includes\<close> in the sidebar filter.
\<close>

definition user_role :: "jsval \<Rightarrow> role option" where
  "user_role u =
     (if truthy u then Some (case js_opt_prop u ''role'' of JStr r \<Rightarrow> r | _ \<Rightarrow> []) else None)"

text \<open>
  The two role tests as the source writes them on the user value:
  \<open>allowedRoles.includes(user?.role ?? "")\<close> of the routes and
  \<open>role && link.roles.includes(role)\<close> of the sidebar, with
  \<open>includes\<close> comparing strictly.
\<close>

definition route_role_allowed :: "jsval \<Rightarrow> role list \<Rightarrow> bool" where
  "route_role_allowed user allowed =
     (let r = js_opt_prop user ''role'' in
      case (if nullish r then JStr [] else r) of JStr x \<Rightarrow> x \<in> set allowed | _ \<Rightarrow> False)"

definition sidebar_role_allowed :: "jsval \<Rightarrow> nav_item \<Rightarrow> bool" where
  "sidebar_role_allowed user l =
     (let r = js_opt_prop user ''role'' in truthy r \<and> (case r of JStr x \<Rightarrow> x \<in> set (roles l) | _ \<Rightarrow> False))"

datatype routes_view = MissingAuthContext | Routed element

text \<open>
  \<open>AppRoutes\<close>: without a provider it renders the error placeholder; with
  one, the main routes for its \<open>user\<close> and \<open>loading\<close>.
\<close>

definition appRoutes :: "auth_context option \<Rightarrow> string list \<Rightarrow> routes_view" where
  "appRoutes auth segs =
     (case auth of
        None \<Rightarrow> MissingAuthContext
      | Some c \<Rightarrow> Routed (resolve (user_role (ctx_user c)) (ctx_loading c) segs))"

text \<open>
  The whole render of \<open>AppRoutes\<close> for the pathname \<open>segs\<close> and the
  \<open>backgroundLocation\<close> of the location's state, if any: the spinner
  alone while loading; otherwise the main routes at the background location
  when there is one, else at the pathname, and, when there is a background
  location, the modal routes at the pathname beside them.
\<close>

definition appRoutesRender :: "auth_context option \<Rightarrow> string list \<Rightarrow> string list option \<Rightarrow> routes_view \<times> page option" where
  "appRoutesRender auth segs background =
     (case auth of
        None \<Rightarrow> (MissingAuthContext, None)
      | Some c \<Rightarrow>
          if ctx_loading c then (Routed Spinner, None)
          else (appRoutes auth (case background of Some b \<Rightarrow> b | None \<Rightarrow> segs),
                case background of Some _ \<Rightarrow> overlay segs | None \<Rightarrow> None))"

subsection \<open>Header, sidebar and language switcher\<close>

text \<open>
  The values of the header's \<open><Trans i18nKey="header.welcome">\<close>:
  \<open>user?.username\<close> and the translation of
  \<open>`usersPage.roles.${user?.role}`\<close>, the role converted as a template
  literal converts it.
\<close>

definition header_welcome :: "(string \<Rightarrow> string) \<Rightarrow> jsval \<Rightarrow> jsval \<times> string" where
  "header_welcome t user =
     (js_opt_prop user ''username'', t (''usersPage.roles.'' @ js_to_string (js_opt_prop user ''role'')))"

text \<open>The name of the current language: \<open>"en"\<close> is English, every other code Arabic.\<close>

definition language_label :: "(string \<Rightarrow> string) \<Rightarrow> string \<Rightarrow> string" where
  "language_label t lang = (if lang = ''en'' then t ''common.english'' else t ''common.arabic'')"

record sidebar_view =
  sb_side :: sidebar_side
  sb_caption :: jsval                              \<comment> \<open>\<open>user?.role || "Guest"\<close>\<close>
  sb_links :: "(string \<times> string \<times> bool) list"   \<comment> \<open>\<open>to\<close>, \<open>t(labelKey)\<close>, \<open>isActive\<close>\<close>
  sb_language :: string

definition appSidebar ::
  "(string \<Rightarrow> string) \<Rightarrow> (string \<Rightarrow> dir) \<Rightarrow> string \<Rightarrow> jsval \<Rightarrow> string \<Rightarrow> sidebar_view" where
  "appSidebar t i18n_dir lang user pathname =
     \<lparr>sb_side = sidebar_side_of (i18n_dir lang = Rtl),
      sb_caption = js_or (js_opt_prop user ''role'') (JStr ''Guest''),
      sb_links = map (\<lambda>l. (nav_to l, t (labelKey l), link_active pathname l)) (allowedLinks (user_role user)),
      sb_language = language_label t lang\<rparr>"

record switcher_view =
  sw_button :: string
  sw_en_class :: string
  sw_ar_class :: string

definition item_class :: "string \<Rightarrow> string \<Rightarrow> string" where
  "item_class currentLanguage code = ''dropdown-item '' @ (if currentLanguage = code then ''active'' else [])"

definition languageSwitcher :: "(string \<Rightarrow> string) \<Rightarrow> string \<Rightarrow> switcher_view" where
  "languageSwitcher t currentLanguage =
     \<lparr>sw_button = t ''common.language'' @ '': '' @ language_label t currentLanguage,
      sw_en_class = item_class currentLanguage ''en'',
      sw_ar_class = item_class currentLanguage ''ar''\<rparr>"

text \<open>
  What \<open>Header\<close> renders: the welcome values and the logout button's
  label; the button's \<open>onClick\<close> is \<open>Auth_Session.header_logout\<close>.
\<close>

definition header_view :: "(string \<Rightarrow> string) \<Rightarrow> jsval \<Rightarrow> (jsval \<times> string) \<times> string" where
  "header_view t user = (header_welcome t user, t ''header.logout'')"

text \<open>
  \<open>Layout\<close>: the sidebar beside the header, both reading the same user,
  language and location.
\<close>

definition layout_view ::
  "(string \<Rightarrow> string) \<Rightarrow> (string \<Rightarrow> dir) \<Rightarrow> string \<Rightarrow> jsval \<Rightarrow> string \<Rightarrow> sidebar_view \<times> (jsval \<times> string) \<times> string" where
  "layout_view t i18n_dir lang user pathname = (appSidebar t i18n_dir lang user pathname, header_view t user)"

text \<open>
  The \<open>UnauthorizedModal\<close> the auth provider renders with
  \<open>show={showUnauthorizedModal}\<close> and
  \<open>onConfirm={() => setShowUnauthorizedModal(false)}\<close>.
\<close>

definition authProviderModal :: "modal_input \<Rightarrow> auth_state \<Rightarrow> auth_state" where
  "authProviderModal input s =
     (if OnConfirm \<in> set (unauthorized_modal (showUnauthorizedModal s) input) then closeUnauthorizedModal s else s)"

subsection \<open>Alert and task contexts\<close>

text \<open>The calls of \<open>react-hot-toast\<close>.\<close>

datatype hot_toast = HotSuccess string | HotError jsval

text \<open>
  The alert context value: \<open>success\<close> and \<open>error\<close> are single toast calls,
  \<open>handleError\<close> is \<open>Alert_Messages.handleError\<close>, whose \<open>ToastError\<close>
  is \<open>toast.error\<close>.
\<close>

definition alert_success :: "string \<Rightarrow> hot_toast list" where
  "alert_success message = [HotSuccess message]"

definition alert_error :: "string \<Rightarrow> hot_toast list" where
  "alert_error message = [HotError (JStr message)]"

definition alert_toast :: "alert \<Rightarrow> hot_toast" where
  "alert_toast a = (case a of ToastError m \<Rightarrow> HotError m)"

text \<open>The task provider's toasts through the alert context it takes them from.\<close>

definition task_toast :: "toast \<Rightarrow> hot_toast list" where
  "task_toast x = (case x of SuccessToast m \<Rightarrow> alert_success m | ErrorToast m \<Rightarrow> alert_error m)"

definition task_toasts :: "poller_effect list \<Rightarrow> hot_toast list" where
  "task_toasts es = concat (map (\<lambda>e. case e of Toast x \<Rightarrow> task_toast x | _ \<Rightarrow> []) es)"

text \<open>
  The value \<open>AlertProvider\<close> memoises with no dependencies: one object for
  the provider's lifetime, so the callbacks the task provider takes from
  it, and its \<open>checkTaskStatus\<close> built on them, never change identity and
  the task provider's initial check runs once per mount.
\<close>

record alert_context =
  ac_success :: "string \<Rightarrow> hot_toast list"
  ac_error :: "string \<Rightarrow> hot_toast list"
  ac_handleError :: "thrown \<Rightarrow> (jsval \<times> alert list) option"

definition alertContextValue :: alert_context where
  "alertContextValue = \<lparr>ac_success = alert_success, ac_error = alert_error, ac_handleError = handleError\<rparr>"

text \<open>\<open>useErrorHandler()\<close>: \<open>{ handle: context.handleError }\<close>, or the error it throws.\<close>

definition useErrorHandler :: "alert_context option \<Rightarrow> string + (thrown \<Rightarrow> (jsval \<times> alert list) option)" where
  "useErrorHandler c =
     (case c of None \<Rightarrow> Inl ''useErrorHandler must be used within an AlertProvider'' | Some v \<Rightarrow> Inr (ac_handleError v))"

record task_context =
  tc_taskId :: "string option"
  tc_taskStatus :: jsval
  tc_isLoading :: bool

definition taskContextValue :: "poller_state \<Rightarrow> task_context" where
  "taskContextValue s = \<lparr>tc_taskId = taskId s, tc_taskStatus = taskStatus s, tc_isLoading = isLoading s\<rparr>"

definition useTask :: "task_context option \<Rightarrow> string + task_context" where
  "useTask c = (case c of None \<Rightarrow> Inl ''useTask must be used within a TaskProvider'' | Some v \<Rightarrow> Inr v)"

subsection \<open>Development mode\<close>

text \<open>
  \<open>main.tsx\<close> renders the application inside \<open><React.StrictMode>\<close>. In a
  development build React then runs the effects of a freshly mounted
  component, their cleanups, and the effects again, with the state of the
  first render. For the task provider the second pass clears and re-installs
  the same interval and runs the initial check a second time.
\<close>

definition strict_mount :: "timestamp \<Rightarrow> storage \<Rightarrow> poller_state \<times> poller_effect list" where
  "strict_mount now st0 =
     (let (s1, es1) = mount now st0; (s2, es2) = initialCheck now s1 in (s2, es1 @ es2))"

subsection \<open>Properties of the shell\<close>

text \<open>
  \<open>user_role\<close> is sound for both tests: on every user value the source's
  role test and the test \<open>Navigation\<close> applies to \<open>user_role\<close> agree, for
  every route of \<open>appRoutesConfig\<close> and every sidebar link.
\<close>

lemma empty_role_not_allowed: "c \<in> set appRoutesConfig \<Longrightarrow> [] \<notin> set (allowedRoles c)"
  by (auto simp: appRoutesConfig_def)

lemma route_role_allowed_user_role:
  assumes "c \<in> set appRoutesConfig"
  shows "route_role_allowed u (allowedRoles c) \<longleftrightarrow>
         (case user_role u of None \<Rightarrow> [] | Some x \<Rightarrow> x) \<in> set (allowedRoles c)"
  using empty_role_not_allowed [OF assms]
  by (cases u) (auto simp: route_role_allowed_def user_role_def js_opt_prop_def nullish_def
      split: option.splits jsval.splits)

lemma sidebar_role_allowed_user_role:
  "filter (sidebar_role_allowed u) NAV_ITEMS = allowedLinks (user_role u)"
  unfolding allowedLinks_def
  by (intro filter_cong refl) (cases u; auto simp: sidebar_role_allowed_def user_role_def js_opt_prop_def
      split: option.splits jsval.splits)

lemma user_role_norm: "js_wf u \<Longrightarrow> user_role (json_norm u) = user_role u"
  by (auto simp: user_role_def json_norm_prop split: jsval.splits)

text \<open>
  For a signed-in user without a role the sidebar's caption reads
  \<open>Guest\<close> while the header asks for the translation of
  \<open>usersPage.roles.undefined\<close>.
\<close>

lemma layout_roleless_user:
  "layout_view t i18n_dir lang (JObj [(''username'', JStr n)]) path =
     (appSidebar t i18n_dir lang (JObj [(''username'', JStr n)]) path,
      (JStr n, t ''usersPage.roles.undefined''), t ''header.logout'')
   \<and> sb_caption (appSidebar t i18n_dir lang (JObj [(''username'', JStr n)]) path) = JStr ''Guest''"
  by (simp add: layout_view_def header_view_def header_welcome_def appSidebar_def js_opt_prop_def js_or_def)

text \<open>
  Every way out of the access-denied dialog closes it, and closing it
  changes nothing else of the provider.
\<close>

lemma authProviderModal_closes:
  "showUnauthorizedModal s \<Longrightarrow> input \<noteq> ConfirmButton \<Longrightarrow>
   authProviderModal input s = s\<lparr>showUnauthorizedModal := False\<rparr>"
  by (cases input) (simp_all add: authProviderModal_def unauthorized_modal_def closeUnauthorizedModal_def)

lemma language_switcher_unlisted:
  "currentLanguage \<noteq> ''en'' \<Longrightarrow> currentLanguage \<noteq> ''ar'' \<Longrightarrow>
   languageSwitcher t currentLanguage =
     \<lparr>sw_button = t ''common.language'' @ '': '' @ t ''common.arabic'',
      sw_en_class = ''dropdown-item '', sw_ar_class = ''dropdown-item ''\<rparr>"
  by (simp add: languageSwitcher_def item_class_def language_label_def)

lemma header_welcome_signed_out: "header_welcome t JNull = (JUndef, t ''usersPage.roles.undefined'')"
  by (simp add: header_welcome_def js_opt_prop_def)

text \<open>
  C6. A login survives a reload: for a user value the login service may
  resolve with and a \<open>JSON.parse\<close> that reads back what
  \<open>JSON.stringify\<close> wrote, the next initial load does not throw, the user
  is signed in exactly when it was, and every path resolves to the element
  it resolved to for the user the service returned.
\<close>

theorem login_reload_restores_routes:
  assumes "u \<noteq> JUndef" and "js_wf u"
    and "\<forall>t. json_stringify u = Some t \<longrightarrow> json_parse t = Some (json_norm u)"
  shows "let (a1, es) = login_settled (LoginResolves u) a
         in es = [Navigate ''/''] \<and>
            (\<exists>a2. initialLoad json_parse (auth_init (auth_store a1)) = Some a2
               \<and> isAuthenticated a2 = isAuthenticated a1
               \<and> (\<forall>segs. appRoutes (Some (authContextValue a2)) segs = Routed (resolve (user_role u) False segs)))"
proof -
  obtain t where t: "json_stringify u = Some t" using assms(1) json_stringify_Some_iff by blast
  let ?a1 = "fst (login_settled (LoginResolves u) a)"
  have "initialLoad json_parse (auth_init (auth_store ?a1))
          = Some ((auth_init (auth_store ?a1))\<lparr>auth_user := json_norm u, loading := False\<rparr>)"
    using initialLoad_stored [of "auth_init (auth_store ?a1)" t json_parse] assms(3) t json_stringify_nonempty [OF t]
    by (simp add: login_settled_def auth_init_def setItem_text_def)
  then show ?thesis
    using user_role_norm [OF assms(2)]
    by (simp add: login_settled_def isAuthenticated_def appRoutes_def authContextValue_def auth_init_def)
qed

theorem login_reload_restores_routes_witness:
  "let (a1, es) = login_settled (LoginResolves (JObj [(''username'', JStr ''ann''), (''role'', JStr ''user'')])) (auth_init Map.empty)
   in es = [Navigate ''/''] \<and>
      (\<exists>a2. initialLoad (\<lambda>_. Some (JObj [(''username'', JStr ''ann''), (''role'', JStr ''user'')])) (auth_init (auth_store a1)) = Some a2
         \<and> isAuthenticated a2 = isAuthenticated a1
         \<and> (\<forall>segs. appRoutes (Some (authContextValue a2)) segs
                   = Routed (resolve (user_role (JObj [(''username'', JStr ''ann''), (''role'', JStr ''user'')])) False segs)))"
  using login_reload_restores_routes
    [of "JObj [(''username'', JStr ''ann''), (''role'', JStr ''user'')]"
        "\<lambda>_. Some (JObj [(''username'', JStr ''ann''), (''role'', JStr ''user'')])" "auth_init Map.empty"]
  by simp

text \<open>
  C13. In a development build, where \<open>React.StrictMode\<close> runs the mount
  effects twice, a provider started with an unexpired persisted task sends
  two status requests for it, and when both answer \<open>SUCCESS\<close> the
  ready toast is shown twice.
\<close>

theorem strict_mount_double_toast:
  assumes "t \<le> t0 + TASK_EXPIRY_MS" and "i \<noteq> []"
  shows "let (s, es) = strict_mount t (saveTaskId t0 i st);
             (s', es') = poller_run s [(t, StatusArrives i (Fetched (JObj [(''status'', JStr ''SUCCESS'')]))),
                                       (t, StatusArrives i (Fetched (JObj [(''status'', JStr ''SUCCESS'')])))]
         in es = [StatusRequest i, StatusRequest i]
          \<and> task_toasts es' = [HotSuccess MSG_READY, HotSuccess MSG_READY]"
proof -
  obtain s es where m: "strict_mount t (saveTaskId t0 i st) = (s, es)" by fastforce
  then have "es = [StatusRequest i, StatusRequest i] \<and> checks s = [i, i]"
    using assms
    by (auto simp: strict_mount_def mount_def initialCheck_def getTaskId_saved checkTaskStatus_def poll_target_def
        status_of_def js_opt_prop_def Let_def pollingEffect_def)
  then show ?thesis using m
    by (simp add: settle_simps task_toasts_def task_toast_def alert_success_def js_opt_prop_def)
qed

theorem strict_mount_double_toast_witness:
  "let (s, es) = strict_mount 0 (saveTaskId 0 ''T1'' Map.empty);
       (s', es') = poller_run s [(0, StatusArrives ''T1'' (Fetched (JObj [(''status'', JStr ''SUCCESS'')]))),
                                 (0, StatusArrives ''T1'' (Fetched (JObj [(''status'', JStr ''SUCCESS'')])))]
   in es = [StatusRequest ''T1'', StatusRequest ''T1'']
    \<and> task_toasts es' = [HotSuccess MSG_READY, HotSuccess MSG_READY]"
  using strict_mount_double_toast [of 0 0 "''T1''" Map.empty] by simp

text \<open>
  C5. A regional English code (\<open>en-US\<close>, which language detection yields
  from the browser when nothing earlier in its order is set) shows the page
  in English, yet the language switcher's button and the sidebar name the
  current language Arabic, and the switcher marks neither entry active.
\<close>

theorem regional_english_labelled_arabic:
  "let lang = ''en-'' @ r; t = i18n_t en ar lang
   in (\<forall>k. t k = i18n_t en ar ''en'' k)
    \<and> sw_button (languageSwitcher t lang)
          = i18n_t en ar ''en'' ''common.language'' @ '': '' @ i18n_t en ar ''en'' ''common.arabic''
    \<and> sw_en_class (languageSwitcher t lang) = ''dropdown-item ''
    \<and> sw_ar_class (languageSwitcher t lang) = ''dropdown-item ''
    \<and> sb_language (appSidebar t i18n_dir lang user path) = i18n_t en ar ''en'' ''common.arabic''"
  using i18n_t_regional [of "''en''" en ar r]
  by (simp add: languageSwitcher_def item_class_def language_label_def appSidebar_def)

text \<open>
  C27. The modal routes are neither protected nor role-gated: with a
  background location in the history state, every session that has
  finished loading, a signed-out visitor's included, gets the camera page of
  \<open>readings/take-photo/:meter_id\<close> rendered beside the main routes at the
  background location.
\<close>

theorem overlay_ignores_session:
  assumes "\<not> ctx_loading c"
  shows "appRoutesRender (Some c) [''readings'', ''take-photo'', m] (Some b)
           = (appRoutes (Some c) b, Some CameraPage)"
  using assms by (simp add: appRoutesRender_def overlay_def seg_match_def)

theorem overlay_ignores_session_witness:
  "\<not> ctx_loading \<lparr>ctx_user = JNull, ctx_isAuthenticated = False, ctx_loading = False\<rparr>
   \<and> appRoutesRender (Some \<lparr>ctx_user = JNull, ctx_isAuthenticated = False, ctx_loading = False\<rparr>)
       [''readings'', ''take-photo'', ''m7''] (Some [''readings''])
     = (Routed (Protected ForbiddenPage), Some CameraPage)"
  using overlay_ignores_session [of "\<lparr>ctx_user = JNull, ctx_isAuthenticated = False, ctx_loading = False\<rparr>"
      "''m7''" "[''readings'']"]
  by (simp add: appRoutes_def user_role_def resolve_def path_is_def seg_match_def appRoutesConfig_def route_element_def)

end
