(* ===== verification/Formatters.thy ===== *)
theory Formatters
  imports Complex_Main Alert_Messages
begin

text \<open>
  \<open>src/frontend/src/utils/formatters.ts\<close>: \<open>formatNumber\<close>,
  \<open>formatCurrency\<close>, \<open>formatDate\<close> and \<open>formatBoolean\<close>. Their guards and
  fallbacks are modelled exactly; the formatting itself is done by the
  browser's \<open>Intl\<close> objects, which enter as parameters: a constructor that
  either throws (\<open>None\<close>, a \<open>RangeError\<close> for a bad locale, currency code or
  option) or returns the formatting function.

  \<open>Number(value)\<close> on a string is ECMAScript's \<open>StringToNumber\<close>: surrounding
  white space is trimmed, the empty string is 0, otherwise the text must be
  a decimal literal (optional sign, digits with an optional fraction and
  exponent, or \<open>Infinity\<close>) or an unsigned \<open>0x\<close>, \<open>0o\<close> or \<open>0b\<close> integer. A
  number is \<open>NaN\<close>, an infinity, or the exact rational value of its literal
  (rounding to binary64 and the sign of zero are not modelled: \<open>isNaN\<close>,
  the only test the code makes, does not depend on them). Characters are
  the 8-bit ones, so the white space is tab, the line terminators LF and
  CR, vertical tab, form feed, space and no-break space.
\<close>

datatype jsnum = NaN | Infinity bool | Finite rat

text \<open>The TypeScript type \<open>number | string | undefined | null\<close>.\<close>

datatype fmt_value = FUndefined | FNull | FNumber jsnum | FString string

subsection \<open>\<open>Number()\<close> on strings\<close>

definition is_js_space :: "char \<Rightarrow> bool" where
  "is_js_space c \<longleftrightarrow> (of_char c :: nat) \<in> {9, 10, 11, 12, 13, 32, 160}"

definition js_trim :: "string \<Rightarrow> string" where
  "js_trim s = rev (dropWhile is_js_space (rev (dropWhile is_js_space s)))"

definition radix_digit :: "nat \<Rightarrow> char \<Rightarrow> nat option" where
  "radix_digit b c =
     (let n = (of_char c :: nat);
          d = (if 48 \<le> n \<and> n \<le> 57 then n - 48
               else if 97 \<le> n \<and> n \<le> 122 then n - 87
               else if 65 \<le> n \<and> n \<le> 90 then n - 55 else b)
      in if d < b then Some d else None)"

text \<open>The value of a non-empty string of digits in base \<open>b\<close>.\<close>

fun radix_value :: "nat \<Rightarrow> nat \<Rightarrow> string \<Rightarrow> nat option" where
  "radix_value b acc [] = Some acc"
| "radix_value b acc (c # cs) =
     (case radix_digit b c of None \<Rightarrow> None | Some d \<Rightarrow> radix_value b (b * acc + d) cs)"

definition non_decimal :: "string \<Rightarrow> nat option" where
  "non_decimal s =
     (case s of
        z # x # ds \<Rightarrow>
          (let b = (if x \<in> {CHR ''x'', CHR ''X''} then 16
                    else if x \<in> {CHR ''o'', CHR ''O''} then 8
                    else if x \<in> {CHR ''b'', CHR ''B''} then 2 else 0)
           in if z \<noteq> CHR ''0'' \<or> b = 0 \<or> ds = [] then None else radix_value b 0 ds)
      | _ \<Rightarrow> None)"

text \<open>\<open>e\<close> followed by an optionally signed non-empty digit string.\<close>

definition exponent_part :: "string \<Rightarrow> int option" where
  "exponent_part s =
     (case s of
        [] \<Rightarrow> Some 0
      | e # r \<Rightarrow>
          (if e \<notin> {CHR ''e'', CHR ''E''} then None
           else (let (sg, ds) = (case r of
                                   c # ds \<Rightarrow> (if c = CHR ''+'' then (1, ds) else if c = CHR ''-'' then (-1, ds) else (1, r))
                                 | [] \<Rightarrow> (1, r))
                 in if ds \<noteq> [] \<and> list_all is_digit ds then Some (sg * int (digits_value ds)) else None)))"

definition scale10 :: "nat \<Rightarrow> int \<Rightarrow> rat" where
  "scale10 m k = (if 0 \<le> k then of_nat m * 10 ^ nat k else of_nat m / 10 ^ nat (- k))"

text \<open>\<open>StrUnsignedDecimalLiteral\<close>.\<close>

definition unsigned_decimal :: "string \<Rightarrow> jsnum" where
  "unsigned_decimal s =
     (if s = ''Infinity'' then Infinity True
      else (let ip = takeWhile is_digit s; r1 = dropWhile is_digit s;
                (fp, r2) = (case r1 of
                              c # t \<Rightarrow> (if c = CHR ''.'' then (takeWhile is_digit t, dropWhile is_digit t) else ([], r1))
                            | [] \<Rightarrow> ([], r1))
            in if ip = [] \<and> fp = [] then NaN
               else case exponent_part r2 of
                      None \<Rightarrow> NaN
                    | Some e \<Rightarrow> Finite (scale10 (digits_value (ip @ fp)) (e - int (length fp)))))"

definition negate :: "jsnum \<Rightarrow> jsnum" where
  "negate n = (case n of NaN \<Rightarrow> NaN | Infinity b \<Rightarrow> Infinity (\<not> b) | Finite r \<Rightarrow> Finite (- r))"

definition string_to_number :: "string \<Rightarrow> jsnum" where
  "string_to_number s =
     (let t = js_trim s in
      if t = [] then Finite 0
      else case non_decimal t of
        Some n \<Rightarrow> Finite (of_nat n)
      | None \<Rightarrow>
          (case t of
             c # u \<Rightarrow>
               (if c = CHR ''+'' then unsigned_decimal u
                else if c = CHR ''-'' then negate (unsigned_decimal u)
                else unsigned_decimal t)
           | [] \<Rightarrow> unsigned_decimal t))"

definition to_number :: "fmt_value \<Rightarrow> jsnum" where
  "to_number v =
     (case v of
        FUndefined \<Rightarrow> NaN
      | FNull \<Rightarrow> Finite 0
      | FNumber n \<Rightarrow> n
      | FString s \<Rightarrow> string_to_number s)"

subsection \<open>The formatters\<close>

datatype currency_display = SymbolDisplay | CodeDisplay

datatype nf_style = DecimalStyle | CurrencyStyle string currency_display

text \<open>\<open>new Intl.NumberFormat(locale, options)\<close>: style and fraction digits.\<close>

type_synonym number_format = "string \<Rightarrow> nf_style \<Rightarrow> nat \<Rightarrow> nat \<Rightarrow> (jsnum \<Rightarrow> string) option"

definition missing_value :: "fmt_value \<Rightarrow> bool" where
  "missing_value v \<longleftrightarrow> v = FUndefined \<or> v = FNull \<or> v = FString []"

text \<open>A result of \<open>None\<close> is an exception that escapes the formatter.\<close>

definition formatNumber :: "number_format \<Rightarrow> fmt_value \<Rightarrow> nat \<Rightarrow> string \<Rightarrow> string option" where
  "formatNumber nf value decimals locale =
     (if missing_value value then Some ''-''
      else (let num = to_number value in
            if num = NaN then Some ''-''
            else map_option (\<lambda>f. f num) (nf locale DecimalStyle decimals decimals)))"

definition formatCurrency ::
  "number_format \<Rightarrow> fmt_value \<Rightarrow> string \<Rightarrow> string \<Rightarrow> bool \<Rightarrow> string option" where
  "formatCurrency nf amount currency locale showSymbol =
     (if missing_value amount then Some ''-''
      else (let num = to_number amount in
            if num = NaN then Some ''-''
            else case nf locale (CurrencyStyle currency (if showSymbol then SymbolDisplay else CodeDisplay)) 0 0 of
                   Some f \<Rightarrow> Some (f num)
                 | None \<Rightarrow>
                     map_option (\<lambda>formatted. if showSymbol then formatted @ '' '' @ currency else formatted)
                       (formatNumber nf (FNumber num) 2 locale)))"

text \<open>
  The argument of \<open>formatDate\<close>: \<open>Date | string | number | null | undefined\<close>;
  a \<open>Date\<close> carries its time value (\<open>None\<close> for an invalid date).
\<close>

datatype date_value = DUndefined | DNull | DDate "int option" | DString string | DNumber jsnum

text \<open>\<open>!date\<close>\<close>

definition date_falsy :: "date_value \<Rightarrow> bool" where
  "date_falsy d =
     (case d of
        DUndefined \<Rightarrow> True | DNull \<Rightarrow> True | DDate _ \<Rightarrow> False
      | DString s \<Rightarrow> s = [] | DNumber n \<Rightarrow> n = NaN \<or> n = Finite 0)"

text \<open>
  \<open>new Date(date).getTime()\<close>: a number goes through \<open>TimeClip\<close> (at most
  \<open>8.64e15\<close> in magnitude, truncated towards zero); a string goes through the
  browser's \<open>Date.parse\<close>, a parameter.
\<close>

definition time_value :: "(string \<Rightarrow> int option) \<Rightarrow> date_value \<Rightarrow> int option" where
  "time_value parse d =
     (case d of
        DDate t \<Rightarrow> t
      | DString s \<Rightarrow> parse s
      | DNumber (Finite r) \<Rightarrow> (if \<bar>r\<bar> \<le> 8640000000000000 then Some (if 0 \<le> r then \<lfloor>r\<rfloor> else \<lceil>r\<rceil>) else None)
      | _ \<Rightarrow> None)"

definition formatDate ::
  "(string \<Rightarrow> (int \<Rightarrow> string) option) \<Rightarrow> (string \<Rightarrow> int option) \<Rightarrow> date_value \<Rightarrow> string \<Rightarrow> string option" where
  "formatDate dtf parse d locale =
     (if date_falsy d then Some ''-''
      else case time_value parse d of
             None \<Rightarrow> Some ''-''
           | Some t \<Rightarrow> map_option (\<lambda>f. f t) (dtf locale))"

definition formatBoolean :: "bool option \<Rightarrow> string \<Rightarrow> string \<Rightarrow> string" where
  "formatBoolean value yesText noText =
     (case value of None \<Rightarrow> ''-'' | Some b \<Rightarrow> if b then yesText else noText)"

lemma time_value_date [simp]: "time_value parse (DDate t) = t"
  by (simp add: time_value_def)

text \<open>
  C21. A string of white space only is not missing for the guard (only
  \<open>""\<close> is), and \<open>Number\<close> reads it as 0: \<open>formatNumber("  ")\<close>
  prints the locale's formatted zero instead of \<open>"-"\<close>.
\<close>

theorem formatNumber_blank_is_zero:
  assumes "s \<noteq> []" and "list_all is_js_space s"
  shows "formatNumber nf (FString s) d locale = map_option (\<lambda>f. f (Finite 0)) (nf locale DecimalStyle d d)"
proof -
  have d: "dropWhile is_js_space s = []" using assms(2) by (simp add: list_all_iff)
  have "string_to_number s = Finite 0" unfolding string_to_number_def js_trim_def d by simp
  then show ?thesis using assms(1) by (simp add: formatNumber_def missing_value_def to_number_def)
qed

theorem formatNumber_blank_is_zero_witness:
  "formatNumber (\<lambda>_ _ _ _. Some (\<lambda>x. if x = Finite 0 then ''0.00'' else ''?''))
     (FString ''  '') 2 ''en'' = Some ''0.00''"
  using formatNumber_blank_is_zero [of "''  ''" "\<lambda>_ _ _ _. Some (\<lambda>x. if x = Finite 0 then ''0.00'' else ''?'')" 2 "''en''"]
  by (simp add: is_js_space_def)

subsection \<open>Properties of the formatters\<close>

text \<open>
  When \<open>Intl\<close> accepts the currency, the amount is printed by the
  formatter created with no fraction digits at all.
\<close>

lemma formatCurrency_no_fraction:
  "\<not> missing_value amount \<Longrightarrow> to_number amount \<noteq> NaN \<Longrightarrow>
   nf locale (CurrencyStyle c (if s then SymbolDisplay else CodeDisplay)) 0 0 = Some f \<Longrightarrow>
   formatCurrency nf amount c locale s = Some (f (to_number amount))"
  by (simp add: formatCurrency_def)

text \<open>
  C26. When \<open>Intl\<close> rejects the currency, \<open>formatCurrency\<close> falls back to the
  number with two decimals followed by the currency code; when the number
  formatter throws too (a bad locale), the exception escapes.
\<close>

theorem formatCurrency_fallback:
  assumes "\<not> missing_value amount" and "to_number amount \<noteq> NaN"
    and "nf locale (CurrencyStyle currency SymbolDisplay) 0 0 = None"
  shows "formatCurrency nf amount currency locale True =
           map_option (\<lambda>g. g (to_number amount) @ '' '' @ currency) (nf locale DecimalStyle 2 2)"
  using assms by (simp add: formatCurrency_def formatNumber_def missing_value_def to_number_def Let_def
      option.map_comp comp_def)

theorem formatCurrency_fallback_witness:
  "formatCurrency (\<lambda>l st a b. case st of DecimalStyle \<Rightarrow> Some (\<lambda>_. ''1,234.50'') | CurrencyStyle c d \<Rightarrow> None) (FString ''1234.5'') ''LBP'' ''en-US'' True = Some ''1,234.50 LBP''"
  using formatCurrency_fallback [of "FString ''1234.5''" "(\<lambda>l st a b. case st of DecimalStyle \<Rightarrow> Some (\<lambda>_. ''1,234.50'') | CurrencyStyle c d \<Rightarrow> None)" "''en-US''" "''LBP''"]
  by (simp add: missing_value_def to_number_def string_to_number_def js_trim_def is_js_space_def
      non_decimal_def unsigned_decimal_def is_digit_def exponent_part_def)

text \<open>
  C28. \<open>formatDate\<close> prints a timestamp and the \<open>Date\<close> of the same instant
  alike, except at the epoch: the timestamp 0 is falsy and prints as
  \<open>"-"\<close>, while the \<open>Date\<close> object is truthy and prints the date.
\<close>

theorem formatDate_number_vs_date:
  assumes "dtf locale = Some f" and "f 0 \<noteq> ''-''" and "\<bar>t\<bar> \<le> 8640000000000000"
  shows "formatDate dtf parse (DNumber (Finite (of_int t))) locale = formatDate dtf parse (DDate (Some t)) locale
         \<longleftrightarrow> t \<noteq> 0"
proof -
  have "of_int \<bar>t\<bar> \<le> (of_int 8640000000000000 :: rat)"
    using assms(3) by (simp only: of_int_le_iff)
  then have "\<bar>of_int t :: rat\<bar> \<le> 8640000000000000" by simp
  then have tv: "time_value parse (DNumber (Finite (of_int t))) = Some t"
    by (simp add: time_value_def)
  show ?thesis
    using assms by (simp add: formatDate_def date_falsy_def tv time_value_date)
qed

theorem formatDate_number_vs_date_witness:
  "(formatDate (\<lambda>_. Some (\<lambda>t. if t = 0 then ''Jan 01, 1970'' else ''Jan 02, 1970'')) (\<lambda>_. None)
      (DNumber (Finite (of_int 86400000))) ''en-US''
    = formatDate (\<lambda>_. Some (\<lambda>t. if t = 0 then ''Jan 01, 1970'' else ''Jan 02, 1970'')) (\<lambda>_. None)
      (DDate (Some 86400000)) ''en-US'')
   \<longleftrightarrow> (86400000::int) \<noteq> 0"
  using formatDate_number_vs_date
    [of "\<lambda>_. Some (\<lambda>t. if t = 0 then ''Jan 01, 1970'' else ''Jan 02, 1970'')" "''en-US''"
        "\<lambda>t. if t = 0 then ''Jan 01, 1970'' else ''Jan 02, 1970''" 86400000 "\<lambda>_. None"]
  by simp

end
