(* ===== verification/Spec2Isabelle.thy ===== *)
theory Spec2Isabelle
  imports Session_Guard Task_Poller Auth_Session Navigation Alert_Messages Paginated_Fetch Report_Month Camera App_Shell
    Formatters Document_Direction Ui_Widgets
begin

text \<open>
  Verification development of the browser client of the utility-billing
  administration system (\<open>src/frontend/src\<close>, TypeScript and React). The
  client's logic with state of its own is modelled as a shallow embedding:
  every component is a record of its state and one executable definition per
  operation, returning the new state and the list of externally visible
  effects (HTTP calls, replays, rejections, dispatched events, toasts,
  navigation, camera tracks) in the order the source performs them.
  Asynchronous functions are split at each \<open>await\<close> into the part before it
  and the continuation, which runs as a separate event; the single
  JavaScript event loop makes a run a list of such events. React is
  modelled by what the code observes of it: a state update re-renders when a
  value changes, a setter of an unmounted component does nothing, and after
  each render the effects whose dependency lists changed run, children
  first.

  \<^bold>\<open>Theories and the code they model.\<close>
  \<^item> \<open>Prelude\<close>: the collection \<open>model_defs\<close>, timestamps (\<open>Date.now()\<close> in
    milliseconds, as \<open>nat\<close>) and generic lemmas on lists and counts.
  \<^item> \<open>Js_Values\<close>: JavaScript values of HTTP payloads, truthiness, \<open>&&\<close>,
    \<open>??\<close>, property access (a \<open>TypeError\<close> on \<open>null\<close>/\<open>undefined\<close> is \<open>None\<close>),
    \<open>?.\<close>, and \<open>String.includes\<close> (proved equal to \<open>sublist\<close>).
  \<^item> \<open>Session_Guard\<close>: the response interceptor of
    \<open>services/axiosInstance.ts\<close>. Module state \<open>isRefreshing\<close> and
    \<open>failedQueue\<close>, plus the handler suspended on the refresh call;
    \<open>onError\<close> is the handler up to \<open>await authService.refreshToken()\<close>,
    \<open>refreshSettled\<close> its try/catch/finally, \<open>processQueue\<close> the queue
    settlement; \<open>guard_run\<close> and \<open>guard_reachable\<close> give runs and
    reachable states. Effects follow the event loop: the trigger's replay
    and the \<open>sessionExpired\<close> dispatch are synchronous and come first, the
    queued callers' \<open>.then\<close>/\<open>.catch\<close> callbacks run after them as
    microtasks, in queue order. Lemmas: the reachable-state invariant, at
    most one refresh in flight, the replay and rejection order, the error
    classification (C1--C4, C7, C8).
  \<^item> \<open>Task_Storage\<close>: \<open>utils/taskStorage.ts\<close> over \<open>localStorage\<close> as a
    map from keys to strings. \<open>JSON.stringify\<close> of \<open>StoredTask\<close> is modelled
    exactly (string escaping of code units below 256, decimal expiry);
    \<open>JSON.parse\<close> is modelled as the decoder of that canonical text and
    treats every other text as unparsable (valid JSON that
    \<open>saveTaskId\<close> never writes, such as text with extra whitespace, is a
    parse failure in the model but not in the browser). Lemmas: a saved id
    is read back within the expiry window whatever characters it holds
    (C9), eviction after it (C11), idempotence and the frame of the other
    keys.
  \<^item> \<open>Task_Poller\<close>: \<open>context/TaskContext.tsx\<close>. React state, the live
    interval, in-flight status calls and storage; \<open>checkTaskStatus\<close> split
    at its \<open>await\<close>; the payload normalisation over JavaScript values; a
    commit is a render (which calls \<open>getTaskId\<close>) followed by the polling
    effect. Lemmas: the terminal statuses (C14, C17, C19), mount with a
    live or an expired persisted task (C22, C15), and the findings on stale
    answers and on polling after expiry (C24, C25). The initial-check
    effect is \<open>initialCheck\<close>, run once by \<open>mount\<close>; a screen's own call of
    the context's \<open>checkTaskStatus\<close> is the event \<open>CheckStatus\<close>.
  \<^item> \<open>Json_Text\<close>: \<open>JSON.stringify\<close> of JavaScript values (members with
    value \<open>undefined\<close> dropped, \<open>undefined\<close> array elements as \<open>null\<close>,
    \<open>undefined\<close> without text), \<open>json_norm\<close>, the value \<open>JSON.parse\<close>
    returns for that text, and \<open>js_wf\<close>, objects with distinct keys.
  \<^item> \<open>Auth_Session\<close>: \<open>context/AuthContext.tsx\<close>. The user is the
    JavaScript value the login service resolved with; \<open>login\<close> is split at
    its \<open>await\<close> (\<open>login\<close>, \<open>login_settled\<close>) and stores the
    \<open>JSON.stringify\<close> text; the initial load restores it with
    \<open>JSON.parse\<close>, a parameter whose rejection makes the effect throw
    (\<open>None\<close>). Also logout (and the header's logout button), the
    \<open>authError\<close> listener, the access-denied dialog, the context value and
    \<open>useAuth\<close>; \<open>deliver\<close> hands the session guard's \<open>Dispatch\<close> effects
    to the listener synchronously, as \<open>window.dispatchEvent\<close> does (C20).
  \<^item> \<open>Navigation\<close>: the route table and the main and modal \<open><Routes>\<close> of
    \<open>routes/AppRoutes.tsx\<close>, the sidebar's role filter, active link, role
    label and side in \<open>components/layout/AppSidebar.tsx\<close>; a location is its
    list of path segments, matched against route paths case-insensitively
    as React Router does for a route without \<open>caseSensitive\<close>
    (C31--C33).
  \<^item> \<open>Alert_Messages\<close>: \<open>handleError\<close> of \<open>context/AlertContext.tsx\<close>,
    with \<open>||\<close> and template-literal conversion (C34--C36); a number
    is printed as its decimal digits, exact for the safe integers a
    \<open>JNum\<close> stands for (exponent notation from \<open>1e21\<close> is outside the model).
  \<^item> \<open>Paginated_Fetch\<close>: \<open>hooks/usePaginatedFetch.ts\<close> with React's render
    count and effect dependencies, and the page control of
    \<open>components/common/Pagination.tsx\<close> (C37, C38).
  \<^item> \<open>Report_Month\<close>: \<open>getDefaultMonth\<close> of \<open>utils/dateHelpers.ts\<close>,
    refined against a reader of the \<open>YYYY-MM\<close> text, with the rule of
    \<open>new Date(y, m, 1)\<close> that takes a year from 0 to 99 as \<open>1900 + y\<close>
    (C39).
  \<^item> \<open>Camera\<close>: \<open>hooks/useCamera.ts\<close>: refs, state and the browser's running
    streams, \<open>startCamera\<close> split at \<open>getUserMedia\<close> with its answers as
    events in any order, \<open>stopCamera\<close>, \<open>capturePhoto\<close> and the unmount
    cleanup; the invariant of non-overlapping use and the stream leaks of
    overlapping use (C12, C16).
  \<^item> \<open>Formatters\<close>: \<open>utils/formatters.ts\<close>, with \<open>Number()\<close> as
    ECMAScript's \<open>StringToNumber\<close> over exact rationals and the \<open>Intl\<close>
    constructors and \<open>Date.parse\<close> as parameters: blank text formatted as
    zero (C21), the currency fallback (C26), the epoch (C28).
  \<^item> \<open>Document_Direction\<close>: \<open>loadBootstrap\<close> and the direction effect of
    \<open>App.tsx\<close>, the direction effects of \<open>Layout.tsx\<close> and \<open>Header.tsx\<close>,
    the language switch and the detection order of \<open>i18n/i18n.ts\<close>, with
    i18next's \<open>dir()\<close> as a parameter (C18).
  \<^item> \<open>Ui_Widgets\<close>: the QR entry form and its runs, the props \<open>Input\<close>
    hands to \<open>Form.Control\<close> (object spread, \<open>js_spread\<close> of \<open>Js_Values\<close>)
    with its validity flags, \<open>Button\<close>'s props, the two dialogs and the
    skeleton table of \<open>components/common\<close>.
  \<^item> \<open>I18n_Text\<close>: the \<open>t\<close> function \<open>i18n/i18n.ts\<close> configures: the
    \<open>en\<close> and \<open>ar\<close> tables (the locale files, parameters), the lookup
    through the code, its language part and the fallback \<open>en\<close>.
  \<^item> \<open>App_Shell\<close>: the components that read the providers' values:
    \<open>AppRoutes\<close> over the auth context, with its modal routes (\<open>user_role\<close> is the user as the
    routes and the sidebar read it, proved to agree with the source's two
    role tests on every user value), the header's welcome values, what the
    sidebar, the language switcher and \<open>Layout\<close> render, the provider's
    access-denied dialog, the alert context's toast calls and the task
    provider's toasts through them, \<open>useTask\<close> and \<open>useErrorHandler\<close>,
    and \<open>strict_mount\<close>, the double effect run of \<open><React.StrictMode>\<close>
    in \<open>main.tsx\<close> in a development build. Lemmas: a login survives a
    reload (C6), StrictMode's duplicate status check (C13), a regional
    English code shown in English but labelled Arabic (C5), and the modal
    routes rendered for any session (C27).
  \<^item> This theory: properties that span components, the session guard
    feeding the auth listener (C29, C30) and racing a new login (C10), the
    auth provider and the task
    poller sharing \<open>localStorage\<close> across a logout (C23), and
    \<open>handleError\<close> inside the paginated fetch (C40).

  \<^bold>\<open>How the parts interact.\<close> Every HTTP call goes through the session
  guard; its \<open>authError\<close> events reach the auth provider, which signs the user
  out (\<open>sessionExpired\<close>) or opens the access-denied dialog
  (\<open>unauthorized\<close>). The task poller and the auth provider share
  \<open>localStorage\<close>; the frame lemmas show each touches only its own key, and
  the task provider, mounted above the routes, outlives a logout. The
  paginated fetch reports failures through \<open>handleError\<close>. The routes and
  the sidebar read the signed-in user's role from the auth context's user
  value, which survives a reload through \<open>localStorage\<close> as JSON text; the
  task provider's toasts go through the alert context; the language switch
  drives the direction effects of three components.

  \<^bold>\<open>Bounds and fuel.\<close> No definition needs fuel: every loop of the code is a
  \<open>forEach\<close> or \<open>map\<close> over a finite list, and the one fixpoint, the
  re-commit of the paginated fetch after its effect's \<open>setIsLoading(true)\<close>,
  is a \<open>function\<close> whose termination is proved by a measure (a commit
  with \<open>isLoading\<close> unset renders at most twice). Timers, the network and the camera are not clocks in
  the model: a tick, an answer or a refresh outcome is an event, so every
  interleaving the event loop allows is a list of events, and the run
  theorems quantify over those lists.

  \<^bold>\<open>Not modelled.\<close> Markup and styling; the contents of the translation
  tables (the locale files are not under \<open>src\<close>; the lookup is modelled); the
  output of the browser's \<open>Intl\<close> formatters, \<open>Date.parse\<close> and i18next's
  right-to-left table (parameters of the model); rounding of numbers to
  binary64; the pixels a photo captures; the \<open>ProtectedRoute\<close> module, which
  \<open>AppRoutes.tsx\<close> imports but the repository does not contain (kept as an
  opaque wrapper); \<open>JSON.parse\<close> itself (a parameter; the theorems that
  need it assume it reads back what \<open>JSON.stringify\<close> wrote); the
  StrictMode double run of the effects of components other than the task
  provider; letter-case normalisation of language codes by i18next; the
  service modules and \<open>getDeviceId\<close>, which are not in the
  repository (their calls are the effects and inputs of the model).
\<close>

section \<open>Properties across components\<close>

lemma refresh_failure_effects:
  assumes "eligible e0" and "list_all eligible es"
  shows "guard_run guard_init (ResponseError e0 # map ResponseError es @ [RefreshSettles (RefreshFailed err)]) =
     (guard_init, CallRefresh # Dispatch SessionExpired # map (\<lambda>e. Reject (req_id (err_config e)) (RefreshRejected err)) es
                  @ [Reject (req_id (err_config e0)) (RefreshRejected err)])"
  by (simp only: guard_run_first_401_then [OF assms]) (simp add: refreshSettled_failed guard_init_def)

text \<open>
  C29. A failed refresh signs the user out exactly once: when N requests
  fault with 401 and the refresh fails, the auth listener receives one
  \<open>sessionExpired\<close>, removes the stored user, clears the user state and
  navigates to the login page once, and the persisted task is untouched.
\<close>

theorem refresh_failure_signs_out_once:
  assumes "eligible e0" and "list_all eligible es" and "stored_truthy (auth_store a) USER_KEY"
  shows "let (g, ges) = guard_run guard_init
                          (ResponseError e0 # map ResponseError es @ [RefreshSettles (RefreshFailed err)]);
             (a', aes) = deliver a ges
         in auth_user a' = JNull \<and> auth_store a' USER_KEY = None \<and> aes = [Navigate ''/login'']
          \<and> auth_store a' TASK_ID_KEY = auth_store a TASK_ID_KEY"
proof -
  have nd: "\<forall>r. Dispatch r \<notin> set (map (\<lambda>e. Reject (req_id (err_config e)) (RefreshRejected err)) es)"
    by auto
  show ?thesis
    unfolding refresh_failure_effects [OF assms(1,2)] using assms(3)
    by (simp add: deliver_append deliver_no_dispatch [OF nd] handleAuthError_def logout_def)
qed

text \<open>
  C10. The order of a login and a failing refresh decides the session: a
  refresh started by a 401 before the login that fails after it dispatches
  \<open>sessionExpired\<close>, which signs the new user out and navigates to the
  login page; had the refresh failed before the login settled, the new user
  would stay signed in.
\<close>

theorem stale_refresh_signs_out_new_login:
  assumes "eligible e0" and "truthy u"
  shows "let (g, ges) = guard_run guard_init [ResponseError e0, RefreshSettles (RefreshFailed err)];
             (a1, aes1) = login_settled (LoginResolves u) a;
             (a2, aes2) = deliver a1 ges;
             (b1, bes1) = deliver a ges;
             (b2, bes2) = login_settled (LoginResolves u) b1
         in aes1 = [Navigate ''/''] \<and> isAuthenticated a1
          \<and> \<not> isAuthenticated a2 \<and> auth_store a2 USER_KEY = None \<and> aes2 = [Navigate ''/login'']
          \<and> isAuthenticated b2 \<and> auth_store b2 USER_KEY = Some (setItem_text (json_stringify u))"
proof -
  have g: "guard_run guard_init [ResponseError e0, RefreshSettles (RefreshFailed err)] =
             (guard_init, [CallRefresh, Dispatch SessionExpired, Reject (req_id (err_config e0)) (RefreshRejected err)])"
    using refresh_failure_effects [of e0 "[]" err] assms(1) by simp
  show ?thesis
    unfolding g using assms(2) setItem_text_nonempty [of u]
    by (simp add: login_settled_def isAuthenticated_def handleAuthError_def logout_def stored_truthy_def
        split: prod.splits)
qed

theorem stale_refresh_signs_out_new_login_witness:
  "let (g, ges) = guard_run guard_init [ResponseError \<lparr>err_code = None, err_status = Some 401, err_config = \<lparr>req_id = 1, req_url = Some ''/bills'', req_retry = False\<rparr>\<rparr>, RefreshSettles (RefreshFailed ''expired'')];
       (a1, aes1) = login_settled (LoginResolves (JObj [(''role'', JStr ''admin'')])) (auth_init Map.empty);
       (a2, aes2) = deliver a1 ges;
       (b1, bes1) = deliver (auth_init Map.empty) ges;
       (b2, bes2) = login_settled (LoginResolves (JObj [(''role'', JStr ''admin'')])) b1
   in aes1 = [Navigate ''/''] \<and> isAuthenticated a1
    \<and> \<not> isAuthenticated a2 \<and> auth_store a2 USER_KEY = None \<and> aes2 = [Navigate ''/login'']
    \<and> isAuthenticated b2 \<and> auth_store b2 USER_KEY = Some (setItem_text (json_stringify (JObj [(''role'', JStr ''admin'')])))"
  using stale_refresh_signs_out_new_login [of "\<lparr>err_code = None, err_status = Some 401, err_config = \<lparr>req_id = 1, req_url = Some ''/bills'', req_retry = False\<rparr>\<rparr>" "JObj [(''role'', JStr ''admin'')]" "''expired''" "auth_init Map.empty"]
  by (simp add: eligible_def recoverable_def is_refresh_call_def)

text \<open>
  C30. A 403 answer opens the access-denied dialog and leaves the session
  alone: the user, the storage and the refresh state are unchanged and
  nothing is navigated.
\<close>

theorem forbidden_opens_dialog:
  assumes "err_code e \<noteq> Some ''ECONNABORTED''" and "err_status e = Some 403"
  shows "let (g', ges) = onError g e; (a', aes) = deliver a ges
         in g' = g \<and> showUnauthorizedModal a' \<and> auth_user a' = auth_user a
          \<and> auth_store a' = auth_store a \<and> aes = []"
  using assms by (simp add: onError_unrecoverable recoverable_def handleAuthError_def)

text \<open>
  C40. A failed page fetch whose error makes \<open>handleError\<close> itself throw
  (C34) leaves the previous page on screen: \<open>setData([])\<close> and
  \<open>setPagination(null)\<close> are skipped, no toast is shown, and only the
  \<open>finally\<close> block runs.
\<close>

theorem rejected_fetch_keeps_stale_page:
  assumes "handleError e = None" and "deps_behind s"
  shows "pf_data (fetchData_settled (Rejected e) s) = pf_data s
       \<and> pf_pagination (fetchData_settled (Rejected e) s) = pf_pagination s
       \<and> pf_alerts (fetchData_settled (Rejected e) s) = pf_alerts s"
  using assms by (simp add: fetchData_settled_def commit_pf_idle deps_behind_def split: option.splits)

text \<open>
  C23. Signing out does not end the previous user's background task: the
  header's logout clears the stored user and calls the logout endpoint, but
  leaves the persisted task and the task provider, which sits above the
  routes, so its interval keeps requesting the task's status for the
  signed-out browser (and for whoever signs in next).
\<close>

theorem logout_keeps_polling_task:
  assumes "stored_truthy st USER_KEY" and "interval p = Some i"
  shows "let (a', aes) = header_logout (a\<lparr>auth_store := st\<rparr>);
             (p', pes) = poller_step now (p\<lparr>store := auth_store a'\<rparr>) TimerTick
         in auth_user a' = JNull \<and> aes = [LogoutApiCall, Navigate ''/login'']
          \<and> auth_store a' TASK_ID_KEY = st TASK_ID_KEY \<and> pes = [StatusRequest i]"
  using assms by (simp add: header_logout_signed_in checkTaskStatus_def)

theorem refresh_failure_signs_out_once_witness:
  "let (g, ges) = guard_run guard_init
                    (ResponseError \<lparr>err_code = None, err_status = Some 401, err_config = \<lparr>req_id = 1, req_url = Some ''/bills'', req_retry = False\<rparr>\<rparr> # map ResponseError [\<lparr>err_code = None, err_status = Some 401, err_config = \<lparr>req_id = 2, req_url = Some ''/bills'', req_retry = False\<rparr>\<rparr>]
                     @ [RefreshSettles (RefreshFailed ''expired'')]);
       (a', aes) = deliver (auth_init [USER_KEY \<mapsto> ''{}'', TASK_ID_KEY \<mapsto> ''t'']) ges
   in auth_user a' = JNull \<and> auth_store a' USER_KEY = None \<and> aes = [Navigate ''/login'']
    \<and> auth_store a' TASK_ID_KEY = auth_store (auth_init [USER_KEY \<mapsto> ''{}'', TASK_ID_KEY \<mapsto> ''t'']) TASK_ID_KEY"
  using refresh_failure_signs_out_once [of "\<lparr>err_code = None, err_status = Some 401, err_config = \<lparr>req_id = 1, req_url = Some ''/bills'', req_retry = False\<rparr>\<rparr>" "[\<lparr>err_code = None, err_status = Some 401, err_config = \<lparr>req_id = 2, req_url = Some ''/bills'', req_retry = False\<rparr>\<rparr>]" "auth_init [USER_KEY \<mapsto> ''{}'', TASK_ID_KEY \<mapsto> ''t'']" "''expired''"]
  by (simp add: eligible_def recoverable_def is_refresh_call_def auth_init_def stored_truthy_def)

theorem forbidden_opens_dialog_witness:
  "let (g', ges) = onError guard_init \<lparr>err_code = None, err_status = Some 403, err_config = \<lparr>req_id = 3, req_url = Some ''/bills'', req_retry = False\<rparr>\<rparr>; (a', aes) = deliver (auth_init [USER_KEY \<mapsto> ''{}'', TASK_ID_KEY \<mapsto> ''t'']) ges
   in g' = guard_init \<and> showUnauthorizedModal a' \<and> auth_user a' = auth_user (auth_init [USER_KEY \<mapsto> ''{}'', TASK_ID_KEY \<mapsto> ''t''])
    \<and> auth_store a' = auth_store (auth_init [USER_KEY \<mapsto> ''{}'', TASK_ID_KEY \<mapsto> ''t'']) \<and> aes = []"
  by (rule forbidden_opens_dialog) simp_all

theorem logout_keeps_polling_task_witness:
  "let (a', aes) = header_logout ((auth_init Map.empty)\<lparr>auth_store := [USER_KEY \<mapsto> ''{}'', TASK_ID_KEY \<mapsto> ''t'']\<rparr>);
       (p', pes) = poller_step 5 (\<lparr>taskId = Some ''T1'', taskStatus = JNull, isLoading = False, interval = Some ''T1'', checks = [], store = Map.empty\<rparr>\<lparr>store := auth_store a'\<rparr>) TimerTick
   in auth_user a' = JNull \<and> aes = [LogoutApiCall, Navigate ''/login'']
    \<and> auth_store a' TASK_ID_KEY = ([USER_KEY \<mapsto> ''{}'', TASK_ID_KEY \<mapsto> ''t'']) TASK_ID_KEY \<and> pes = [StatusRequest ''T1'']"
  using logout_keeps_polling_task [of "[USER_KEY \<mapsto> ''{}'', TASK_ID_KEY \<mapsto> ''t'']" "\<lparr>taskId = Some ''T1'', taskStatus = JNull, isLoading = False, interval = Some ''T1'', checks = [], store = Map.empty\<rparr>" "''T1''" "auth_init Map.empty" 5]
  by (simp add: stored_truthy_def)

theorem rejected_fetch_keeps_stale_page_witness:
  "pf_data (fetchData_settled (Rejected (ThrownAxios (JObj [(''fieldErrors'', JArr [JNull])]) ''Request failed''))
             (pf_mount\<lparr>pf_data := [JNum 7], pf_isLoading := False\<rparr>)) = [JNum 7]
   \<and> pf_pagination (fetchData_settled (Rejected (ThrownAxios (JObj [(''fieldErrors'', JArr [JNull])]) ''Request failed''))
             (pf_mount\<lparr>pf_data := [JNum 7], pf_isLoading := False\<rparr>)) = None
   \<and> pf_alerts (fetchData_settled (Rejected (ThrownAxios (JObj [(''fieldErrors'', JArr [JNull])]) ''Request failed''))
             (pf_mount\<lparr>pf_data := [JNum 7], pf_isLoading := False\<rparr>)) = []"
  using rejected_fetch_keeps_stale_page [of "ThrownAxios (JObj [(''fieldErrors'', JArr [JNull])]) ''Request failed''"
                                            "pf_mount\<lparr>pf_data := [JNum 7], pf_isLoading := False\<rparr>"]
  by (simp add: handleError_def error_message_def axios_message_def js_opt_prop_def
      pf_mount_eq pf_init_def deps_behind_def)

end
